(* ===== verification/Prelude.thy ===== *)
theory Prelude
  imports Main "HOL-Library.Word" "HOL-Library.AList" "HOL-Library.List_Lexorder"
    "HOL-Library.Char_ord" "HOL-Library.Code_Target_Numeral"
begin

text \<open>
  Shared vocabulary of the development. Go's \<open>int64\<close> is a \<open>64 word\<close> read with
  \<open>sint\<close> and compared with the signed order \<open>\<le>s\<close>; \<open>uint64\<close> arithmetic that cannot
  wrap is done on \<open>nat\<close> with the bound proved, and where it can wrap the
  \<open>mod 2 ^ 64\<close> is written out. A Go map is an association list with distinct keys
  (\<open>gomap_wf\<close>): the list order is one of the orders in which \<open>range\<close> may visit the
  map, and the map itself is \<open>map_of\<close> of the list. The writes \<open>m[k] = v\<close> of the
  sources are \<open>AList.update k v m\<close>. The lemmas below are the facts on these
  encodings that the component theories share.
\<close>

named_theorems go_simps "evaluation rules of the Go library models"

type_synonym int64 = "64 word"
type_synonym ('k, 'v) gomap = "('k \<times> 'v) list"

definition gomap_wf :: "('k, 'v) gomap \<Rightarrow> bool" where
  "gomap_wf m \<longleftrightarrow> distinct (map fst m)"

definition int64_min :: int where
  "int64_min = - (2 ^ 63)"

definition int64_max :: int where
  "int64_max = 2 ^ 63 - 1"

text \<open>Go's truncating integer division and remainder (\<open>/\<close> and \<open>%\<close> on signed integers).\<close>

definition go_quot :: "int \<Rightarrow> int \<Rightarrow> int" where
  "go_quot a b = sgn a * sgn b * (\<bar>a\<bar> div \<bar>b\<bar>)"

definition go_rem :: "int \<Rightarrow> int \<Rightarrow> int" where
  "go_rem a b = a - go_quot a b * b"

text \<open>Byte classes of Go's lexers (ASCII only, as Go compares bytes).\<close>

definition is_digit :: "char \<Rightarrow> bool" where
  "is_digit c \<longleftrightarrow> CHR ''0'' \<le> c \<and> c \<le> CHR ''9''"

definition digit_val :: "char \<Rightarrow> nat" where
  "digit_val c = of_char c - of_char CHR ''0''"

text \<open>Decimal rendering of a natural number, as \<open>strconv.Itoa\<close> prints a non-negative int.\<close>

fun nat_dec :: "nat \<Rightarrow> string" where
  "nat_dec n = (if n < 10 then [char_of (48 + n)] else nat_dec (n div 10) @ [char_of (48 + n mod 10)])"

declare nat_dec.simps [simp del]

text \<open>\<open>strings.Join\<close>.\<close>

fun join_str :: "string \<Rightarrow> string list \<Rightarrow> string" where
  "join_str sep [] = []"
| "join_str sep [x] = x"
| "join_str sep (x # y # zs) = x @ sep @ join_str sep (y # zs)"

subsection \<open>Go maps as association lists\<close>

lemma gomap_wf_Nil [simp]: "gomap_wf []"
  by (simp add: gomap_wf_def)

lemma update_fresh_append:
  "k \<notin> fst ` set acc \<Longrightarrow> AList.update k v acc = acc @ [(k, v)]"
  by (induction acc) auto

text \<open>
  A loop \<open>for k, v := range src { dst[k] = f k v }\<close> into a map that holds none of the
  keys of \<open>src\<close> appends the images in the visiting order.
\<close>

lemma fold_update_fresh:
  assumes "distinct (map fst xs)" and "fst ` set xs \<inter> fst ` set acc = {}"
  shows "fold (\<lambda>(k, v) m. AList.update k (f k v) m) xs acc = acc @ map (\<lambda>(k, v). (k, f k v)) xs"
  using assms
proof (induction xs arbitrary: acc)
  case Nil
  then show ?case by simp
next
  case (Cons kv xs)
  obtain k v where kv: "kv = (k, v)" by fastforce
  with Cons.prems have fresh: "k \<notin> fst ` set acc" by auto
  have "fst ` set xs \<inter> fst ` set (acc @ [(k, f k v)]) = {}"
    using Cons.prems kv by auto
  with Cons.prems have "fold (\<lambda>(k, v) m. AList.update k (f k v) m) xs (acc @ [(k, f k v)])
      = (acc @ [(k, f k v)]) @ map (\<lambda>(k, v). (k, f k v)) xs"
    by (intro Cons.IH) auto
  with fresh kv show ?case by (simp add: update_fresh_append)
qed

lemma fold_update_from_empty:
  "gomap_wf xs \<Longrightarrow>
   fold (\<lambda>(k, v) m. AList.update k (f k v) m) xs [] = map (\<lambda>(k, v). (k, f k v)) xs"
  by (simp add: gomap_wf_def fold_update_fresh)

lemma map_fst_map_pair [simp]:
  "map fst (map (\<lambda>(k, v). (k, f k v)) xs) = map fst xs"
  by (induction xs) auto

lemma map_of_map_pair:
  "map_of (map (\<lambda>(k, v). (k, f k v)) xs) k = map_option (f k) (map_of xs k)"
  by (induction xs) auto

lemma gomap_wf_map_pair [simp]:
  "gomap_wf (map (\<lambda>(k, v). (k, f k v)) xs) = gomap_wf xs"
  unfolding gomap_wf_def map_fst_map_pair ..

subsection \<open>Signed 64-bit values\<close>

lemma sint64_range: "int64_min \<le> sint (w :: int64) \<and> sint w \<le> int64_max"
  using sint_ge [of w] sint_lt [of w] by (simp add: int64_min_def int64_max_def)

lemma sint_word_of_int64:
  "int64_min \<le> x \<Longrightarrow> x \<le> int64_max \<Longrightarrow> sint (word_of_int x :: int64) = x"
  by (simp add: int64_min_def int64_max_def int_word_sint)

lemma sle_zero_antisym: "0 \<le>s (fd :: int64) \<Longrightarrow> fd \<le>s 0 \<longleftrightarrow> fd = 0"
  by (auto simp: word_sle_eq signed_word_eqI)

lemma sint_uminus64:
  "sint (- w :: int64) = (if w = word_of_int int64_min then sint w else - sint w)"
proof (cases "w = word_of_int int64_min")
  case True
  then show ?thesis by (simp add: int64_min_def)
next
  case False
  have r: "int64_min \<le> sint w \<and> sint w \<le> int64_max" by (rule sint64_range)
  have ws: "word_of_int (sint w) = w" by simp
  have neg: "(word_of_int (- sint w) :: int64) = - w"
    using ws by (metis of_int_minus)
  have "sint w \<noteq> int64_min"
  proof
    assume "sint w = int64_min"
    with ws show False using False by simp
  qed
  with r have "int64_min \<le> - sint w \<and> - sint w \<le> int64_max"
    by (auto simp: int64_min_def int64_max_def)
  then have "sint (word_of_int (- sint w) :: int64) = - sint w"
    using sint_word_of_int64 by blast
  then show ?thesis using False by (simp add: neg)
qed

lemma go_quot_rem: "go_quot a b * b + go_rem a b = a"
  by (simp add: go_rem_def)

end
