(* ===== verification/Template.thy ===== *)
theory Template
  imports Prelude
begin

text \<open>
  The template engine that \<open>renderAnnotations\<close> calls (Go's \<open>text/template\<close>): the
  interface the renderer uses, \<open>Parse\<close> and \<open>Execute\<close> over the data value
  \<open>struct { Labels map[string]string; Value float64 }\<close>, and a model of the engine on
  a fragment of the template language. The fragment is the language of alerting
  annotations: text, and actions that print or declare a variable from a term
  \<open>.\<close>, \<open>.F1.F2\<close>, \<open>$x\<close> or \<open>$x.F1.F2\<close>, with ASCII identifiers and blanks for
  spacing, the trim markers \<open>{{- \<close> and \<open> -}}\<close>, and comments \<open>{{/* ... */}}\<close>.
  On the fragment the model follows \<open>text/template\<close>: the parser reports
  the first error in the text (an undefined variable, an empty action, an action
  left open, a comment left open or not closed at once by \<open>}}\<close>, a command
  calling a function that is neither a builtin nor registered), a marker removes
  the blanks (space, tab, carriage return, newline) on its side, a variable is in
  scope from its declaration on, a missing map key evaluates to the invalid value
  that prints as \<open><no value>\<close>, a field of a string or a float is an execution
  error, and values print as \<open>fmt.Fprint\<close> prints them (maps with sorted keys). The
  rendering of a float is a parameter of the model. Any other construct (pipes,
  functions, control structures, literals) makes the parse return \<open>Unsupported\<close>:
  the model says nothing about templates outside the fragment. Error texts keep Go's parse messages with
  their line number; execution errors keep the message, not Go's position prefix.
\<close>

subsection \<open>The interface used by the renderer\<close>

record 'v tdata =
  data_Labels :: "(string, string) gomap"
  data_Value :: 'v

text \<open>
  \<open>template.New(name).Parse(text)\<close> and \<open>tmpl.Execute(&buf, data)\<close>: each returns the
  error's text on failure, and the execution returns the buffer on success.
\<close>

record ('t, 'v) template_engine =
  t_parse :: "string \<Rightarrow> string + 't"
  t_exec :: "'t \<Rightarrow> 'v tdata \<Rightarrow> string + string"

subsection \<open>The fragment: syntax\<close>

datatype tterm = TDot "string list" | TVar string "string list"

datatype tnode = TText string | TPrint tterm | TDecl string tterm

datatype tparse_error =
    UnclosedAction | UndefinedVariable string | MissingValue
  | UnclosedComment | CommentEndsEarly | FunctionNotDefined string | Unsupported

definition ident_char :: "char \<Rightarrow> bool" where
  "ident_char c \<longleftrightarrow>
     (CHR ''a'' \<le> c \<and> c \<le> CHR ''z'') \<or> (CHR ''A'' \<le> c \<and> c \<le> CHR ''Z'') \<or> is_digit c \<or> c = CHR ''_''"

definition is_field :: "string \<Rightarrow> bool" where
  "is_field f \<longleftrightarrow> f \<noteq> [] \<and> \<not> is_digit (hd f) \<and> list_all ident_char f"

text \<open>The first occurrence of a delimiter: the text before it and the text after it.\<close>

fun break_at :: "string \<Rightarrow> string \<Rightarrow> (string \<times> string) option" where
  "break_at d [] = (if d = [] then Some ([], []) else None)"
| "break_at d (c # s) =
     (if take (length d) (c # s) = d then Some ([], drop (length d) (c # s))
      else map_option (\<lambda>(a, b). (c # a, b)) (break_at d s))"

fun split_on :: "char \<Rightarrow> string \<Rightarrow> string list" where
  "split_on d [] = [[]]"
| "split_on d (c # s) =
     (if c = d then [] # split_on d s
      else (case split_on d s of [] \<Rightarrow> [[c]] | w # ws \<Rightarrow> (c # w) # ws))"

definition words :: "string \<Rightarrow> string list" where
  "words s = filter (\<lambda>w. w \<noteq> []) (split_on (CHR '' '') s)"

text \<open>A term of the fragment; variables are kept without their \<open>$\<close> (the variable \<open>$\<close> is \<open>''''\<close>).\<close>

definition parse_term :: "string list \<Rightarrow> string \<Rightarrow> tparse_error + tterm" where
  "parse_term vars w =
    (case w of
      [] \<Rightarrow> Inl Unsupported
    | c # r \<Rightarrow>
        if c = CHR ''.'' then
          (if r = [] then Inr (TDot [])
           else let fs = split_on (CHR ''.'') r in
             if list_all is_field fs then Inr (TDot fs) else Inl Unsupported)
        else if c = CHR ''$'' then
          (case split_on (CHR ''.'') r of
            [] \<Rightarrow> Inl Unsupported
          | x # fs \<Rightarrow>
              if list_all ident_char x \<and> list_all is_field fs then
                (if x \<in> set vars then Inr (TVar x fs) else Inl (UndefinedVariable x))
              else Inl Unsupported)
        else Inl Unsupported)"

text \<open>
  An action's text between \<open>{{\<close> and \<open>}}\<close>: a term, or \<open>$x := term\<close>. As in Go's
  parser the declared variable is in scope already in its own term.
\<close>

definition action_char :: "char \<Rightarrow> bool" where
  "action_char c \<longleftrightarrow> ident_char c \<or> c \<in> set ''$.:= ''"

text \<open>
  The words the lexer does not return as identifiers (\<open>key\<close>, \<open>true\<close>, \<open>false\<close>,
  \<open>nil\<close>), and the functions every template has (\<open>builtins\<close>). The renderer adds
  no function with \<open>Funcs\<close>, so any other identifier that starts a command is an
  undefined function.
\<close>

definition template_keywords :: "string list" where
  "template_keywords = [''block'', ''break'', ''continue'', ''define'', ''else'', ''end'', ''if'',
     ''range'', ''template'', ''with'', ''true'', ''false'', ''nil'']"

definition builtin_funcs :: "string list" where
  "builtin_funcs = [''and'', ''call'', ''html'', ''index'', ''slice'', ''js'', ''len'', ''not'', ''or'',
     ''print'', ''printf'', ''println'', ''urlquery'', ''eq'', ''ge'', ''gt'', ''le'', ''lt'', ''ne'']"

text \<open>
  A command: a term alone; a command starting with an identifier is a function call,
  refused at once when the function is not defined (\<open>term\<close> in Go's parser).
\<close>

definition parse_command :: "string list \<Rightarrow> string list \<Rightarrow> tparse_error + tterm" where
  "parse_command vars ws =
    (case ws of
      [] \<Rightarrow> Inl MissingValue
    | w # rest \<Rightarrow>
        if is_field w \<and> w \<notin> set template_keywords then
          (if w \<in> set builtin_funcs then Inl Unsupported else Inl (FunctionNotDefined w))
        else if rest = [] then parse_term vars w
        else Inl Unsupported)"

definition parse_action :: "string list \<Rightarrow> string \<Rightarrow> tparse_error + tnode \<times> string list" where
  "parse_action vars act =
    (if \<not> list_all action_char act then Inl Unsupported
     else case words act of
       v # a # ws \<Rightarrow>
         (if a = '':='' then
            (case v of
              c # x \<Rightarrow>
                if c = CHR ''$'' \<and> list_all ident_char x
                then map_sum id (\<lambda>t. (TDecl x t, x # vars)) (parse_command (x # vars) ws)
                else Inl Unsupported
            | [] \<Rightarrow> Inl Unsupported)
          else map_sum id (\<lambda>t. (TPrint t, vars)) (parse_command vars (v # a # ws)))
     | ws \<Rightarrow> map_sum id (\<lambda>t. (TPrint t, vars)) (parse_command vars ws))"

text \<open>
  Spacing and the trim markers of the lexer: \<open>isSpace\<close>, \<open>hasLeftTrimMarker\<close>
  (\<open>{{-\<close> followed by a blank), \<open>hasRightTrimMarker\<close> (a blank and \<open>-\<close> before
  \<open>}}\<close>), and the blanks a marker removes from the neighbouring text
  (\<open>leftTrimLength\<close>, \<open>rightTrimLength\<close>).
\<close>

definition is_space :: "char \<Rightarrow> bool" where
  "is_space c \<longleftrightarrow> c = CHR '' '' \<or> c = CHR 0x09 \<or> c = CHR 0x0D \<or> c = CHR ''\<newline>''"

definition left_trim_marker :: "string \<Rightarrow> bool" where
  "left_trim_marker s \<longleftrightarrow> (case s of c # d # _ \<Rightarrow> c = CHR ''-'' \<and> is_space d | _ \<Rightarrow> False)"

definition right_trim_marker :: "string \<Rightarrow> bool" where
  "right_trim_marker s \<longleftrightarrow> (case s of c # d # _ \<Rightarrow> is_space c \<and> d = CHR ''-'' | _ \<Rightarrow> False)"

text \<open>The text of an action ends with the marker of \<open> -}}\<close>.\<close>

definition ends_right_trim :: "string \<Rightarrow> bool" where
  "ends_right_trim act \<longleftrightarrow> right_trim_marker (drop (length act - 2) act)"

definition trim_left :: "string \<Rightarrow> string" where
  "trim_left s = dropWhile is_space s"

definition trim_right :: "string \<Rightarrow> string" where
  "trim_right s = rev (dropWhile is_space (rev s))"

text \<open>
  The parser: text up to the next \<open>{{\<close>, the action up to the next \<open>}}\<close>, and so on
  (\<open>lexText\<close>, \<open>lexLeftDelim\<close>, \<open>lexComment\<close>, \<open>lexInsideAction\<close>). A left trim
  marker removes the blanks at the end of the text before it, a right one the blanks
  at the start of the text after it. A comment \<open>/* ... */\<close> must follow \<open>{{\<close> (or
  \<open>{{- \<close>) at once and be followed at once by \<open>}}\<close> (or \<open> -}}\<close>); it yields no
  node. An error carries the line on which its item starts. An action left open with
  only blanks after \<open>{{\<close> is Go's ``unclosed action''; with anything else after it Go
  reports another error first, which the fragment does not model.
\<close>

definition count_nl :: "string \<Rightarrow> nat" where
  "count_nl s = length (filter (\<lambda>c. c = CHR ''\<newline>'') s)"

lemma break_at_Some:
  "break_at d s = Some (a, b) \<Longrightarrow> s = a @ d @ b"
proof (induction d s arbitrary: a rule: break_at.induct)
  case (1 d)
  then show ?case by (simp split: if_splits)
next
  case (2 d c s)
  show ?case
  proof (cases "take (length d) (c # s) = d")
    case True
    with "2.prems" show ?thesis by (metis append_Nil append_take_drop_id break_at.simps(2)
          option.inject prod.inject)
  next
    case False
    with "2.prems" obtain a' where "break_at d s = Some (a', b)" and "a = c # a'"
      by auto
    with "2.IH" False show ?thesis by simp
  qed
qed

lemma length_trim_left: "length (trim_left r) \<le> length r"
  by (simp add: trim_left_def length_dropWhile_le)

lemma break_at_length: "break_at d s = Some (a, b) \<Longrightarrow> length b + length d \<le> length s"
  by (drule break_at_Some) simp

function tparse_nodes :: "nat \<Rightarrow> string list \<Rightarrow> string \<Rightarrow> nat \<times> tparse_error + tnode list" where
  "tparse_nodes line vars s =
    (case break_at ''{{'' s of
      None \<Rightarrow> Inr (if s = [] then [] else [TText s])
    | Some (txt, r) \<Rightarrow>
        let lt = left_trim_marker r;
            txt' = (if lt then trim_right txt else txt);
            pre = (if txt' = [] then [] else [TText txt']);
            line' = line + count_nl txt;
            r1 = (if lt then drop 2 r else r)
        in if take 2 r1 = ''/*'' then
          (case break_at ''*/'' (drop 2 r1) of
            None \<Rightarrow> Inl (line', UnclosedComment)
          | Some (c, r2) \<Rightarrow>
              if right_trim_marker r2 \<and> take 2 (drop 2 r2) = ''}}'' then
                map_sum id (\<lambda>ns. pre @ ns)
                  (tparse_nodes (line' + count_nl c + count_nl (takeWhile is_space (drop 4 r2))) vars
                     (trim_left (drop 4 r2)))
              else if take 2 r2 = ''}}'' then
                map_sum id (\<lambda>ns. pre @ ns) (tparse_nodes (line' + count_nl c) vars (drop 2 r2))
              else Inl (line', CommentEndsEarly))
        else
          (case break_at ''}}'' r1 of
            None \<Rightarrow> Inl (line', if list_all (\<lambda>c. c = CHR '' '') r1 then UnclosedAction else Unsupported)
          | Some (act, r') \<Rightarrow>
              let rt = ends_right_trim act;
                  act' = (if rt then take (length act - 2) act else act)
              in (case parse_action vars act' of
                Inl e \<Rightarrow> Inl (line', e)
              | Inr (node, vars') \<Rightarrow>
                  map_sum id (\<lambda>ns. pre @ node # ns)
                    (if rt then tparse_nodes (line' + count_nl (takeWhile is_space r')) vars' (trim_left r')
                     else tparse_nodes line' vars' r'))))"
  by pat_completeness auto
termination
proof (relation "measure (\<lambda>(line, vars, s). length s)")
  show "wf (measure (\<lambda>(line, vars, s). length s))" by simp
qed (auto split: if_splits dest!: break_at_length intro!: le_less_trans [OF length_trim_left])

declare tparse_nodes.simps [simp del]

subsection \<open>Lemmas on the parser\<close>

lemma break_at_close_skip:
  "CHR ''}'' \<notin> set xs \<Longrightarrow>
   break_at ''}}'' (xs @ ys) = map_option (\<lambda>(a, b). (xs @ a, b)) (break_at ''}}'' ys)"
proof (induction xs)
  case Nil
  then show ?case by (simp add: option.map_ident case_prod_beta)
next
  case (Cons c xs)
  then show ?case by (auto simp: option.map_comp comp_def case_prod_beta)
qed

lemma split_on_nonempty: "split_on d s \<noteq> []"
  by (induction s) (auto split: list.split)

lemma split_on_no_delim:
  "d \<notin> set xs \<Longrightarrow>
   split_on d (xs @ ys) = (case split_on d ys of w # ws \<Rightarrow> (xs @ w) # ws | [] \<Rightarrow> [xs])"
proof (induction xs)
  case Nil
  then show ?case by (cases "split_on d ys") (auto simp: split_on_nonempty)
next
  case (Cons c xs)
  then show ?case by (cases "split_on d ys") (auto simp: split_on_nonempty)
qed

lemma split_on_no_delim_all: "d \<notin> set xs \<Longrightarrow> split_on d xs = [xs]"
  using split_on_no_delim [of d xs "[]"] by simp

lemma ident_char_not_special:
  "ident_char c \<Longrightarrow> c \<noteq> CHR ''}'' \<and> c \<noteq> CHR ''.'' \<and> c \<noteq> CHR '' '' \<and> c \<noteq> CHR ''{''"
  by (auto simp: ident_char_def is_digit_def)

lemma ends_right_trim_last: "ends_right_trim s \<Longrightarrow> s \<noteq> [] \<and> last s = CHR ''-''"
proof -
  assume a: "ends_right_trim s"
  then obtain c d t where d: "drop (length s - 2) s = c # d # t" and m: "d = CHR ''-''"
    by (auto simp: ends_right_trim_def right_trim_marker_def split: list.splits)
  have l: "length s - (length s - 2) = Suc (Suc (length t))"
    using arg_cong [OF d, of length] by simp
  then have "length s - 2 < length s" and "length t = 0" by arith+
  then have "length s - 2 < length s" and "t = []" by simp_all
  then show ?thesis using d m last_drop [of "length s - 2" s] by auto
qed

text \<open>An action without trim markers and not a comment, as \<open>{{ .x }}\<close>.\<close>

definition plain_action :: "string \<Rightarrow> string \<Rightarrow> bool" where
  "plain_action r act \<longleftrightarrow>
     \<not> left_trim_marker r \<and> take 2 r \<noteq> ''/*'' \<and> \<not> ends_right_trim act"

lemma plain_action_spaced:
  "r \<noteq> [] \<Longrightarrow> hd r = CHR '' '' \<Longrightarrow> act \<noteq> [] \<Longrightarrow> last act = CHR '' '' \<Longrightarrow> plain_action r act"
  by (cases r) (auto simp: plain_action_def left_trim_marker_def dest: ends_right_trim_last
      split: list.splits)

lemma tparse_nodes_action:
  assumes "break_at ''{{'' s = Some (txt, r)" and "break_at ''}}'' r = Some (act, r')"
    and "parse_action vars act = Inr (node, vars')" and "plain_action r act"
  shows "tparse_nodes line vars s =
    map_sum id (\<lambda>ns. (if txt = [] then [] else [TText txt]) @ node # ns)
      (tparse_nodes (line + count_nl txt) vars' r')"
  using assms(4) by (subst tparse_nodes.simps) (simp add: assms(1-3) plain_action_def Let_def)

lemma tparse_nodes_Nil: "tparse_nodes line vars [] = Inr []"
  by (subst tparse_nodes.simps) simp

lemma parse_command_dollar:
  "parse_command vars [CHR ''$'' # x] = parse_term vars (CHR ''$'' # x)"
  by (simp add: parse_command_def is_field_def ident_char_def is_digit_def)

lemma parse_action_label:
  assumes "is_field name" and "''labels'' \<in> set vars"
  shows "parse_action vars ('' $labels.'' @ name @ '' '') = Inr (TPrint (TVar ''labels'' [name]), vars)"
proof -
  have ic: "list_all ident_char name" and ne: "name \<noteq> []"
    using assms(1) by (auto simp: is_field_def)
  then have nodelim: "CHR '' '' \<notin> set name" "CHR ''.'' \<notin> set name"
    using ident_char_not_special by (auto simp: list_all_iff)
  have "split_on (CHR '' '') ('' $labels.'' @ name @ '' '') = [[], ''$labels.'' @ name, []]"
    using nodelim(1) by (simp add: split_on_no_delim)
  then have w: "words ('' $labels.'' @ name @ '' '') = [''$labels.'' @ name]"
    by (simp add: words_def)
  have "split_on (CHR ''.'') (''labels.'' @ name) = [''labels'', name]"
    using nodelim(2) by (simp add: split_on_no_delim_all)
  moreover have "list_all action_char ('' $labels.'' @ name @ '' '')"
    using ic by (auto simp: action_char_def list_all_iff ident_char_def)
  ultimately show ?thesis
    using w assms by (simp add: parse_action_def parse_command_dollar parse_term_def ident_char_def)
qed


lemma break_at_found:
  assumes "d \<noteq> []" and "hd d \<notin> set xs"
  shows "break_at d (xs @ d @ zs) = Some (xs, zs)"
  using assms(2)
proof (induction xs)
  case Nil
  from assms(1) obtain e es where "d = e # es" by (cases d) auto
  then show ?case by simp
next
  case (Cons c xs)
  from assms(1) obtain e es where d: "d = e # es" by (cases d) auto
  with Cons.prems have "take (length d) (c # xs @ d @ zs) \<noteq> d" by auto
  with Cons show ?case by simp
qed

lemma tparse_nodes_action_error:
  assumes "break_at ''{{'' s = Some (txt, r)" and "break_at ''}}'' r = Some (act, r')"
    and "parse_action vars act = Inl e" and "plain_action r act"
  shows "tparse_nodes line vars s = Inl (line + count_nl txt, e)"
  using assms(4) by (subst tparse_nodes.simps) (simp add: assms(1-3) plain_action_def Let_def)

lemma parse_action_var:
  assumes "x \<noteq> []" and "list_all ident_char x"
  shows "parse_action vars ('' $'' @ x @ '' '') =
    (if x \<in> set vars then Inr (TPrint (TVar x []), vars) else Inl (UndefinedVariable x))"
proof -
  have nodelim: "CHR '' '' \<notin> set x" "CHR ''.'' \<notin> set x"
    using assms(2) ident_char_not_special by (auto simp: list_all_iff)
  have "split_on (CHR '' '') ('' $'' @ x @ '' '') = [[], ''$'' @ x, []]"
    using nodelim(1) by (simp add: split_on_no_delim)
  then have w: "words ('' $'' @ x @ '' '') = [''$'' @ x]"
    by (simp add: words_def)
  have "split_on (CHR ''.'') x = [x]"
    using nodelim(2) by (simp add: split_on_no_delim_all)
  moreover have "list_all action_char ('' $'' @ x @ '' '')"
    using assms(2) by (auto simp: action_char_def list_all_iff ident_char_def)
  ultimately show ?thesis
    using w assms by (simp add: parse_action_def parse_command_dollar parse_term_def ident_char_def)
qed

subsection \<open>The fragment: execution\<close>

text \<open>
  The values a term can evaluate to: the data struct, its label map, a string, the
  float, and the invalid \<open>reflect.Value\<close> of a missing map key.
\<close>

datatype 'v tval =
    VData "(string, string) gomap" 'v
  | VMap "(string, string) gomap"
  | VStr string
  | VFloat 'v
  | VNoValue

definition data_type_name :: string where
  "data_type_name = ''struct { Labels map[string]string; Value float64 }''"

definition cant_evaluate :: "string \<Rightarrow> string \<Rightarrow> string" where
  "cant_evaluate f ty = ''can't evaluate field '' @ f @ '' in type '' @ ty"

text \<open>\<open>evalField\<close>: a struct field, a map key (the invalid value when absent), or an error.\<close>

fun eval_field :: "string \<Rightarrow> 'v tval \<Rightarrow> string + 'v tval" where
  "eval_field f (VData l v) =
     (if f = ''Labels'' then Inr (VMap l)
      else if f = ''Value'' then Inr (VFloat v)
      else Inl (cant_evaluate f data_type_name))"
| "eval_field f (VMap m) = Inr (case map_of m f of Some s \<Rightarrow> VStr s | None \<Rightarrow> VNoValue)"
| "eval_field f (VStr s) = Inl (cant_evaluate f ''string'')"
| "eval_field f (VFloat v) = Inl (cant_evaluate f ''float64'')"
| "eval_field f VNoValue = Inr VNoValue"

fun eval_fields :: "string list \<Rightarrow> 'v tval \<Rightarrow> string + 'v tval" where
  "eval_fields [] v = Inr v"
| "eval_fields (f # fs) v = (case eval_field f v of Inl e \<Rightarrow> Inl e | Inr w \<Rightarrow> eval_fields fs w)"

definition eval_term :: "'v tval \<Rightarrow> (string \<times> 'v tval) list \<Rightarrow> tterm \<Rightarrow> string + 'v tval" where
  "eval_term dot env tm =
    (case tm of
      TDot fs \<Rightarrow> eval_fields fs dot
    | TVar x fs \<Rightarrow>
        (case map_of env x of
          None \<Rightarrow> Inl (''undefined variable: $'' @ x)
        | Some v \<Rightarrow> eval_fields fs v))"

text \<open>\<open>printValue\<close> and \<open>fmt.Fprint\<close>: maps print with their keys sorted.\<close>

definition print_map :: "(string, string) gomap \<Rightarrow> string" where
  "print_map m = ''map['' @ join_str '' '' (map (\<lambda>(k, v). k @ '':'' @ v) (sort_key fst m)) @ '']''"

fun print_val :: "('v \<Rightarrow> string) \<Rightarrow> 'v tval \<Rightarrow> string" where
  "print_val fmt (VData l v) = ''{'' @ print_map l @ '' '' @ fmt v @ ''}''"
| "print_val fmt (VMap m) = print_map m"
| "print_val fmt (VStr s) = s"
| "print_val fmt (VFloat v) = fmt v"
| "print_val fmt VNoValue = ''<no value>''"

text \<open>
  Execution writes the nodes in order; a declaration pushes its variable and writes
  nothing; the first error stops it.
\<close>

fun texec_nodes ::
  "('v \<Rightarrow> string) \<Rightarrow> 'v tval \<Rightarrow> (string \<times> 'v tval) list \<Rightarrow> tnode list \<Rightarrow> string + string" where
  "texec_nodes fmt dot env [] = Inr []"
| "texec_nodes fmt dot env (TText t # ns) = map_sum id (\<lambda>r. t @ r) (texec_nodes fmt dot env ns)"
| "texec_nodes fmt dot env (TPrint tm # ns) =
     (case eval_term dot env tm of
       Inl e \<Rightarrow> Inl e
     | Inr v \<Rightarrow> map_sum id (\<lambda>r. print_val fmt v @ r) (texec_nodes fmt dot env ns))"
| "texec_nodes fmt dot env (TDecl x tm # ns) =
     (case eval_term dot env tm of
       Inl e \<Rightarrow> Inl e
     | Inr v \<Rightarrow> texec_nodes fmt dot ((x, v) # env) ns)"

subsection \<open>The fragment engine\<close>

definition tparse_error_msg :: "tparse_error \<Rightarrow> string" where
  "tparse_error_msg e =
    (case e of
      UnclosedAction \<Rightarrow> ''unclosed action''
    | UndefinedVariable x \<Rightarrow> ''undefined variable \"$'' @ x @ ''\"''
    | MissingValue \<Rightarrow> ''missing value for command''
    | UnclosedComment \<Rightarrow> ''unclosed comment''
    | CommentEndsEarly \<Rightarrow> ''comment ends before closing delimiter''
    | FunctionNotDefined f \<Rightarrow> ''function \"'' @ f @ ''\" not defined''
    | Unsupported \<Rightarrow> ''construct outside the modelled fragment'')"

definition frag_parse :: "string \<Rightarrow> string + tnode list" where
  "frag_parse s =
    (case tparse_nodes 1 [''''] s of
      Inl (line, e) \<Rightarrow> Inl (''template: validity:'' @ nat_dec line @ '': '' @ tparse_error_msg e)
    | Inr ns \<Rightarrow> Inr ns)"

definition frag_exec :: "('v \<Rightarrow> string) \<Rightarrow> tnode list \<Rightarrow> 'v tdata \<Rightarrow> string + string" where
  "frag_exec fmt ns d =
    (let dot = VData (data_Labels d) (data_Value d)
     in map_sum (\<lambda>e. ''template: validity: executing \"validity\": '' @ e) id
          (texec_nodes fmt dot [('''', dot)] ns))"

definition frag_engine :: "('v \<Rightarrow> string) \<Rightarrow> (tnode list, 'v) template_engine" where
  "frag_engine fmt = \<lparr>t_parse = frag_parse, t_exec = frag_exec fmt\<rparr>"

text \<open>The templates on which the fragment engine is a model of \<open>text/template\<close>.\<close>

definition in_fragment :: "string \<Rightarrow> bool" where
  "in_fragment s \<longleftrightarrow> (case tparse_nodes 1 [''''] s of Inl (_, e) \<Rightarrow> e \<noteq> Unsupported | Inr _ \<Rightarrow> True)"

subsection \<open>Examples: trim markers and comments\<close>

lemma frag_parse_trim_example:
  "frag_parse ''a  {{- $x := .Value -}} \<newline> b {{- /* note */ -}}  c{{/* */}}'' =
     Inr [TText ''a'', TDecl ''x'' (TDot [''Value'']), TText ''b'', TText ''c'']"
  by code_simp

lemma frag_parse_comment_errors:
  "frag_parse ''x{{/* open'' = Inl ''template: validity:1: unclosed comment''"
  "frag_parse ''x\<newline>{{/* c */ }}'' = Inl ''template: validity:2: comment ends before closing delimiter''"
  by code_simp+

end
