(* ===== verification/GoTime.thy ===== *)
theory GoTime
  imports Prelude
begin

text \<open>
  The parts of Go's \<open>time\<close> package and of \<open>prometheus/common/model.Time\<close> that the
  evaluator calls: \<open>time.Duration\<close> (an \<open>int64\<close> count of nanoseconds),
  \<open>model.Time.Time()\<close> (milliseconds to an instant), \<open>time.Time.Sub\<close> (difference,
  saturated at the ends of the \<open>int64\<close> range) and \<open>time.ParseDuration\<close>. These are
  library code, modelled from the Go sources of the libraries; \<open>ParseDuration\<close>
  keeps Go's loop, its overflow checks and the one unchecked \<open>uint64\<close> addition that
  can wrap. The only departure: Go computes the fractional part of a component as
  \<open>uint64(float64(f) * (float64(unit) / scale))\<close>; the model takes the exact
  \<open>f * unit div scale\<close>, which agrees with the float computation whenever \<open>scale\<close>
  divides \<open>unit\<close> and \<open>f < 2 ^ 53\<close> (every output of \<open>Duration.String\<close> and every
  fraction of at most three digits on the units from \<open>ms\<close> up).
\<close>

type_synonym Duration = int64

text \<open>\<open>prometheus/common/model.Time\<close>: milliseconds since the epoch, an \<open>int64\<close>.\<close>

type_synonym model_Time = int64

text \<open>A \<open>time.Time\<close> is represented by the instant it denotes, in nanoseconds since the epoch.\<close>

type_synonym go_Time = int

definition Minute :: Duration where
  "Minute = 60000000000"

text \<open>
  \<open>model.Time.Time()\<close> is \<open>time.Unix(int64(t)/1000, (int64(t)%1000)*1e6)\<close>, with Go's
  truncating division; \<open>time.Unix(sec, nsec)\<close> denotes \<open>sec * 1e9 + nsec\<close> nanoseconds.
\<close>

definition Timestamp_Time :: "model_Time \<Rightarrow> go_Time" where
  "Timestamp_Time t = go_quot (sint t) 1000 * 1000000000 + go_rem (sint t) 1000 * 1000000"

text \<open>
  \<open>time.Time.Sub\<close>: ``If the result exceeds the maximum (or minimum) value that can
  be stored in a Duration, the maximum (or minimum) duration will be returned.''
\<close>

definition sat_int64 :: "int \<Rightarrow> int64" where
  "sat_int64 x =
     (if int64_max < x then word_of_int int64_max
      else if x < int64_min then word_of_int int64_min
      else word_of_int x)"

definition Time_Sub :: "go_Time \<Rightarrow> go_Time \<Rightarrow> Duration" where
  "Time_Sub t u = sat_int64 (t - u)"

subsection \<open>time.ParseDuration\<close>

text \<open>Go returns an \<open>error\<close> whose text names the case; the model keeps the case and its operands.\<close>

datatype duration_error =
    InvalidDuration string
  | MissingUnit string
  | UnknownUnit string string

text \<open>\<open>unitMap\<close>, with the two spellings of micro in UTF-8 bytes (U+00B5 and U+03BC).\<close>

definition unitMap :: "string \<Rightarrow> nat option" where
  "unitMap = map_of
     [(''ns'', 1), (''us'', 1000), ([CHR 0xC2, CHR 0xB5, CHR ''s''], 1000),
      ([CHR 0xCE, CHR 0xBC, CHR ''s''], 1000), (''ms'', 1000000), (''s'', 1000000000),
      (''m'', 60000000000), (''h'', 3600000000000)]"

text \<open>\<open>leadingInt\<close>: consumes \<open>[0-9]*\<close>, failing when the value passes \<open>2^63\<close>.\<close>

fun leadingInt_acc :: "nat \<Rightarrow> string \<Rightarrow> (nat \<times> string) option" where
  "leadingInt_acc x [] = Some (x, [])"
| "leadingInt_acc x (c # s) =
     (if \<not> is_digit c then Some (x, c # s)
      else if 2 ^ 63 div 10 < x then None
      else let x' = x * 10 + digit_val c in
           if 2 ^ 63 < x' then None else leadingInt_acc x' s)"

definition leadingInt :: "string \<Rightarrow> (nat \<times> string) option" where
  "leadingInt s = leadingInt_acc 0 s"

text \<open>
  \<open>leadingFraction\<close>: consumes \<open>[0-9]*\<close>; once the digits overflow it keeps consuming
  but stops accumulating. Returns the digits read, their scale \<open>10^k\<close> and the rest.
\<close>

fun leadingFraction_acc :: "nat \<Rightarrow> nat \<Rightarrow> bool \<Rightarrow> string \<Rightarrow> nat \<times> nat \<times> string" where
  "leadingFraction_acc x sc ovf [] = (x, sc, [])"
| "leadingFraction_acc x sc ovf (c # s) =
     (if \<not> is_digit c then (x, sc, c # s)
      else if ovf then leadingFraction_acc x sc True s
      else if (2 ^ 63 - 1) div 10 < x then leadingFraction_acc x sc True s
      else let y = x * 10 + digit_val c in
           if 2 ^ 63 < y then leadingFraction_acc x sc True s
           else leadingFraction_acc y (sc * 10) False s)"

definition leadingFraction :: "string \<Rightarrow> nat \<times> nat \<times> string" where
  "leadingFraction s = leadingFraction_acc 0 1 False s"

definition num_or_dot :: "char \<Rightarrow> bool" where
  "num_or_dot c \<longleftrightarrow> c = CHR ''.'' \<or> is_digit c"

text \<open>
  The number part of one component: \<open>[0-9]*\<close>, then \<open>(\.[0-9]*)?\<close>; at least one
  digit must have been read. Returns the integer part, the fraction digits, their
  scale and the rest of the string.
\<close>

definition pd_number :: "string \<Rightarrow> string \<Rightarrow> duration_error + nat \<times> nat \<times> nat \<times> string" where
  "pd_number orig s =
    (case leadingInt s of
      None \<Rightarrow> Inl (InvalidDuration orig)
    | Some (v, s1) \<Rightarrow>
      let pre = (length s1 \<noteq> length s);
          (f, scale, s2, post) =
            (case s1 of
              c # r \<Rightarrow>
                if c = CHR ''.''
                then (case leadingFraction r of (f, sc, r') \<Rightarrow> (f, sc, r', length r' \<noteq> length r))
                else (0, 1, s1, False)
            | [] \<Rightarrow> (0, 1, [], False))
      in if \<not> pre \<and> \<not> post then Inl (InvalidDuration orig) else Inr (v, f, scale, s2))"

text \<open>
  One iteration of the loop of \<open>ParseDuration\<close>: the next character must be
  \<open>[0-9.]\<close>, then a number and a unit; the result is the component's value in
  nanoseconds (an \<open>uint64\<close> that the checks keep at most \<open>2^63\<close>) and the rest.
\<close>

definition pd_component :: "string \<Rightarrow> string \<Rightarrow> duration_error + nat \<times> string" where
  "pd_component orig s =
    (case s of
      [] \<Rightarrow> Inl (InvalidDuration orig)
    | c0 # _ \<Rightarrow>
      if \<not> num_or_dot c0 then Inl (InvalidDuration orig)
      else (case pd_number orig s of
        Inl e \<Rightarrow> Inl e
      | Inr (v, f, scale, s2) \<Rightarrow>
          let u = takeWhile (\<lambda>c. \<not> num_or_dot c) s2;
              rest = dropWhile (\<lambda>c. \<not> num_or_dot c) s2
          in if u = [] then Inl (MissingUnit orig)
          else (case unitMap u of
            None \<Rightarrow> Inl (UnknownUnit u orig)
          | Some unit \<Rightarrow>
            if 2 ^ 63 div unit < v then Inl (InvalidDuration orig)
            else
              let v1 = v * unit in
              if 0 < f then
                (let v2 = v1 + f * unit div scale in
                 if 2 ^ 63 < v2 then Inl (InvalidDuration orig) else Inr (v2, rest))
              else Inr (v1, rest))))"

lemma leadingInt_acc_length:
  "leadingInt_acc x s = Some (v, r) \<Longrightarrow> length r \<le> length s"
  by (induction x s rule: leadingInt_acc.induct) (auto simp: Let_def split: if_splits)

lemma leadingFraction_acc_length:
  "leadingFraction_acc x sc ovf s = (f, sc', r) \<Longrightarrow> length r \<le> length s"
  by (induction x sc ovf s rule: leadingFraction_acc.induct) (auto simp: Let_def split: if_splits)

lemma pd_number_length:
  assumes "pd_number orig s = Inr (v, f, scale, s2)"
  shows "length s2 \<le> length s"
proof -
  obtain v' s1 where li: "leadingInt s = Some (v', s1)"
    using assms by (cases "leadingInt s") (auto simp: pd_number_def)
  then have s1: "length s1 \<le> length s"
    by (simp add: leadingInt_def leadingInt_acc_length)
  show ?thesis
  proof (cases s1)
    case Nil
    with assms li show ?thesis by (auto simp: pd_number_def split: if_splits)
  next
    case (Cons c r)
    obtain f' sc' r' where lf: "leadingFraction r = (f', sc', r')"
      by (cases "leadingFraction r") auto
    then have "length r' \<le> length r"
      by (simp add: leadingFraction_def leadingFraction_acc_length)
    with Cons assms li s1 lf show ?thesis
      by (auto simp: pd_number_def Let_def split: if_splits)
  qed
qed

lemma pd_component_shorter:
  assumes "pd_component orig s = Inr (v, rest)"
  shows "length rest < length s"
proof -
  let ?P = "\<lambda>c. \<not> num_or_dot c"
  obtain v0 f scale s2 where num: "pd_number orig s = Inr (v0, f, scale, s2)"
    and u: "takeWhile ?P s2 \<noteq> []" and rest: "rest = dropWhile ?P s2"
    using assms by (auto simp: pd_component_def Let_def split: list.splits if_splits sum.splits
        option.splits)
  have "length (takeWhile ?P s2) + length (dropWhile ?P s2) = length s2"
    by (metis length_append takeWhile_dropWhile_id)
  moreover have "0 < length (takeWhile ?P s2)"
    using u by simp
  ultimately show ?thesis
    unfolding rest using pd_number_length [OF num] by linarith
qed

text \<open>
  The loop \<open>for s != "" { ... d += v; if d > 1<<63 { error } }\<close>. The addition is
  on \<open>uint64\<close> and is not checked before it is made: two components of \<open>2^63\<close>
  nanoseconds sum to \<open>2^64\<close>, which wraps to \<open>0\<close> and passes the check.
\<close>

function pd_loop :: "string \<Rightarrow> string \<Rightarrow> nat \<Rightarrow> duration_error + nat" where
  "pd_loop orig [] d = Inr d"
| "pd_loop orig (c # cs) d =
     (case pd_component orig (c # cs) of
       Inl e \<Rightarrow> Inl e
     | Inr (v, rest) \<Rightarrow>
         let d' = (d + v) mod 2 ^ 64 in
         if 2 ^ 63 < d' then Inl (InvalidDuration orig) else pd_loop orig rest d')"
  by pat_completeness auto
termination
  by (relation "measure (\<lambda>(orig, s, d). length s)") (auto dest: pd_component_shorter)

text \<open>\<open>time.ParseDuration\<close>: an optional sign, the special case \<open>"0"\<close>, the loop, the sign.\<close>

definition ParseDuration :: "string \<Rightarrow> duration_error + Duration" where
  "ParseDuration orig =
    (let (neg, s) =
       (case orig of
         c # r \<Rightarrow> if c = CHR ''-'' \<or> c = CHR ''+'' then (c = CHR ''-'', r) else (False, orig)
       | [] \<Rightarrow> (False, []))
     in if s = ''0'' then Inr 0
        else if s = [] then Inl (InvalidDuration orig)
        else case pd_loop orig s 0 of
          Inl e \<Rightarrow> Inl e
        | Inr d \<Rightarrow>
            if neg then Inr (- word_of_nat d)
            else if 2 ^ 63 - 1 < d then Inl (InvalidDuration orig)
            else Inr (word_of_nat d))"

subsection \<open>Properties of the time model\<close>

lemmas ParseDuration_eval = ParseDuration_def pd_component_def pd_number_def leadingInt_def
  leadingFraction_def is_digit_def digit_val_def num_or_dot_def unitMap_def Let_def

lemma Timestamp_Time_eq: "Timestamp_Time t = sint t * 1000000"
proof -
  have "go_quot (sint t) 1000 * 1000000000 + go_rem (sint t) 1000 * 1000000
      = (go_quot (sint t) 1000 * 1000 + go_rem (sint t) 1000) * 1000000"
    by (simp add: algebra_simps)
  then show ?thesis by (simp add: Timestamp_Time_def go_quot_rem)
qed

lemma sint_sat_int64: "sint (sat_int64 x) = max int64_min (min int64_max x)"
  using sint_word_of_int64 [of x] by (auto simp: sat_int64_def sint_word_of_int64 int64_min_def int64_max_def)

lemma sint_Time_Sub: "sint (Time_Sub t u) = max int64_min (min int64_max (t - u))"
  by (simp add: Time_Sub_def sint_sat_int64)

lemma Time_Sub_nonneg: "u \<le> t \<Longrightarrow> 0 \<le>s Time_Sub t u"
  by (simp add: word_sle_eq sint_Time_Sub int64_min_def int64_max_def)


text \<open>
  The elapsed time computed by \<open>stream.Values[n-1].Timestamp.Time().Sub(...)\<close> is
  exact, with no saturation, whenever the two sample timestamps are at most
  9223372036854 ms (about 292 years) apart: it is the difference of the millisecond
  timestamps times \<open>10^6\<close>.
\<close>

theorem Timestamp_Sub_exact:
  assumes "\<bar>sint b - sint a\<bar> \<le> 9223372036854"
  shows "sint (Time_Sub (Timestamp_Time b) (Timestamp_Time a)) = (sint b - sint a) * 1000000"
proof -
  have "int64_min \<le> (sint b - sint a) * 1000000 \<and> (sint b - sint a) * 1000000 \<le> int64_max"
    using assms by (simp add: int64_min_def int64_max_def abs_le_iff)
  then show ?thesis
    by (simp add: sint_Time_Sub Timestamp_Time_eq left_diff_distrib)
qed

theorem Timestamp_Sub_exact_witness:
  "\<bar>sint (600000 :: model_Time) - sint (- 600000 :: model_Time)\<bar> \<le> 9223372036854 \<and>
   sint (Time_Sub (Timestamp_Time 600000) (Timestamp_Time (- 600000))) = 1200000000000"
proof -
  have s: "sint (600000 :: model_Time) = 600000" "sint (- 600000 :: model_Time) = - 600000"
    by simp_all
  show ?thesis
    using Timestamp_Sub_exact [of "600000 :: model_Time" "- 600000"] by (simp add: s)
qed

end
