(* ===== verification/PromModel.thy ===== *)
theory PromModel
  imports GoTime
begin

text \<open>
  The data the evaluator receives from the query client, from
  \<open>github.com/prometheus/common/model\<close>: a sample pair (timestamp in milliseconds and
  value), a sample stream (label set and samples in the order the server returned
  them), a matrix (a list of streams) and the \<open>model.Value\<close> interface that
  \<open>QueryRange\<close> returns, of which only the matrix case is inspected. The float
  sample value is a type parameter \<open>'v\<close>: the evaluator never computes with it; it
  only hands the last one to the template renderer.
\<close>

type_synonym label_set = "(string, string) gomap"

record 'v SamplePair =
  Timestamp :: model_Time
  Value :: 'v

record 'v SampleStream =
  Metric :: label_set
  Values :: "'v SamplePair list"

type_synonym 'v Matrix = "'v SampleStream list"

text \<open>
  The dynamic type of the \<open>model.Value\<close> returned by \<open>QueryRange\<close>; the payloads of
  the non-matrix cases are not inspected by the program and are not kept.
\<close>

datatype 'v model_Value =
    ValMatrix "'v Matrix"
  | ValVector
  | ValScalar
  | ValString

text \<open>Samples in chronological order, as the query API returns them.\<close>

definition chronological :: "'v SamplePair list \<Rightarrow> bool" where
  "chronological vs \<longleftrightarrow> sorted (map (\<lambda>p. sint (Timestamp p)) vs)"

lemma chronological_hd_last:
  assumes "chronological vs" and "vs \<noteq> []"
  shows "sint (Timestamp (hd vs)) \<le> sint (Timestamp (last vs))"
proof -
  have "sorted (map (\<lambda>p. sint (Timestamp p)) vs)"
    using assms(1) by (simp add: chronological_def)
  then have "(map (\<lambda>p. sint (Timestamp p)) vs) ! 0 \<le> (map (\<lambda>p. sint (Timestamp p)) vs) ! (length vs - 1)"
    using assms(2) by (intro sorted_nth_mono) auto
  with assms(2) show ?thesis by (simp add: hd_conv_nth last_conv_nth)
qed

end
