(* ===== verification/Render.thy ===== *)
theory Render
  imports Template PromModel
begin

text \<open>
  \<open>renderAnnotations\<close> of \<open>internal/engine/engine.go\<close>, over any template engine
  (the record \<open>template_engine\<close> of Template.thy stands for Go's \<open>text/template\<close>).
  It copies the label set into the data's \<open>Labels\<close> map, then renders each
  annotation on its own: the helper text that declares \<open>$labels\<close> and \<open>$value\<close> is
  prepended, a parse error becomes \<open><template_error: ...>\<close>, an execution error
  \<open><render_error: ...>\<close>, and otherwise the output is the value. The loops over the
  two Go maps run in the order of the association lists, which is one of the orders
  Go may choose; the lemmas show that the order does not matter.
\<close>

definition helper :: string where
  "helper = ''{{ $labels := .Labels }}{{ $value := .Value }}''"

definition template_data :: "label_set \<Rightarrow> 'v \<Rightarrow> 'v tdata" where
  "template_data labels value =
     \<lparr>data_Labels = fold (\<lambda>(k, v) m. AList.update k v m) labels [], data_Value = value\<rparr>"

definition render_one :: "('t, 'v) template_engine \<Rightarrow> 'v tdata \<Rightarrow> string \<Rightarrow> string" where
  "render_one E data v =
    (case t_parse E (helper @ v) of
      Inl err \<Rightarrow> ''<template_error: '' @ err @ ''>''
    | Inr tmpl \<Rightarrow>
        (case t_exec E tmpl data of
          Inl err \<Rightarrow> ''<render_error: '' @ err @ ''>''
        | Inr out \<Rightarrow> out))"

definition renderAnnotations ::
  "('t, 'v) template_engine \<Rightarrow> (string, string) gomap \<Rightarrow> label_set \<Rightarrow> 'v \<Rightarrow> (string, string) gomap" where
  "renderAnnotations E rawAnnotations labels value =
    (let data = template_data labels value
     in fold (\<lambda>(k, v) rendered. AList.update k (render_one E data v) rendered) rawAnnotations [])"

subsection \<open>Properties\<close>

lemma template_data_labels:
  "gomap_wf labels \<Longrightarrow> data_Labels (template_data labels value) = labels"
  using fold_update_from_empty [of labels "\<lambda>k v. v"] by (simp add: template_data_def)

lemma renderAnnotations_eq:
  "gomap_wf raw \<Longrightarrow>
   renderAnnotations E raw labels value =
     map (\<lambda>(k, v). (k, render_one E (template_data labels value) v)) raw"
  using fold_update_from_empty [of raw "\<lambda>k v. render_one E (template_data labels value) v"]
  by (simp add: renderAnnotations_def)

text \<open>
  C7: each rendered annotation is the rendering of its own raw template, on the same data: no annotation depends on another.
\<close>

theorem renderAnnotations_isolation:
  assumes "gomap_wf raw"
  shows "map_of (renderAnnotations E raw labels value) k =
           map_option (render_one E (template_data labels value)) (map_of raw k)"
  using assms by (simp add: renderAnnotations_eq map_of_map_pair)

theorem renderAnnotations_isolation_witness:
  "gomap_wf [(''summary'', ''{{ $labels.job }}''), (''runbook'', ''{{ $nope }}'')] \<and>
   map_of (renderAnnotations (frag_engine nat_dec)
     [(''summary'', ''{{ $labels.job }}''), (''runbook'', ''{{ $nope }}'')] [(''job'', ''api'')] (1::nat))
     ''summary'' =
   map_option (render_one (frag_engine nat_dec) (template_data [(''job'', ''api'')] (1::nat)))
     (Some ''{{ $labels.job }}'')"
  using renderAnnotations_isolation [of "[(''summary'', ''{{ $labels.job }}''), (''runbook'', ''{{ $nope }}'')]"
      "frag_engine nat_dec" "[(''job'', ''api'')]" "1::nat" "''summary''"]
  by (simp add: gomap_wf_def)

subsection \<open>Rendering with the fragment engine\<close>

lemma parse_helper_then:
  "tparse_nodes 1 [''''] (helper @ rest) =
     map_sum id (\<lambda>ns. TDecl ''labels'' (TDot [''Labels'']) # TDecl ''value'' (TDot [''Value'']) # ns)
       (tparse_nodes 1 [''value'', ''labels'', ''''] rest)"
proof -
  have a1: "parse_action [''''] '' $labels := .Labels '' = Inr (TDecl ''labels'' (TDot [''Labels'']), [''labels'', ''''])"
    by (simp add: parse_action_def parse_command_def words_def parse_term_def action_char_def
        ident_char_def is_field_def is_digit_def)
  have a2: "parse_action [''labels'', ''''] '' $value := .Value '' = Inr (TDecl ''value'' (TDot [''Value'']), [''value'', ''labels'', ''''])"
    by (simp add: parse_action_def parse_command_def words_def parse_term_def action_char_def
        ident_char_def is_field_def is_digit_def)
  have b1: "break_at ''{{'' (helper @ rest) = Some ([], '' $labels := .Labels }}'' @ ''{{ $value := .Value }}'' @ rest)"
    using break_at_found [of "''{{''" "[]"] by (simp add: helper_def)
  have b2: "break_at ''}}'' ('' $labels := .Labels }}'' @ ''{{ $value := .Value }}'' @ rest)
      = Some ('' $labels := .Labels '', ''{{ $value := .Value }}'' @ rest)"
    using break_at_found [of "''}}''" "'' $labels := .Labels ''"] by simp
  have b3: "break_at ''{{'' (''{{ $value := .Value }}'' @ rest) = Some ([], '' $value := .Value }}'' @ rest)"
    using break_at_found [of "''{{''" "[]"] by simp
  have b4: "break_at ''}}'' ('' $value := .Value }}'' @ rest) = Some ('' $value := .Value '', rest)"
    using break_at_found [of "''}}''" "'' $value := .Value ''"] by simp
  have p1: "plain_action ('' $labels := .Labels }}'' @ ''{{ $value := .Value }}'' @ rest) '' $labels := .Labels ''"
    by (rule plain_action_spaced) simp_all
  have p2: "plain_action ('' $value := .Value }}'' @ rest) '' $value := .Value ''"
    by (rule plain_action_spaced) simp_all
  show ?thesis
    unfolding tparse_nodes_action [OF b1 b2 a1 p1] tparse_nodes_action [OF b3 b4 a2 p2]
    by (simp add: count_nl_def sum.map_comp comp_def id_def)
qed

lemma render_one_label:
  assumes "is_field name" and "gomap_wf labels"
  shows "render_one (frag_engine fmt) (template_data labels v) (''{{ $labels.'' @ name @ '' }}'') =
         (case map_of labels name of Some x \<Rightarrow> x | None \<Rightarrow> ''<no value>'')"
proof -
  have "list_all ident_char name" using assms(1) by (simp add: is_field_def)
  then have nc: "CHR ''}'' \<notin> set name" using ident_char_not_special by (auto simp: list_all_iff)
  have b1: "break_at ''{{'' (''{{ $labels.'' @ name @ '' }}'') = Some ([], '' $labels.'' @ name @ '' }}'')"
    using break_at_found [of "''{{''" "[]"] by simp
  have b2: "break_at ''}}'' ('' $labels.'' @ name @ '' }}'') = Some ('' $labels.'' @ name @ '' '', [])"
    using break_at_found [of "''}}''" "'' $labels.'' @ name @ '' ''" "[]"] nc by simp
  have a: "parse_action [''value'', ''labels'', ''''] ('' $labels.'' @ name @ '' '') =
      Inr (TPrint (TVar ''labels'' [name]), [''value'', ''labels'', ''''])"
    using assms(1) by (rule parse_action_label) simp
  have pa: "plain_action ('' $labels.'' @ name @ '' }}'') ('' $labels.'' @ name @ '' '')"
    by (rule plain_action_spaced) simp_all
  have p: "frag_parse (helper @ ''{{ $labels.'' @ name @ '' }}'') =
      Inr [TDecl ''labels'' (TDot [''Labels'']), TDecl ''value'' (TDot [''Value'']),
           TPrint (TVar ''labels'' [name])]"
    unfolding frag_parse_def parse_helper_then tparse_nodes_action [OF b1 b2 a pa]
    by (simp add: tparse_nodes_Nil)
  show ?thesis
    using assms(2) p
    by (simp add: render_one_def frag_engine_def frag_exec_def eval_term_def template_data_labels
        split: option.split)
qed


text \<open>A label, a text without braces and the value, as in \<open>{{ $labels.job }} at {{ $value }}\<close>.\<close>

lemma render_one_label_text_value:
  assumes "is_field name" and "gomap_wf labels" and "CHR ''{'' \<notin> set t"
  shows "render_one (frag_engine fmt) (template_data labels v)
           (''{{ $labels.'' @ name @ '' }}'' @ t @ ''{{ $value }}'') =
         (case map_of labels name of Some x \<Rightarrow> x | None \<Rightarrow> ''<no value>'') @ t @ fmt v"
proof -
  have "list_all ident_char name" using assms(1) by (simp add: is_field_def)
  then have nc: "CHR ''}'' \<notin> set name" using ident_char_not_special by (auto simp: list_all_iff)
  have b1: "break_at ''{{'' (''{{ $labels.'' @ name @ '' }}'' @ t @ ''{{ $value }}'') =
      Some ([], '' $labels.'' @ name @ '' }}'' @ t @ ''{{ $value }}'')"
    using break_at_found [of "''{{''" "[]"] by simp
  have b2: "break_at ''}}'' ('' $labels.'' @ name @ '' }}'' @ t @ ''{{ $value }}'') =
      Some ('' $labels.'' @ name @ '' '', t @ ''{{ $value }}'')"
    using break_at_found [of "''}}''" "'' $labels.'' @ name @ '' ''"] nc by simp
  have a1: "parse_action [''value'', ''labels'', ''''] ('' $labels.'' @ name @ '' '') =
      Inr (TPrint (TVar ''labels'' [name]), [''value'', ''labels'', ''''])"
    using assms(1) by (rule parse_action_label) simp
  have p1: "plain_action ('' $labels.'' @ name @ '' }}'' @ t @ ''{{ $value }}'') ('' $labels.'' @ name @ '' '')"
    by (rule plain_action_spaced) simp_all
  have b3: "break_at ''{{'' (t @ ''{{ $value }}'') = Some (t, '' $value }}'')"
    using break_at_found [of "''{{''" t] assms(3) by simp
  have b4: "break_at ''}}'' '' $value }}'' = Some ('' $value '', [])"
    using break_at_found [of "''}}''" "'' $value ''" "[]"] by simp
  have a2: "parse_action [''value'', ''labels'', ''''] '' $value '' =
      Inr (TPrint (TVar ''value'' []), [''value'', ''labels'', ''''])"
    using parse_action_var [of "''value''"] by (simp add: ident_char_def is_digit_def)
  have p2: "plain_action '' $value }}'' '' $value ''"
    by (rule plain_action_spaced) simp_all
  have p: "frag_parse (helper @ ''{{ $labels.'' @ name @ '' }}'' @ t @ ''{{ $value }}'') =
      Inr ([TDecl ''labels'' (TDot [''Labels'']), TDecl ''value'' (TDot [''Value'']),
           TPrint (TVar ''labels'' [name])] @ (if t = [] then [] else [TText t]) @
           [TPrint (TVar ''value'' [])])"
    unfolding frag_parse_def parse_helper_then tparse_nodes_action [OF b1 b2 a1 p1]
      tparse_nodes_action [OF b3 b4 a2 p2]
    by (simp add: tparse_nodes_Nil)
  have dv: "data_Value (template_data labels v) = v" by (simp add: template_data_def)
  show ?thesis
    using assms(2) p dv
    by (auto simp: render_one_def frag_engine_def frag_exec_def eval_term_def template_data_labels
        split: option.split)
qed

lemma render_one_undefined_variable:
  assumes "x \<noteq> []" and "list_all ident_char x" and "x \<notin> {''labels'', ''value''}"
  shows "render_one (frag_engine fmt) d (''{{ $'' @ x @ '' }}'') =
    ''<template_error: template: validity:1: undefined variable \"$'' @ x @ ''\">''"
proof -
  have nc: "CHR ''}'' \<notin> set x" using assms(2) ident_char_not_special by (auto simp: list_all_iff)
  have b1: "break_at ''{{'' (''{{ $'' @ x @ '' }}'') = Some ([], '' $'' @ x @ '' }}'')"
    using break_at_found [of "''{{''" "[]"] by simp
  have b2: "break_at ''}}'' ('' $'' @ x @ '' }}'') = Some ('' $'' @ x @ '' '', [])"
    using break_at_found [of "''}}''" "'' $'' @ x @ '' ''" "[]"] nc by simp
  have a: "parse_action [''value'', ''labels'', ''''] ('' $'' @ x @ '' '') = Inl (UndefinedVariable x)"
    using parse_action_var [OF assms(1,2)] assms(1,3) by simp
  have pa: "plain_action ('' $'' @ x @ '' }}'') ('' $'' @ x @ '' '')"
    by (rule plain_action_spaced) simp_all
  have "nat_dec 1 = ''1''" by code_simp
  then have p: "frag_parse (helper @ ''{{ $'' @ x @ '' }}'') =
      Inl (''template: validity:1: undefined variable \"$'' @ x @ ''\"'')"
    unfolding frag_parse_def parse_helper_then tparse_nodes_action_error [OF b1 b2 a pa]
    by (simp add: count_nl_def tparse_error_msg_def)
  show ?thesis using p by (simp add: render_one_def frag_engine_def)
qed

text \<open>
  C17: the template \<open>{{ $value }}\<close> renders to the engine's formatting of the series' last value.
\<close>

theorem render_one_value:
  "render_one (frag_engine fmt) (template_data labels v) ''{{ $value }}'' = fmt v"
proof -
  have b1: "break_at ''{{'' ''{{ $value }}'' = Some ([], '' $value }}'')"
    using break_at_found [of "''{{''" "[]"] by simp
  have b2: "break_at ''}}'' '' $value }}'' = Some ('' $value '', [])"
    using break_at_found [of "''}}''" "'' $value ''" "[]"] by simp
  have a: "parse_action [''value'', ''labels'', ''''] '' $value '' = Inr (TPrint (TVar ''value'' []), [''value'', ''labels'', ''''])"
    using parse_action_var [of "''value''"] by (simp add: ident_char_def is_digit_def)
  have pa: "plain_action '' $value }}'' '' $value ''"
    by (rule plain_action_spaced) simp_all
  have p: "frag_parse (helper @ ''{{ $value }}'') =
      Inr [TDecl ''labels'' (TDot [''Labels'']), TDecl ''value'' (TDot [''Value'']), TPrint (TVar ''value'' [])]"
    unfolding frag_parse_def parse_helper_then tparse_nodes_action [OF b1 b2 a pa]
    by (simp add: tparse_nodes_Nil)
  show ?thesis
    using p by (simp add: render_one_def frag_engine_def frag_exec_def eval_term_def template_data_def)
qed

text \<open>
  No function is registered with \<open>Funcs\<close>: a command that calls a function other
  than the builtins, such as Prometheus' \<open>humanize\<close>, is a parse error of the
  annotation.
\<close>

lemma parse_action_function:
  assumes "is_field f" and "f \<notin> set template_keywords" and "f \<notin> set builtin_funcs"
  shows "parse_action vars ('' '' @ f @ '' $value '') = Inl (FunctionNotDefined f)"
proof -
  have ic: "list_all ident_char f" using assms(1) by (simp add: is_field_def)
  then have nodelim: "CHR '' '' \<notin> set f"
    using ident_char_not_special by (auto simp: list_all_iff)
  have "split_on (CHR '' '') ('' '' @ f @ '' $value '') = [[], f, ''$value'', []]"
    using nodelim by (simp add: split_on_no_delim)
  then have w: "words ('' '' @ f @ '' $value '') = [f, ''$value'']"
    using assms(1) by (simp add: words_def is_field_def)
  have "list_all action_char ('' '' @ f @ '' $value '')"
    using ic by (auto simp: action_char_def list_all_iff ident_char_def)
  with w assms show ?thesis by (simp add: parse_action_def parse_command_def)
qed

lemma render_one_undefined_function:
  assumes "is_field f" and "f \<notin> set template_keywords" and "f \<notin> set builtin_funcs"
  shows "render_one (frag_engine fmt) d (''{{ '' @ f @ '' $value }}'') =
    ''<template_error: template: validity:1: function \"'' @ f @ ''\" not defined>''"
proof -
  have "list_all ident_char f" using assms(1) by (simp add: is_field_def)
  then have nc: "CHR ''}'' \<notin> set f" using ident_char_not_special by (auto simp: list_all_iff)
  have b1: "break_at ''{{'' (''{{ '' @ f @ '' $value }}'') = Some ([], '' '' @ f @ '' $value }}'')"
    using break_at_found [of "''{{''" "[]"] by simp
  have b2: "break_at ''}}'' ('' '' @ f @ '' $value }}'') = Some ('' '' @ f @ '' $value '', [])"
    using break_at_found [of "''}}''" "'' '' @ f @ '' $value ''" "[]"] nc by simp
  have a: "parse_action [''value'', ''labels'', ''''] ('' '' @ f @ '' $value '') = Inl (FunctionNotDefined f)"
    using assms by (rule parse_action_function)
  have pa: "plain_action ('' '' @ f @ '' $value }}'') ('' '' @ f @ '' $value '')"
    by (rule plain_action_spaced) simp_all
  have "nat_dec 1 = ''1''" by code_simp
  then have p: "frag_parse (helper @ ''{{ '' @ f @ '' $value }}'') =
      Inl (''template: validity:1: function \"'' @ f @ ''\" not defined'')"
    unfolding frag_parse_def parse_helper_then tparse_nodes_action_error [OF b1 b2 a pa]
    by (simp add: count_nl_def tparse_error_msg_def)
  show ?thesis using p by (simp add: render_one_def frag_engine_def)
qed

lemma render_one_humanize:
  "render_one (frag_engine fmt) d ''{{ humanize $value }}'' =
    ''<template_error: template: validity:1: function \"humanize\" not defined>''"
  using render_one_undefined_function [of "''humanize''" fmt d]
  by (simp add: is_field_def ident_char_def is_digit_def template_keywords_def builtin_funcs_def)

text \<open>Trim markers around a label: the blanks on both sides go.\<close>

lemma render_one_trimmed_label:
  "render_one (frag_engine fmt) (template_data [(''job'', ''api'')] v)
     ''  job: {{- $labels.job -}}  !'' = ''  job:api!''"
  by (simp add: render_one_def frag_engine_def frag_exec_def template_data_def helper_def) code_simp

end
