(* ===== verification/Config.thy ===== *)
theory Config
  imports GoTime
begin

text \<open>
  The rule file structures of \<open>internal/config/rules.go\<close> and the run configuration
  of \<open>internal/config/config.go\<close>. YAML decoding fills them; the evaluator reads
  \<open>Expr\<close>, \<open>For\<close> and \<open>Annotations\<close>, the reporters read \<open>Alert\<close>.
\<close>

record Rule =
  Alert :: string
  Expr :: string
  For :: string
  Labels :: "(string, string) gomap"
  Annotations :: "(string, string) gomap"

record RuleGroup =
  Name :: string
  Rules :: "Rule list"

record RuleFile =
  Groups :: "RuleGroup list"

record Config =
  FilePath :: string
  PromURL :: string
  OutputFormat :: string
  Start :: go_Time
  End :: go_Time
  cfg_RuleFile :: RuleFile

end
