(* ===== verification/Evaluator.thy ===== *)
theory Evaluator
  imports Render Config
begin

text \<open>
  \<open>calculateAlerts\<close> of \<open>internal/engine/engine.go\<close>: the \<open>for\<close> duration is parsed
  once (an empty or malformed string gives \<open>0\<close>), then every stream of the matrix
  becomes one \<open>AlertResult\<close> in matrix order. A stream with fewer than two samples
  has elapsed time \<open>0\<close> and fires exactly when \<open>for\<close> is \<open>0\<close>; a longer one has
  elapsed time last minus first timestamp (\<open>time.Time.Sub\<close>, saturating) and fires
  when that is at least \<open>for\<close>, compared as signed 64-bit integers. A firing result
  carries the rendered annotations of the last sample. Reading the last sample of a
  stream with no samples is Go's index-out-of-range panic, a value of \<open>go_panic\<close>.
\<close>

datatype AlertState = StateFiring | StatePending | StateSilent

text \<open>\<open>string(state)\<close>: the constants' string values.\<close>

definition AlertState_str :: "AlertState \<Rightarrow> string" where
  "AlertState_str s =
     (case s of StateFiring \<Rightarrow> ''FIRING'' | StatePending \<Rightarrow> ''PENDING'' | StateSilent \<Rightarrow> ''SILENT'')"

record AlertResult =
  ar_Metric :: label_set
  ar_Duration :: Duration
  ar_State :: AlertState
  ar_Annotations :: "(string, string) gomap"

text \<open>A Go runtime panic: \<open>index out of range [i]\<close>.\<close>

datatype go_panic = IndexOutOfRange int

text \<open>\<open>stream.Values[len(stream.Values)-1].Value\<close>.\<close>

definition last_value :: "'v SamplePair list \<Rightarrow> go_panic + 'v" where
  "last_value vs = (if vs = [] then Inl (IndexOutOfRange (-1)) else Inr (Value (last vs)))"

text \<open>Lines 72--79: the \<open>for\<close> duration, \<open>0\<close> when empty or when \<open>time.ParseDuration\<close> fails.\<close>

definition forDuration :: "string \<Rightarrow> Duration" where
  "forDuration f = (if f \<noteq> [] then (case ParseDuration f of Inl _ \<Rightarrow> 0 | Inr d \<Rightarrow> d) else 0)"

text \<open>The body of the loop over the matrix (lines 84--124), for one stream.\<close>

definition alert_of_stream ::
  "('t, 'v) template_engine \<Rightarrow> Rule \<Rightarrow> Duration \<Rightarrow> 'v SampleStream \<Rightarrow> go_panic + AlertResult" where
  "alert_of_stream E rule fd stream =
    (let vs = Values stream in
     if length vs < 2 then
       (let state = (if fd = 0 then StateFiring else StatePending) in
        if state = StateFiring then
          (case last_value vs of
            Inl p \<Rightarrow> Inl p
          | Inr v \<Rightarrow>
              Inr \<lparr>ar_Metric = Metric stream, ar_Duration = 0, ar_State = state,
                   ar_Annotations = renderAnnotations E (Annotations rule) (Metric stream) v\<rparr>)
        else Inr \<lparr>ar_Metric = Metric stream, ar_Duration = 0, ar_State = state, ar_Annotations = []\<rparr>)
     else
       (let firstTime = Timestamp_Time (Timestamp (hd vs));
            lastTime = Timestamp_Time (Timestamp (last vs));
            duration = Time_Sub lastTime firstTime;
            state = (if fd \<le>s duration then StateFiring else StatePending)
        in Inr \<lparr>ar_Metric = Metric stream, ar_Duration = duration, ar_State = state,
                ar_Annotations =
                  (if state = StateFiring
                   then renderAnnotations E (Annotations rule) (Metric stream) (Value (last vs))
                   else [])\<rparr>))"

fun calc_loop ::
  "('t, 'v) template_engine \<Rightarrow> Rule \<Rightarrow> Duration \<Rightarrow> 'v Matrix \<Rightarrow> AlertResult list
   \<Rightarrow> go_panic + AlertResult list" where
  "calc_loop E rule fd [] results = Inr results"
| "calc_loop E rule fd (stream # ss) results =
     (case alert_of_stream E rule fd stream of
       Inl p \<Rightarrow> Inl p
     | Inr r \<Rightarrow> calc_loop E rule fd ss (results @ [r]))"

definition calculateAlerts ::
  "('t, 'v) template_engine \<Rightarrow> 'v Matrix \<Rightarrow> Rule \<Rightarrow> go_panic + AlertResult list" where
  "calculateAlerts E matrix rule = calc_loop E rule (forDuration (For rule)) matrix []"

subsection \<open>The specification of one result\<close>

text \<open>
  What the design promises for one stream, as one rule: the elapsed time is \<open>0\<close> for
  fewer than two samples and last minus first timestamp otherwise; the state is
  firing exactly when the elapsed time reaches \<open>for\<close>; only a firing result has
  annotations, rendered from the last sample.
\<close>

definition elapsed :: "'v SampleStream \<Rightarrow> Duration" where
  "elapsed s =
    (if length (Values s) < 2 then 0
     else Time_Sub (Timestamp_Time (Timestamp (last (Values s))))
                   (Timestamp_Time (Timestamp (hd (Values s)))))"

definition spec_state :: "Duration \<Rightarrow> Duration \<Rightarrow> AlertState" where
  "spec_state fd el = (if fd \<le>s el then StateFiring else StatePending)"

definition spec_alert ::
  "('t, 'v) template_engine \<Rightarrow> Rule \<Rightarrow> Duration \<Rightarrow> 'v SampleStream \<Rightarrow> AlertResult" where
  "spec_alert E rule fd s =
     \<lparr>ar_Metric = Metric s, ar_Duration = elapsed s, ar_State = spec_state fd (elapsed s),
      ar_Annotations =
        (if spec_state fd (elapsed s) = StateFiring
         then renderAnnotations E (Annotations rule) (Metric s) (Value (last (Values s)))
         else [])\<rparr>"

subsection \<open>Lemmas\<close>

lemma last_value_nonempty [simp]: "vs \<noteq> [] \<Longrightarrow> last_value vs = Inr (Value (last vs))"
  by (simp add: last_value_def)

lemma alert_of_stream_Inl:
  "alert_of_stream E rule fd s = Inl p \<longleftrightarrow> fd = 0 \<and> Values s = [] \<and> p = IndexOutOfRange (-1)"
  by (auto simp: alert_of_stream_def last_value_def Let_def split: if_splits)

lemma calc_loop_Inr:
  "(\<And>s. s \<in> set ss \<Longrightarrow> alert_of_stream E rule fd s = Inr (g s)) \<Longrightarrow>
   calc_loop E rule fd ss acc = Inr (acc @ map g ss)"
  by (induction ss arbitrary: acc) auto

lemma calc_loop_Inl:
  "(\<exists>p. calc_loop E rule fd ss acc = Inl p) \<longleftrightarrow> (\<exists>s\<in>set ss. \<exists>p. alert_of_stream E rule fd s = Inl p)"
proof (induction ss arbitrary: acc)
  case Nil
  then show ?case by simp
next
  case (Cons s ss)
  then show ?case by (cases "alert_of_stream E rule fd s") auto
qed

lemma calc_loop_Inl_panic:
  "calc_loop E rule fd ss acc = Inl p \<Longrightarrow> p = IndexOutOfRange (-1)"
proof (induction ss arbitrary: acc)
  case Nil
  then show ?case by simp
next
  case (Cons s ss)
  then show ?case by (cases "alert_of_stream E rule fd s") (auto simp: alert_of_stream_Inl)
qed

lemma alert_of_stream_spec:
  assumes "0 \<le>s fd" and "Values s \<noteq> []"
  shows "alert_of_stream E rule fd s = Inr (spec_alert E rule fd s)"
proof (cases "length (Values s) < 2")
  case True
  with assms show ?thesis
    by (auto simp: alert_of_stream_def spec_alert_def elapsed_def spec_state_def Let_def
        sle_zero_antisym)
next
  case False
  then show ?thesis
    by (simp add: alert_of_stream_def spec_alert_def elapsed_def spec_state_def Let_def)
qed

lemma elapsed_nonneg: "chronological (Values s) \<Longrightarrow> 0 \<le>s elapsed s"
proof (cases "length (Values s) < 2")
  case True
  then show ?thesis by (simp add: elapsed_def)
next
  case False
  assume "chronological (Values s)"
  with False have "sint (Timestamp (hd (Values s))) \<le> sint (Timestamp (last (Values s)))"
    by (intro chronological_hd_last) auto
  with False show ?thesis by (simp add: elapsed_def Timestamp_Time_eq Time_Sub_nonneg)
qed

lemma calc_loop_Inr_rel:
  "calc_loop E rule fd ss acc = Inr rs \<Longrightarrow>
   \<exists>rs'. rs = acc @ rs' \<and> list_all2 (\<lambda>s r. alert_of_stream E rule fd s = Inr r) ss rs'"
proof (induction ss arbitrary: acc)
  case Nil
  then show ?case by simp
next
  case (Cons s ss)
  then obtain r where r: "alert_of_stream E rule fd s = Inr r"
    and rest: "calc_loop E rule fd ss (acc @ [r]) = Inr rs"
    by (cases "alert_of_stream E rule fd s") auto
  from Cons.IH [OF rest] obtain rs' where "rs = (acc @ [r]) @ rs'"
    and "list_all2 (\<lambda>s r. alert_of_stream E rule fd s = Inr r) ss rs'"
    by blast
  with r show ?case by auto
qed

lemma calculateAlerts_nth:
  assumes "calculateAlerts E m rule = Inr rs"
  shows "length rs = length m \<and>
    (\<forall>i < length m. alert_of_stream E rule (forDuration (For rule)) (m ! i) = Inr (rs ! i))"
  using calc_loop_Inr_rel [of E rule "forDuration (For rule)" m "[]" rs] assms
  by (auto simp: calculateAlerts_def list_all2_conv_all_nth)

lemma alert_of_stream_Annotations:
  assumes "Annotations r1 = Annotations r2"
  shows "alert_of_stream E r1 fd s = alert_of_stream E r2 fd s"
  unfolding alert_of_stream_def assms ..

lemma calc_loop_Annotations:
  assumes "Annotations r1 = Annotations r2"
  shows "calc_loop E r1 fd ss acc = calc_loop E r2 fd ss acc"
  by (induction ss arbitrary: acc)
    (simp_all add: alert_of_stream_Annotations [OF assms] split: sum.split)

lemma forDuration_0s: "forDuration ''0s'' = 0"
  by (simp add: forDuration_def ParseDuration_eval)

lemma spec_state_elapsed_zero: "0 \<le>s elapsed s \<Longrightarrow> spec_state 0 (elapsed s) = StateFiring"
  by (simp add: spec_state_def)

lemma calculateAlerts_no_panic:
  assumes "forDuration (For rule) \<noteq> 0 \<or> (\<forall>s\<in>set m. Values s \<noteq> [])"
  shows "\<exists>rs. calculateAlerts E m rule = Inr rs"
proof (cases "calculateAlerts E m rule")
  case (Inl p)
  then have "\<exists>s\<in>set m. \<exists>p. alert_of_stream E rule (forDuration (For rule)) s = Inl p"
    using calc_loop_Inl by (fastforce simp: calculateAlerts_def)
  with assms show ?thesis by (auto simp: alert_of_stream_Inl)
qed simp

subsection \<open>Example inputs\<close>

text \<open>
  Inputs of the examples of the specification: one stream with samples ten minutes
  apart, one stream with a single sample and one with none, rules differing in
  \<open>for\<close> and annotations, and the fragment engine printing integral values.
\<close>

definition ex_engine :: "(tnode list, nat) template_engine" where
  "ex_engine = frag_engine nat_dec"

definition ex_stream :: "nat SampleStream" where
  "ex_stream = \<lparr>Metric = [(''job'', ''api'')],
     Values = [\<lparr>Timestamp = - 600000, Value = 1\<rparr>, \<lparr>Timestamp = 0, Value = 1\<rparr>]\<rparr>"

definition ex_single :: "nat SampleStream" where
  "ex_single = \<lparr>Metric = [(''job'', ''api'')], Values = [\<lparr>Timestamp = 0, Value = 7\<rparr>]\<rparr>"

definition ex_empty :: "nat SampleStream" where
  "ex_empty = \<lparr>Metric = [(''job'', ''api'')], Values = []\<rparr>"

definition ex_rule :: "string \<Rightarrow> (string, string) gomap \<Rightarrow> Rule" where
  "ex_rule f anns = \<lparr>Alert = ''HighLoad'', Expr = ''up == 0'', For = f, Labels = [], Annotations = anns\<rparr>"

subsection \<open>Properties of calculateAlerts\<close>

text \<open>
  C1: when the \<open>for\<close> duration is non-negative and no series of the matrix is empty, \<open>calculateAlerts\<close> does not panic and returns, series by series and in order, the result of the specification \<open>spec_alert\<close>: the state is FIRING iff the elapsed time reaches the \<open>for\<close> duration, the elapsed time is that of the first and last samples (0 for a single sample), and only firing series carry rendered annotations.
\<close>

theorem calculateAlerts_refines_spec:
  assumes "0 \<le>s forDuration (For rule)" and "\<forall>s\<in>set m. Values s \<noteq> []"
  shows "calculateAlerts E m rule = Inr (map (spec_alert E rule (forDuration (For rule))) m)"
  using assms by (simp add: calculateAlerts_def calc_loop_Inr alert_of_stream_spec)

theorem calculateAlerts_refines_spec_witness:
  "0 \<le>s forDuration (For (ex_rule ''5m'' [])) \<and> Values ex_stream \<noteq> [] \<and>
   calculateAlerts ex_engine [ex_stream] (ex_rule ''5m'' []) =
     Inr (map (spec_alert ex_engine (ex_rule ''5m'' []) (forDuration (For (ex_rule ''5m'' [])))) [ex_stream])"
  using calculateAlerts_refines_spec [of "ex_rule ''5m'' []" "[ex_stream]" ex_engine]
  by (simp add: ex_rule_def ex_stream_def forDuration_def ParseDuration_eval word_sle_eq)

text \<open>
  C11: \<open>calculateAlerts\<close> panics (index out of range) exactly when the \<open>for\<close> duration is 0 and some series of the matrix has no samples.
\<close>

theorem calculateAlerts_panics_iff:
  "(\<exists>p. calculateAlerts E m rule = Inl p) \<longleftrightarrow>
   forDuration (For rule) = 0 \<and> (\<exists>s\<in>set m. Values s = [])"
  by (auto simp: calculateAlerts_def calc_loop_Inl alert_of_stream_Inl)

theorem calculateAlerts_panics_iff_witness:
  "\<exists>p. calculateAlerts ex_engine [ex_empty] (ex_rule ''0s'' []) = Inl p"
  using calculateAlerts_panics_iff [of ex_engine "[ex_empty]" "ex_rule ''0s'' []"]
  by (simp add: ex_rule_def ex_empty_def forDuration_0s)

text \<open>
  C4: with \<open>for\<close> absent or \<open>0s\<close>, every non-empty chronological series fires, whatever its span, and there is one result per series.
\<close>

theorem calculateAlerts_instant_fire:
  assumes "For rule = [] \<or> For rule = ''0s''"
    and "\<forall>s\<in>set m. Values s \<noteq> [] \<and> chronological (Values s)"
  shows "\<exists>rs. calculateAlerts E m rule = Inr rs \<and> length rs = length m \<and>
    (\<forall>r\<in>set rs. ar_State r = StateFiring)"
proof -
  have fd: "forDuration (For rule) = 0"
    using assms(1) by (auto simp: forDuration_0s) (simp add: forDuration_def)
  have "calculateAlerts E m rule = Inr (map (spec_alert E rule 0) m)"
    using assms(2) fd by (simp add: calculateAlerts_def calc_loop_Inr alert_of_stream_spec)
  moreover have "\<forall>s\<in>set m. ar_State (spec_alert E rule 0 s) = StateFiring"
    using assms(2) by (simp add: spec_alert_def spec_state_elapsed_zero elapsed_nonneg)
  ultimately show ?thesis by auto
qed

theorem calculateAlerts_instant_fire_witness:
  "(For (ex_rule ''0s'' []) = [] \<or> For (ex_rule ''0s'' []) = ''0s'') \<and>
   Values ex_stream \<noteq> [] \<and> chronological (Values ex_stream) \<and>
   Values ex_single \<noteq> [] \<and> chronological (Values ex_single) \<and>
   (\<exists>rs. calculateAlerts ex_engine [ex_stream, ex_single] (ex_rule ''0s'' []) = Inr rs \<and>
      length rs = length [ex_stream, ex_single] \<and> (\<forall>r\<in>set rs. ar_State r = StateFiring))"
  using calculateAlerts_instant_fire [of "ex_rule ''0s'' []" "[ex_stream, ex_single]" ex_engine]
  by (simp add: ex_rule_def ex_stream_def ex_single_def chronological_def)

text \<open>
  C3: with a non-zero \<open>for\<close> duration, a series with fewer than two samples is reported PENDING with duration 0 and no annotations, and the call does not panic.
\<close>

theorem calculateAlerts_short_pending:
  assumes "forDuration (For rule) \<noteq> 0" and "i < length m" and "length (Values (m ! i)) < 2"
  shows "\<exists>rs. calculateAlerts E m rule = Inr rs \<and>
    rs ! i = \<lparr>ar_Metric = Metric (m ! i), ar_Duration = 0, ar_State = StatePending,
              ar_Annotations = []\<rparr>"
proof -
  obtain rs where rs: "calculateAlerts E m rule = Inr rs"
    using calculateAlerts_no_panic assms(1) by blast
  have "alert_of_stream E rule (forDuration (For rule)) (m ! i) = Inr (rs ! i)"
    using calculateAlerts_nth [OF rs] assms(2) by blast
  from this [symmetric] assms(1,3) rs show ?thesis
    by (simp add: alert_of_stream_def Let_def)
qed

theorem calculateAlerts_short_pending_witness:
  "forDuration (For (ex_rule ''5m'' [])) \<noteq> 0 \<and> 0 < length [ex_single] \<and>
   length (Values ([ex_single] ! 0)) < 2 \<and>
   (\<exists>rs. calculateAlerts ex_engine [ex_single] (ex_rule ''5m'' []) = Inr rs \<and>
      rs ! 0 = \<lparr>ar_Metric = Metric ([ex_single] ! 0), ar_Duration = 0, ar_State = StatePending,
                ar_Annotations = []\<rparr>)"
  using calculateAlerts_short_pending [of "ex_rule ''5m'' []" 0 "[ex_single]" ex_engine]
  by (simp add: ex_rule_def ex_single_def forDuration_def ParseDuration_eval)

text \<open>
  C2: for every series with at least two samples, the reported duration is the difference of its last and first timestamps in nanoseconds, saturated to the \<open>int64\<close> range, and the series is FIRING iff that duration reaches the \<open>for\<close> duration.
\<close>

theorem calculateAlerts_long_series:
  assumes "calculateAlerts E m rule = Inr rs" and "i < length m"
    and "2 \<le> length (Values (m ! i))"
  shows "sint (ar_Duration (rs ! i)) =
           max int64_min (min int64_max
             ((sint (Timestamp (last (Values (m ! i)))) - sint (Timestamp (hd (Values (m ! i))))) * 1000000))
    \<and> (ar_State (rs ! i) = StateFiring \<longleftrightarrow> forDuration (For rule) \<le>s ar_Duration (rs ! i))"
proof -
  have "alert_of_stream E rule (forDuration (For rule)) (m ! i) = Inr (rs ! i)"
    using calculateAlerts_nth [OF assms(1)] assms(2) by blast
  from this [symmetric] assms(3) show ?thesis
    by (simp add: alert_of_stream_def Let_def sint_Time_Sub Timestamp_Time_eq left_diff_distrib)
qed

theorem calculateAlerts_long_series_witness:
  "calculateAlerts ex_engine [ex_stream] (ex_rule ''5m'' []) =
     Inr [\<lparr>ar_Metric = [(''job'', ''api'')], ar_Duration = 600000000000, ar_State = StateFiring,
           ar_Annotations = []\<rparr>] \<and>
   0 < length [ex_stream] \<and> 2 \<le> length (Values ([ex_stream] ! 0)) \<and>
   sint (ar_Duration ([\<lparr>ar_Metric = [(''job'', ''api'')], ar_Duration = 600000000000,
       ar_State = StateFiring, ar_Annotations = []\<rparr>] ! 0)) = 600000000000"
proof -
  have run: "calculateAlerts ex_engine [ex_stream] (ex_rule ''5m'' []) =
     Inr [\<lparr>ar_Metric = [(''job'', ''api'')], ar_Duration = 600000000000, ar_State = StateFiring,
           ar_Annotations = []\<rparr>]"
    by (simp add: ex_engine_def ex_stream_def ex_rule_def) code_simp
  have len: "2 \<le> length (Values ([ex_stream] ! 0))"
    by (simp add: ex_stream_def)
  have "sint (ar_Duration ([\<lparr>ar_Metric = [(''job'', ''api'')], ar_Duration = 600000000000,
       ar_State = StateFiring, ar_Annotations = []\<rparr>] ! 0)) =
    max int64_min (min int64_max ((sint (Timestamp (last (Values ([ex_stream] ! 0))))
      - sint (Timestamp (hd (Values ([ex_stream] ! 0))))) * 1000000))"
    using calculateAlerts_long_series [OF run _ len] by simp
  then show ?thesis
    by (intro conjI run len) (simp_all add: ex_stream_def int64_min_def int64_max_def)
qed

text \<open>
  C10: a \<open>for\<close> text that \<open>time.ParseDuration\<close> rejects is silently treated as \<open>0s\<close>: the results equal those of the same rule with \<open>for: 0s\<close>.
\<close>

theorem calculateAlerts_malformed_for:
  assumes "ParseDuration f = Inl e"
  shows "calculateAlerts E m (rule\<lparr>For := f\<rparr>) = calculateAlerts E m (rule\<lparr>For := ''0s''\<rparr>)"
proof -
  have "forDuration f = 0" using assms by (auto simp: forDuration_def)
  then show ?thesis
    by (simp add: calculateAlerts_def forDuration_0s
        calc_loop_Annotations [of "rule\<lparr>For := f\<rparr>" "rule\<lparr>For := ''0s''\<rparr>"])
qed

theorem calculateAlerts_malformed_for_witness:
  "ParseDuration ''5 minutes'' = Inl (UnknownUnit '' minutes'' ''5 minutes'') \<and>
   calculateAlerts ex_engine [ex_stream] ((ex_rule ''5m'' [])\<lparr>For := ''5 minutes''\<rparr>) =
   calculateAlerts ex_engine [ex_stream] ((ex_rule ''5m'' [])\<lparr>For := ''0s''\<rparr>)"
proof -
  have p: "ParseDuration ''5 minutes'' = Inl (UnknownUnit '' minutes'' ''5 minutes'')"
    by (simp add: ParseDuration_eval)
  show ?thesis using calculateAlerts_malformed_for [OF p] p by simp
qed

end
