(* ===== verification/Orchestrator.thy ===== *)
theory Orchestrator
  imports Evaluator
begin

text \<open>
  \<open>Run\<close> and \<open>evaluateRule\<close> of \<open>internal/engine/engine.go\<close>. The query client
  (\<open>v1api.QueryRange\<close>) is a parameter: a function from the expression and the range
  (start, end, step) to an error text or a \<open>model.Value\<close>. What the orchestrator does
  to the outside world is the sequence of its calls on the \<open>report.Reporter\<close>
  interface and its writes to standard error, in order: a value of \<open>io_event list\<close>.
  A Go panic raised by \<open>calculateAlerts\<close> is not recovered anywhere: it ends \<open>Run\<close>
  with the calls made so far, and \<open>Flush\<close> is never called.
\<close>

type_synonym 'v query_fn = "string \<Rightarrow> go_Time \<Rightarrow> go_Time \<Rightarrow> Duration \<Rightarrow> string + 'v model_Value"

text \<open>The two methods of \<open>report.Reporter\<close>, as calls with their arguments.\<close>

datatype rep_call =
    AddResult Rule label_set Duration string "(string, string) gomap"
  | Flush

datatype io_event = Rep rep_call | Stderr string

text \<open>\<open>"\<^emph>\<open>cross mark\<close> Query Error: %v\n"\<close>, the emoji as its UTF-8 bytes.\<close>

definition query_error_msg :: "string \<Rightarrow> string" where
  "query_error_msg err = [CHR 0xE2, CHR 0x9D, CHR 0x8C] @ '' Query Error: '' @ err @ ''\<newline>''"

definition evaluateRule ::
  "('t, 'v) template_engine \<Rightarrow> 'v query_fn \<Rightarrow> Rule \<Rightarrow> go_Time \<Rightarrow> go_Time \<Rightarrow> go_panic + io_event list" where
  "evaluateRule E Q rule start stop =
    (case Q (Expr rule) start stop Minute of
      Inl err \<Rightarrow> Inr [Stderr (query_error_msg err)]
    | Inr result \<Rightarrow>
        (case result of
          ValMatrix matrix \<Rightarrow>
            if matrix = [] then Inr [Rep (AddResult rule [] 0 (AlertState_str StateSilent) [])]
            else
              (case calculateAlerts E matrix rule of
                Inl p \<Rightarrow> Inl p
              | Inr results \<Rightarrow>
                  Inr (map (\<lambda>res. Rep (AddResult rule (ar_Metric res) (ar_Duration res)
                                        (AlertState_str (ar_State res)) (ar_Annotations res)))
                           results))
        | _ \<Rightarrow> Inr []))"

text \<open>The inner loop over a group's rules, then the outer loop over the groups.\<close>

fun run_rules ::
  "('t, 'v) template_engine \<Rightarrow> 'v query_fn \<Rightarrow> go_Time \<Rightarrow> go_Time \<Rightarrow> Rule list \<Rightarrow> io_event list
   \<Rightarrow> io_event list \<times> go_panic option" where
  "run_rules E Q st en [] acc = (acc, None)"
| "run_rules E Q st en (r # rs) acc =
     (case evaluateRule E Q r st en of
       Inl p \<Rightarrow> (acc, Some p)
     | Inr evs \<Rightarrow> run_rules E Q st en rs (acc @ evs))"

fun run_groups ::
  "('t, 'v) template_engine \<Rightarrow> 'v query_fn \<Rightarrow> go_Time \<Rightarrow> go_Time \<Rightarrow> RuleGroup list \<Rightarrow> io_event list
   \<Rightarrow> io_event list \<times> go_panic option" where
  "run_groups E Q st en [] acc = (acc, None)"
| "run_groups E Q st en (g # gs) acc =
     (case run_rules E Q st en (Rules g) acc of
       (acc', None) \<Rightarrow> run_groups E Q st en gs acc'
     | (acc', Some p) \<Rightarrow> (acc', Some p))"

definition Run ::
  "('t, 'v) template_engine \<Rightarrow> 'v query_fn \<Rightarrow> Config \<Rightarrow> io_event list \<times> go_panic option" where
  "Run E Q cfg =
    (case run_groups E Q (Start cfg) (End cfg) (Groups (cfg_RuleFile cfg)) [] of
      (evs, None) \<Rightarrow> (evs @ [Rep Flush], None)
    | (evs, Some p) \<Rightarrow> (evs, Some p))"

text \<open>The rules of a configuration, in the order \<open>Run\<close> visits them.\<close>

definition all_rules :: "Config \<Rightarrow> Rule list" where
  "all_rules cfg = concat (map Rules (Groups (cfg_RuleFile cfg)))"

subsection \<open>Example inputs\<close>

text \<open>
  A query client that answers one expression with an empty matrix, one with a
  matrix of one stream, one with a stream without samples, and fails on the rest;
  and a configuration with one group of such rules.
\<close>

definition ex_query :: "nat query_fn" where
  "ex_query expr st en step =
    (if expr = ''absent'' then Inr (ValMatrix [])
     else if expr = ''up == 0'' then Inr (ValMatrix [ex_stream])
     else if expr = ''gap'' then Inr (ValMatrix [ex_empty])
     else Inl ''bad_data: parse error'')"

definition ex_config :: "Rule list \<Rightarrow> Config" where
  "ex_config rs = \<lparr>FilePath = ''alert.yaml'', PromURL = ''http://localhost:9090'',
     OutputFormat = ''json'', Start = 0, End = 3600000000000,
     cfg_RuleFile = \<lparr>Groups = [\<lparr>Name = ''g1'', Rules = rs\<rparr>]\<rparr>\<rparr>"

subsection \<open>Properties\<close>

lemma run_rules_acc:
  "run_rules E Q st en rs acc = (case run_rules E Q st en rs [] of (evs, p) \<Rightarrow> (acc @ evs, p))"
proof (induction rs arbitrary: acc)
  case Nil
  then show ?case by simp
next
  case (Cons r rs)
  show ?case
  proof (cases "evaluateRule E Q r st en")
    case (Inl p)
    then show ?thesis by simp
  next
    case (Inr evs)
    then show ?thesis
      using Cons.IH [of "acc @ evs"] Cons.IH [of evs] by (simp split: prod.splits)
  qed
qed

lemma run_rules_append:
  "run_rules E Q st en (xs @ ys) acc =
     (case run_rules E Q st en xs acc of
       (acc', None) \<Rightarrow> run_rules E Q st en ys acc'
     | (acc', Some p) \<Rightarrow> (acc', Some p))"
  by (induction xs arbitrary: acc) (auto split: sum.split prod.split option.split)

lemma run_groups_eq:
  "run_groups E Q st en gs acc = run_rules E Q st en (concat (map Rules gs)) acc"
  by (induction gs arbitrary: acc) (auto simp: run_rules_append split: prod.split option.split)

lemma evaluateRule_no_flush:
  "evaluateRule E Q r st en = Inr evs \<Longrightarrow> Rep Flush \<notin> set evs"
  by (auto simp: evaluateRule_def split: sum.splits model_Value.splits if_splits)

lemma run_rules_no_flush:
  "run_rules E Q st en rs acc = (evs, p) \<Longrightarrow> Rep Flush \<notin> set acc \<Longrightarrow> Rep Flush \<notin> set evs"
proof (induction rs arbitrary: acc)
  case Nil
  then show ?case by simp
next
  case (Cons r rs)
  show ?case
  proof (cases "evaluateRule E Q r st en")
    case (Inl p')
    with Cons.prems show ?thesis by simp
  next
    case (Inr b)
    with Cons.prems have "run_rules E Q st en rs (acc @ b) = (evs, p)"
      and "Rep Flush \<notin> set (acc @ b)"
      using evaluateRule_no_flush [OF Inr] by auto
    then show ?thesis by (rule Cons.IH)
  qed
qed

lemma Run_Flush_cases:
  "(snd (Run E Q cfg) = None \<longrightarrow>
      (\<exists>evs. fst (Run E Q cfg) = evs @ [Rep Flush] \<and> Rep Flush \<notin> set evs)) \<and>
   (snd (Run E Q cfg) \<noteq> None \<longrightarrow> Rep Flush \<notin> set (fst (Run E Q cfg)))"
  using run_rules_no_flush [of E Q "Start cfg" "End cfg" _ "[]"]
  by (auto simp: Run_def run_groups_eq split: prod.splits option.splits)

lemma run_rules_all_Inr:
  "(\<And>r. r \<in> set rs \<Longrightarrow> evaluateRule E Q r st en = Inr (f r)) \<Longrightarrow>
   run_rules E Q st en rs acc = (acc @ concat (map f rs), None)"
  by (induction rs arbitrary: acc) auto

text \<open>
  C12: a run that does not panic ends with exactly one call of \<open>Flush\<close>, after every other event.
\<close>

theorem Run_single_final_flush:
  assumes "snd (Run E Q cfg) = None"
  shows "\<exists>evs. fst (Run E Q cfg) = evs @ [Rep Flush] \<and> Rep Flush \<notin> set evs"
  using assms run_rules_no_flush [of E Q "Start cfg" "End cfg" _ "[]"]
  by (auto simp: Run_def run_groups_eq split: prod.splits option.splits)

theorem Run_single_final_flush_witness:
  "snd (Run ex_engine ex_query (ex_config [ex_rule ''5m'' [], (ex_rule ''5m'' [])\<lparr>Expr := ''broken''\<rparr>])) = None \<and>
   (\<exists>evs. fst (Run ex_engine ex_query (ex_config [ex_rule ''5m'' [], (ex_rule ''5m'' [])\<lparr>Expr := ''broken''\<rparr>])) = evs @ [Rep Flush] \<and> Rep Flush \<notin> set evs)"
proof -
  have "snd (Run ex_engine ex_query (ex_config [ex_rule ''5m'' [], (ex_rule ''5m'' [])\<lparr>Expr := ''broken''\<rparr>])) = None"
    by (simp add: ex_config_def ex_query_def ex_rule_def ex_engine_def ex_stream_def) code_simp
  with Run_single_final_flush [OF this] show ?thesis by simp
qed

text \<open>
  C13: a run ended by a panic never calls \<open>Flush\<close>, so buffered JSON or YAML results are never written.
\<close>

theorem Run_panic_skips_flush:
  assumes "snd (Run E Q cfg) = Some p"
  shows "Rep Flush \<notin> set (fst (Run E Q cfg))"
  using assms run_rules_no_flush [of E Q "Start cfg" "End cfg" _ "[]"]
  by (auto simp: Run_def run_groups_eq split: prod.splits option.splits)

theorem Run_panic_skips_flush_witness:
  "snd (Run ex_engine ex_query (ex_config [ex_rule ''5m'' [], (ex_rule ''0s'' [])\<lparr>Expr := ''gap''\<rparr>])) = Some (IndexOutOfRange (-1)) \<and>
   Rep Flush \<notin> set (fst (Run ex_engine ex_query (ex_config [ex_rule ''5m'' [], (ex_rule ''0s'' [])\<lparr>Expr := ''gap''\<rparr>])))"
proof -
  have "snd (Run ex_engine ex_query (ex_config [ex_rule ''5m'' [], (ex_rule ''0s'' [])\<lparr>Expr := ''gap''\<rparr>])) = Some (IndexOutOfRange (-1))"
    by (simp add: ex_config_def ex_query_def ex_rule_def ex_engine_def ex_stream_def ex_empty_def)
      code_simp
  with Run_panic_skips_flush [OF this] show ?thesis by simp
qed

text \<open>
  C14: when every rule evaluates without panic, the events of \<open>Run\<close> are those of the rules in file order, group by group, followed by \<open>Flush\<close>.
\<close>

theorem Run_rule_by_rule:
  assumes "\<forall>r\<in>set (all_rules cfg). evaluateRule E Q r (Start cfg) (End cfg) = Inr (f r)"
  shows "Run E Q cfg = (concat (map f (all_rules cfg)) @ [Rep Flush], None)"
proof -
  have "run_rules E Q (Start cfg) (End cfg) (all_rules cfg) [] = ([] @ concat (map f (all_rules cfg)), None)"
    by (rule run_rules_all_Inr) (use assms in blast)
  then show ?thesis by (simp add: Run_def run_groups_eq all_rules_def)
qed

theorem Run_rule_by_rule_witness:
  "all_rules (ex_config [ex_rule ''5m'' [], (ex_rule ''5m'' [])\<lparr>Expr := ''broken''\<rparr>]) =
     [ex_rule ''5m'' [], (ex_rule ''5m'' [])\<lparr>Expr := ''broken''\<rparr>] \<and>
   evaluateRule ex_engine ex_query (ex_rule ''5m'' []) 0 3600000000000 =
     Inr [Rep (AddResult (ex_rule ''5m'' []) [(''job'', ''api'')] 600000000000 ''FIRING'' [])] \<and>
   evaluateRule ex_engine ex_query ((ex_rule ''5m'' [])\<lparr>Expr := ''broken''\<rparr>) 0 3600000000000 =
     Inr [Stderr (query_error_msg ''bad_data: parse error'')] \<and>
   Run ex_engine ex_query (ex_config [ex_rule ''5m'' [], (ex_rule ''5m'' [])\<lparr>Expr := ''broken''\<rparr>]) =
     ([Rep (AddResult (ex_rule ''5m'' []) [(''job'', ''api'')] 600000000000 ''FIRING'' []),
       Stderr (query_error_msg ''bad_data: parse error''), Rep Flush], None)"
proof -
  have a: "all_rules (ex_config [ex_rule ''5m'' [], (ex_rule ''5m'' [])\<lparr>Expr := ''broken''\<rparr>]) =
     [ex_rule ''5m'' [], (ex_rule ''5m'' [])\<lparr>Expr := ''broken''\<rparr>]"
    by (simp add: all_rules_def ex_config_def)
  have h1: "evaluateRule ex_engine ex_query (ex_rule ''5m'' []) 0 3600000000000 =
     Inr [Rep (AddResult (ex_rule ''5m'' []) [(''job'', ''api'')] 600000000000 ''FIRING'' [])]"
    by (simp add: ex_query_def ex_rule_def ex_engine_def ex_stream_def) code_simp
  have h2: "evaluateRule ex_engine ex_query ((ex_rule ''5m'' [])\<lparr>Expr := ''broken''\<rparr>) 0 3600000000000 =
     Inr [Stderr (query_error_msg ''bad_data: parse error'')]"
    by (simp add: evaluateRule_def ex_query_def ex_rule_def)
  have ne: "ex_rule ''5m'' [] \<noteq> (ex_rule ''5m'' [])\<lparr>Expr := ''broken''\<rparr>"
    by (simp add: ex_rule_def)
  have "Run ex_engine ex_query (ex_config [ex_rule ''5m'' [], (ex_rule ''5m'' [])\<lparr>Expr := ''broken''\<rparr>]) =
     (concat (map (\<lambda>r. if r = ex_rule ''5m'' [] then [Rep (AddResult (ex_rule ''5m'' []) [(''job'', ''api'')] 600000000000 ''FIRING'' [])]
                        else [Stderr (query_error_msg ''bad_data: parse error'')])
        (all_rules (ex_config [ex_rule ''5m'' [], (ex_rule ''5m'' [])\<lparr>Expr := ''broken''\<rparr>]))) @ [Rep Flush], None)"
    by (rule Run_rule_by_rule) (use a h1 h2 ne in \<open>simp add: ex_config_def\<close>)
  then show ?thesis using a h1 h2 ne by simp
qed

text \<open>
  C5: when the query returns an empty matrix, \<open>evaluateRule\<close> reports exactly one result for the rule: no metric, duration 0, state SILENT, no annotations.
\<close>

theorem evaluateRule_silent:
  assumes "Q (Expr rule) st en Minute = Inr (ValMatrix [])"
  shows "evaluateRule E Q rule st en = Inr [Rep (AddResult rule [] 0 ''SILENT'' [])]"
  using assms by (simp add: evaluateRule_def AlertState_str_def)

theorem evaluateRule_silent_witness:
  "ex_query (Expr ((ex_rule ''15m'' [(''summary'', ''{{ $value }}'')])\<lparr>Expr := ''absent''\<rparr>)) 0 0 Minute
     = Inr (ValMatrix []) \<and>
   evaluateRule ex_engine ex_query ((ex_rule ''15m'' [(''summary'', ''{{ $value }}'')])\<lparr>Expr := ''absent''\<rparr>) 0 0 =
     Inr [Rep (AddResult ((ex_rule ''15m'' [(''summary'', ''{{ $value }}'')])\<lparr>Expr := ''absent''\<rparr>)
            [] 0 ''SILENT'' [])]"
proof -
  have q: "ex_query (Expr ((ex_rule ''15m'' [(''summary'', ''{{ $value }}'')])\<lparr>Expr := ''absent''\<rparr>)) 0 0 Minute
     = Inr (ValMatrix [])"
    by (simp add: ex_query_def)
  show ?thesis
    using evaluateRule_silent [where Q = ex_query and st = 0 and en = 0 and E = ex_engine, OF q] q
    by simp
qed

text \<open>
  C15: a failing query writes one error line to standard error and reports nothing; the run goes on with the next rule.
\<close>

theorem evaluateRule_query_error:
  assumes "Q (Expr rule) st en Minute = Inl err"
  shows "evaluateRule E Q rule st en = Inr [Stderr (query_error_msg err)]"
  using assms by (simp add: evaluateRule_def)

theorem evaluateRule_query_error_witness:
  "ex_query (Expr ((ex_rule ''5m'' [])\<lparr>Expr := ''broken''\<rparr>)) 0 0 Minute = Inl ''bad_data: parse error'' \<and>
   evaluateRule ex_engine ex_query ((ex_rule ''5m'' [])\<lparr>Expr := ''broken''\<rparr>) 0 0 =
     Inr [Stderr (query_error_msg ''bad_data: parse error'')]"
proof -
  have q: "ex_query (Expr ((ex_rule ''5m'' [])\<lparr>Expr := ''broken''\<rparr>)) 0 0 Minute = Inl ''bad_data: parse error''"
    by (simp add: ex_query_def)
  show ?thesis
    using evaluateRule_query_error [where Q = ex_query and st = 0 and en = 0 and E = ex_engine, OF q] q
    by simp
qed

text \<open>
  C16: for a non-empty matrix, \<open>evaluateRule\<close> reports one result per series, in order, with the metric, duration, state name and annotations computed by \<open>calculateAlerts\<close>.
\<close>

theorem evaluateRule_results:
  assumes "Q (Expr rule) st en Minute = Inr (ValMatrix m)" and "m \<noteq> []"
    and "calculateAlerts E m rule = Inr rs"
  shows "evaluateRule E Q rule st en =
    Inr (map (\<lambda>res. Rep (AddResult rule (ar_Metric res) (ar_Duration res)
                          (AlertState_str (ar_State res)) (ar_Annotations res))) rs)"
  using assms by (simp add: evaluateRule_def)


text \<open>
  C20: a query whose result is not a matrix (a vector, a scalar or a string) makes
  \<open>evaluateRule\<close> report nothing at all: no result, no \<open>SILENT\<close> row, no message.
\<close>

theorem evaluateRule_non_matrix_dropped:
  assumes "Q (Expr rule) st en Minute = Inr result" and "\<forall>m. result \<noteq> ValMatrix m"
  shows "evaluateRule E Q rule st en = Inr []"
  using assms by (cases result) (simp_all add: evaluateRule_def)

theorem evaluateRule_non_matrix_dropped_witness:
  "(\<lambda>e s t d. Inr ValScalar :: string + nat model_Value) (Expr (ex_rule ''5m'' [])) 0 0 Minute = Inr ValScalar \<and>
   (\<forall>m. (ValScalar :: nat model_Value) \<noteq> ValMatrix m) \<and>
   evaluateRule ex_engine (\<lambda>e s t d. Inr ValScalar) (ex_rule ''5m'' []) 0 0 = Inr []"
proof -
  have q: "(\<lambda>e s t d. Inr ValScalar :: string + nat model_Value) (Expr (ex_rule ''5m'' [])) 0 0 Minute = Inr ValScalar"
    by simp
  show ?thesis
    using evaluateRule_non_matrix_dropped [where Q = "\<lambda>e s t d. Inr ValScalar" and st = 0 and en = 0
        and E = ex_engine and rule = "ex_rule ''5m'' []", OF q]
    by simp
qed

theorem evaluateRule_results_witness:
  "ex_query (Expr (ex_rule ''5m'' [])) 0 0 Minute = Inr (ValMatrix [ex_stream]) \<and>
   [ex_stream] \<noteq> [] \<and>
   calculateAlerts ex_engine [ex_stream] (ex_rule ''5m'' []) =
     Inr [\<lparr>ar_Metric = [(''job'', ''api'')], ar_Duration = 600000000000, ar_State = StateFiring,
           ar_Annotations = []\<rparr>] \<and>
   evaluateRule ex_engine ex_query (ex_rule ''5m'' []) 0 0 =
     Inr [Rep (AddResult (ex_rule ''5m'' []) [(''job'', ''api'')] 600000000000 ''FIRING'' [])]"
proof -
  have q: "ex_query (Expr (ex_rule ''5m'' [])) 0 0 Minute = Inr (ValMatrix [ex_stream])"
    by (simp add: ex_query_def ex_rule_def)
  have c: "calculateAlerts ex_engine [ex_stream] (ex_rule ''5m'' []) =
     Inr [\<lparr>ar_Metric = [(''job'', ''api'')], ar_Duration = 600000000000, ar_State = StateFiring,
           ar_Annotations = []\<rparr>]"
    by (simp add: ex_engine_def ex_stream_def ex_rule_def) code_simp
  show ?thesis
    using evaluateRule_results [where Q = ex_query and st = 0 and en = 0 and E = ex_engine, OF q _ c] q c
    by (simp add: AlertState_str_def)
qed

end
