(* ===== verification/Report.thy ===== *)
theory Report
  imports Config PromModel
begin

text \<open>
  The reporters of \<open>internal/report/report.go\<close> and the Go formatting they call.
  A reporter is a value of the datatype \<open>Reporter\<close> (one constructor per
  implementation of the \<open>Reporter\<close> interface, with its fields); \<open>Reporter_AddResult\<close> and
  \<open>Reporter_Flush\<close> return the updated reporter and what they print on standard output.
  The printing of a metric (\<open>model.Metric.String\<close>), of a duration
  (\<open>time.Duration.String\<close>) and the JSON encoding (\<open>encoding/json\<close> with
  \<open>SetIndent("", "  ")\<close>) are modelled from the libraries' published behaviour,
  byte for byte on ASCII text; non-ASCII bytes are taken to be valid, printable
  UTF-8 and are passed through. YAML output is modelled as the document's content,
  the list of results, not as its bytes.
\<close>

subsection \<open>Go formatting\<close>

definition hex_char :: "nat \<Rightarrow> char" where
  "hex_char n = ''0123456789abcdef'' ! (n mod 16)"

text \<open>\<open>strconv.Quote\<close> on one byte (the verb \<open>%q\<close> of \<open>fmt\<close>).\<close>

definition go_quote_char :: "char \<Rightarrow> string" where
  "go_quote_char c =
    (let n = of_char c :: nat in
     if c = CHR ''\"'' \<or> c = CHR 0x5C then [CHR 0x5C, c]
     else if n = 7 then [CHR 0x5C, CHR ''a''] else if n = 8 then [CHR 0x5C, CHR ''b''] else if n = 12 then [CHR 0x5C, CHR ''f'']
     else if n = 10 then [CHR 0x5C, CHR ''n''] else if n = 13 then [CHR 0x5C, CHR ''r''] else if n = 9 then [CHR 0x5C, CHR ''t'']
     else if n = 11 then [CHR 0x5C, CHR ''v'']
     else if n < 32 \<or> n = 127 then [CHR 0x5C, CHR ''x'', hex_char (n div 16), hex_char n]
     else [c])"

definition go_quote :: "string \<Rightarrow> string" where
  "go_quote s = CHR ''\"'' # concat (map go_quote_char s) @ [CHR ''\"'']"

text \<open>\<open>model.Metric.String\<close>: the name, then the other labels as \<open>l="v"\<close>, sorted and
  joined by \<open>", "\<close> inside braces; \<open>{}\<close> for the empty metric.\<close>

definition MetricNameLabel :: string where
  "MetricNameLabel = ''__name__''"

definition Metric_String :: "label_set \<Rightarrow> string" where
  "Metric_String m =
    (let metricName = map_of m MetricNameLabel;
         numLabels = (if metricName = None then length m else length m - 1);
         labelStrings = [l @ ''='' @ go_quote v. (l, v) \<leftarrow> m, l \<noteq> MetricNameLabel]
     in if numLabels = 0 then (case metricName of Some n \<Rightarrow> n | None \<Rightarrow> ''{}'')
        else (case metricName of Some n \<Rightarrow> n | None \<Rightarrow> []) @ ''{'' @
               join_str '', '' (sort labelStrings) @ ''}'')"

text \<open>\<open>fmtFrac\<close> of Go's time package: the \<open>prec\<close> low decimal digits of \<open>v\<close> as a
  fraction, trailing zeros and a bare point omitted; returns it and \<open>v / 10^prec\<close>.
  The buffer that Go fills from the right is the accumulator \<open>acc\<close>.\<close>

fun fmtFrac :: "nat \<Rightarrow> nat \<Rightarrow> bool \<Rightarrow> string \<Rightarrow> string \<times> nat" where
  "fmtFrac 0 v print acc = ((if print then CHR ''.'' # acc else acc), v)"
| "fmtFrac (Suc i) v print acc =
     (let digit = v mod 10; print' = (print \<or> digit \<noteq> 0) in
      fmtFrac i (v div 10) print' (if print' then char_of (48 + digit) # acc else acc))"

text \<open>\<open>time.Duration.String\<close>.\<close>

definition Duration_String :: "Duration \<Rightarrow> string" where
  "Duration_String d =
    (let neg = d <s 0;
         u = (if neg then unat (- d) else unat d);
         body =
           (if u < 1000000000 then
              (if u = 0 then ''0s''
               else
                 let (prec, unit) =
                       (if u < 1000 then (0, ''ns'')
                        else if u < 1000000 then (3, [CHR 0xC2, CHR 0xB5, CHR ''s''])
                        else (6, ''ms''));
                     (frac, v) = fmtFrac prec u False []
                 in nat_dec v @ frac @ unit)
            else
              let (frac, v) = fmtFrac 9 u False [];
                  secs = nat_dec (v mod 60) @ frac @ ''s'';
                  mins = v div 60
              in if 0 < mins then
                   (let hours = mins div 60;
                        ms = nat_dec (mins mod 60) @ ''m'' @ secs
                    in if 0 < hours then nat_dec hours @ ''h'' @ ms else ms)
                 else secs)
     in if neg then CHR ''-'' # body else body)"

text \<open>\<open>encoding/json\<close>'s string encoder with HTML escaping on (the default of
  \<open>json.NewEncoder\<close>): quote and backslash escaped, \<open>\b \f \n \r \t\<close> short, other
  control bytes and \<open><\<close>, \<open>>\<close>, \<open>&\<close> as \<open>\u00XX\<close>; of the non-ASCII text, the
  line and paragraph separators U+2028 and U+2029 (bytes \<open>E2 80 A8\<close>, \<open>E2 80 A9\<close>)
  are escaped.\<close>

definition json_char :: "char \<Rightarrow> string" where
  "json_char c =
    (let n = of_char c :: nat in
     if c = CHR ''\"'' \<or> c = CHR 0x5C then [CHR 0x5C, c]
     else if n = 8 then [CHR 0x5C, CHR ''b''] else if n = 12 then [CHR 0x5C, CHR ''f'']
     else if n = 10 then [CHR 0x5C, CHR ''n''] else if n = 13 then [CHR 0x5C, CHR ''r'']
     else if n = 9 then [CHR 0x5C, CHR ''t'']
     else if n < 32 \<or> c = CHR ''<'' \<or> c = CHR ''>'' \<or> c = CHR ''&''
       then [CHR 0x5C, CHR ''u'', CHR ''0'', CHR ''0'', hex_char (n div 16), hex_char n]
     else [c])"

definition line_sep :: "string \<Rightarrow> bool" where
  "line_sep s \<longleftrightarrow> take 2 s = [CHR 0x80, CHR 0xA8] \<or> take 2 s = [CHR 0x80, CHR 0xA9]"

fun json_esc :: "string \<Rightarrow> string" where
  "json_esc [] = []"
| "json_esc (c # s) =
     (if c = CHR 0xE2 \<and> line_sep s
      then [CHR 0x5C, CHR ''u'', CHR ''2'', CHR ''0'', CHR ''2'',
            if s ! 1 = CHR 0xA8 then CHR ''8'' else CHR ''9''] @ json_esc (drop 2 s)
      else json_char c @ json_esc s)"

definition json_string :: "string \<Rightarrow> string" where
  "json_string s = CHR ''\"'' # json_esc s @ [CHR ''\"'']"

definition json_int :: "int \<Rightarrow> string" where
  "json_int i = (if i < 0 then CHR ''-'' # nat_dec (nat (- i)) else nat_dec (nat i))"

text \<open>The layout of \<open>SetIndent("", "  ")\<close>: one member or element per line, indented
  two spaces per level; empty objects and arrays stay \<open>{}\<close> and \<open>[]\<close>.\<close>

definition indent :: "nat \<Rightarrow> string" where
  "indent d = replicate (2 * d) (CHR '' '')"

definition json_object :: "nat \<Rightarrow> (string \<times> string) list \<Rightarrow> string" where
  "json_object d members =
    (if members = [] then ''{}''
     else ''{'' @ ''\<newline>'' @
       join_str ('','' @ ''\<newline>'') [indent (Suc d) @ json_string k @ '': '' @ v. (k, v) \<leftarrow> members] @
       ''\<newline>'' @ indent d @ ''}'')"

definition json_array :: "nat \<Rightarrow> string list \<Rightarrow> string" where
  "json_array d items =
    (if items = [] then ''[]''
     else ''['' @ ''\<newline>'' @ join_str ('','' @ ''\<newline>'') [indent (Suc d) @ it. it \<leftarrow> items] @
       ''\<newline>'' @ indent d @ '']'')"

subsection \<open>Results and reporters\<close>

text \<open>\<open>report.Result\<close>, its fields in declaration order (the order of the JSON members).\<close>

record Result =
  RuleName :: string
  res_Alert :: string
  res_Metric :: string
  res_Duration :: Duration
  res_State :: string
  res_Annotations :: "(string, string) gomap"

text \<open>A \<open>Result\<close> as \<open>json.Marshal\<close> writes it: the struct tags' names, the duration
  as an integer, \<open>annotations\<close> omitted when empty (\<open>omitempty\<close>), map keys sorted.\<close>

definition json_Result :: "nat \<Rightarrow> Result \<Rightarrow> string" where
  "json_Result d r = json_object d
     ([(''rule_name'', json_string (RuleName r)), (''alert'', json_string (res_Alert r)),
       (''metric'', json_string (res_Metric r)), (''duration'', json_int (sint (res_Duration r))),
       (''state'', json_string (res_State r))] @
      (if res_Annotations r = [] then []
       else [(''annotations'', json_object (Suc d)
               (map (\<lambda>(k, v). (k, json_string v)) (sort_key fst (res_Annotations r))))]))"

text \<open>\<open>Encoder.Encode\<close> of the results slice: the indented array and a newline.\<close>

definition json_encode :: "Result list \<Rightarrow> string" where
  "json_encode rs = json_array 0 (map (json_Result 1) rs) @ ''\<newline>''"

text \<open>The three implementations of the interface \<open>Reporter\<close>, with their fields.\<close>

datatype Reporter = TextReporter | JSONReporter "Result list" | YAMLReporter "Result list"

text \<open>What a reporter writes on standard output: text, or a YAML document (its content).\<close>

datatype stdout = Out string | YAMLDoc "Result list"

text \<open>The factory \<open>New\<close>.\<close>

definition New :: "string \<Rightarrow> Reporter" where
  "New format =
    (if format = ''json'' then JSONReporter []
     else if format = ''yaml'' then YAMLReporter []
     else TextReporter)"

definition mk_Result :: "Rule \<Rightarrow> label_set \<Rightarrow> Duration \<Rightarrow> string \<Rightarrow> (string, string) gomap \<Rightarrow> Result" where
  "mk_Result rule metric duration state annotations =
     \<lparr>RuleName = Alert rule, res_Alert = Alert rule, res_Metric = Metric_String metric,
      res_Duration = duration, res_State = state, res_Annotations = annotations\<rparr>"

text \<open>\<open>TextReporter.AddResult\<close>: the lines it prints, emoji as their UTF-8 bytes.\<close>

definition text_AddResult :: "label_set \<Rightarrow> Duration \<Rightarrow> string \<Rightarrow> (string, string) gomap \<Rightarrow> string" where
  "text_AddResult metric duration state annotations =
    (if state = ''FIRING'' then
       ''      '' @ [CHR 0xF0, CHR 0x9F, CHR 0x94, CHR 0xA5] @ '' FIRING! ['' @ Metric_String metric @
       ''] (Duration: '' @ Duration_String duration @ '')'' @ ''\<newline>'' @
       concat [''          - '' @ k @ '': '' @ v @ ''\<newline>''. (k, v) \<leftarrow> annotations]
     else if state = ''SILENT'' then
       ''      '' @ [CHR 0xE2, CHR 0x9C, CHR 0x85] @ '' Status: SILENT'' @ ''\<newline>''
     else
       ''      '' @ [CHR 0xE2, CHR 0x9A, CHR 0xA0, CHR 0xEF, CHR 0xB8, CHR 0x8F] @ '' PENDING... ['' @
       Metric_String metric @ ''] (Duration: '' @ Duration_String duration @ '')'' @ ''\<newline>'')"

definition Reporter_AddResult ::
  "Reporter \<Rightarrow> Rule \<Rightarrow> label_set \<Rightarrow> Duration \<Rightarrow> string \<Rightarrow> (string, string) gomap \<Rightarrow> Reporter \<times> stdout list" where
  "Reporter_AddResult rep rule metric duration state annotations =
    (case rep of
      TextReporter \<Rightarrow> (TextReporter, [Out (text_AddResult metric duration state annotations)])
    | JSONReporter rs \<Rightarrow> (JSONReporter (rs @ [mk_Result rule metric duration state annotations]), [])
    | YAMLReporter rs \<Rightarrow> (YAMLReporter (rs @ [mk_Result rule metric duration state annotations]), []))"

definition Reporter_Flush :: "Reporter \<Rightarrow> stdout list" where
  "Reporter_Flush rep =
    (case rep of
      TextReporter \<Rightarrow> []
    | JSONReporter rs \<Rightarrow> [Out (json_encode rs)]
    | YAMLReporter rs \<Rightarrow> [YAMLDoc rs])"

subsection \<open>Decoding JSON strings\<close>

text \<open>The reading of a JSON string body that a consumer of the output applies
  (RFC 8259, section 7), for the escapes the encoder writes: the short escapes,
  \<open>\u\<close> with four hex digits for ASCII and the two separators.\<close>

definition hex_val :: "char \<Rightarrow> nat option" where
  "hex_val c =
    (let n = of_char c :: nat in
     if 48 \<le> n \<and> n \<le> 57 then Some (n - 48)
     else if 97 \<le> n \<and> n \<le> 102 then Some (n - 87)
     else if 65 \<le> n \<and> n \<le> 70 then Some (n - 55)
     else None)"

definition hex4 :: "char \<Rightarrow> char \<Rightarrow> char \<Rightarrow> char \<Rightarrow> nat option" where
  "hex4 a b c d =
    (case (hex_val a, hex_val b, hex_val c, hex_val d) of
      (Some w, Some x, Some y, Some z) \<Rightarrow> Some (((w * 16 + x) * 16 + y) * 16 + z)
    | _ \<Rightarrow> None)"

definition short_unesc :: "char \<Rightarrow> char option" where
  "short_unesc e =
    (if e = CHR ''\"'' \<or> e = CHR 0x5C \<or> e = CHR ''/'' then Some e
     else if e = CHR ''b'' then Some (char_of (8::nat)) else if e = CHR ''f'' then Some (char_of (12::nat))
     else if e = CHR ''n'' then Some (char_of (10::nat)) else if e = CHR ''r'' then Some (char_of (13::nat))
     else if e = CHR ''t'' then Some (char_of (9::nat))
     else None)"

definition unicode_bytes :: "nat \<Rightarrow> string option" where
  "unicode_bytes n =
    (if n < 128 then Some [char_of n]
     else if n = 0x2028 then Some [CHR 0xE2, CHR 0x80, CHR 0xA8]
     else if n = 0x2029 then Some [CHR 0xE2, CHR 0x80, CHR 0xA9]
     else None)"

fun json_unesc :: "string \<Rightarrow> string option" where
  "json_unesc [] = Some []"
| "json_unesc (c # s) =
     (if c = CHR 0x5C then
        (case s of
          [] \<Rightarrow> None
        | e # r \<Rightarrow>
            if e = CHR ''u'' then
              (case r of
                a # b # x # y # r' \<Rightarrow>
                  (case Option.bind (hex4 a b x y) unicode_bytes of
                    None \<Rightarrow> None
                  | Some bs \<Rightarrow> map_option ((@) bs) (json_unesc r'))
              | _ \<Rightarrow> None)
            else (case short_unesc e of
                   None \<Rightarrow> None
                 | Some d \<Rightarrow> map_option (Cons d) (json_unesc r)))
      else if c = CHR ''\"'' \<or> of_char c < (32::nat) then None
      else map_option (Cons c) (json_unesc s))"

subsection \<open>Properties\<close>

lemma hex_val_hex_char: "hex_val (hex_char k) = Some (k mod 16)"
proof -
  have "k mod 16 \<in> set [0..<16]" by simp
  moreover have "\<forall>m\<in>set [0..<16]. hex_val (''0123456789abcdef'' ! m) = Some m"
    by code_simp
  ultimately show ?thesis by (simp add: hex_char_def)
qed

lemma append_singleton_fun: "(@) [c] = (#) c"
  by (rule ext) simp

lemma json_unesc_json_char:
  "json_unesc (json_char c @ t) = map_option (Cons c) (json_unesc t)"
proof -
  define n where "n = (of_char c :: nat)"
  have cn: "char_of n = c" by (simp add: n_def)
  have n256: "n < 256" by (simp add: n_def)
  have hex: "hex4 (CHR ''0'') (CHR ''0'') (hex_char (n div 16)) (hex_char n) = Some n"
  proof -
    have z: "hex_val (CHR ''0'') = Some 0" by (simp add: hex_val_def)
    have "n div 16 mod 16 = n div 16" using n256 by simp
    then show ?thesis by (simp add: hex4_def hex_val_hex_char z)
  qed
  have small: "c = CHR ''<'' \<or> c = CHR ''>'' \<or> c = CHR ''&'' \<Longrightarrow> n < 128"
    by (auto simp: n_def)
  show ?thesis
    unfolding json_char_def Let_def n_def [symmetric]
    using hex cn small n256
    by (auto simp: short_unesc_def unicode_bytes_def append_singleton_fun)
qed


lemma json_unesc_line_sep:
  assumes "line_sep s"
  shows "json_unesc ([CHR 0x5C, CHR ''u'', CHR ''2'', CHR ''0'', CHR ''2'',
            if s ! 1 = CHR 0xA8 then CHR ''8'' else CHR ''9''] @ t) =
         map_option ((@) (CHR 0xE2 # take 2 s)) (json_unesc t)"
proof -
  have h8: "hex4 (CHR ''2'') (CHR ''0'') (CHR ''2'') (CHR ''8'') = Some 0x2028"
    by (simp add: hex4_def hex_val_def)
  have h9: "hex4 (CHR ''2'') (CHR ''0'') (CHR ''2'') (CHR ''9'') = Some 0x2029"
    by (simp add: hex4_def hex_val_def)
  from assms consider "take 2 s = [CHR 0x80, CHR 0xA8]" | "take 2 s = [CHR 0x80, CHR 0xA9]"
    by (auto simp: line_sep_def)
  then show ?thesis
  proof cases
    case 1
    then have "s ! 1 = CHR 0xA8" by (metis nth_take one_less_numeral_iff semiring_norm(76) nth_Cons_0 nth_Cons_Suc One_nat_def)
    with 1 h8 show ?thesis by (simp add: unicode_bytes_def)
  next
    case 2
    then have "s ! 1 = CHR 0xA9" by (metis nth_take one_less_numeral_iff semiring_norm(76) nth_Cons_0 nth_Cons_Suc One_nat_def)
    with 2 h9 show ?thesis by (simp add: unicode_bytes_def)
  qed
qed

theorem json_esc_roundtrip: "json_unesc (json_esc s) = Some s"
proof (induction s rule: json_esc.induct)
  case 1
  then show ?case by simp
next
  case (2 c s)
  show ?case
  proof (cases "c = CHR 0xE2 \<and> line_sep s")
    case True
    then have e: "json_esc (c # s) = [CHR 0x5C, CHR ''u'', CHR ''2'', CHR ''0'', CHR ''2'',
        if s ! 1 = CHR 0xA8 then CHR ''8'' else CHR ''9''] @ json_esc (drop 2 s)"
      by (simp only: json_esc.simps if_True simp_thms)
    have "json_unesc (json_esc (c # s)) = map_option ((@) (CHR 0xE2 # take 2 s)) (Some (drop 2 s))"
      unfolding e json_unesc_line_sep [OF conjunct2 [OF True]] 2(1) [OF True] ..
    with True show ?thesis by simp
  next
    case False
    then have e: "json_esc (c # s) = json_char c @ json_esc s"
      by (simp only: json_esc.simps if_False)
    show ?thesis
      unfolding e json_unesc_json_char 2(2) [OF False] by simp
  qed
qed

lemma key_colon_eq:
  assumes "CHR '':'' \<notin> set a" and "CHR '':'' \<notin> set b"
  shows "(a @ CHR '':'' # r1 = b @ CHR '':'' # r2) \<longleftrightarrow> a = b \<and> r1 = r2"
proof
  assume e: "a @ CHR '':'' # r1 = b @ CHR '':'' # r2"
  have tw: "\<And>c r. CHR '':'' \<notin> set c \<Longrightarrow> takeWhile (\<lambda>ch. ch \<noteq> CHR '':'') (c @ CHR '':'' # r) = c"
    by (simp add: takeWhile_append)
  have "a = b" using arg_cong [OF e, of "takeWhile (\<lambda>ch. ch \<noteq> CHR '':'')"] tw assms by metis
  with e show "a = b \<and> r1 = r2" by simp
qed simp

text \<open>
  C21: the text reporter prints the annotations of a firing result in
  the iteration order of the map, which Go randomises: any two annotations whose
  names differ (and contain no colon, as annotation names do not) print different
  text in the two orders.
\<close>

theorem text_AddResult_order_dependent:
  assumes "a \<noteq> b" and "CHR '':'' \<notin> set a" and "CHR '':'' \<notin> set b"
  shows "text_AddResult m d ''FIRING'' [(a, x), (b, y)] \<noteq> text_AddResult m d ''FIRING'' [(b, y), (a, x)]"
  using assms by (simp add: text_AddResult_def key_colon_eq)

theorem text_AddResult_order_dependent_witness:
  "''a'' \<noteq> ''b'' \<and> CHR '':'' \<notin> set ''a'' \<and> CHR '':'' \<notin> set ''b'' \<and>
   text_AddResult [] 0 ''FIRING'' [(''a'', ''1''), (''b'', ''2'')] \<noteq>
   text_AddResult [] 0 ''FIRING'' [(''b'', ''2''), (''a'', ''1'')]"
  using text_AddResult_order_dependent [of "''a''" "''b''" "[]" 0 "''1''" "''2''"] by simp

end
