(* ===== verification/Program.thy ===== *)
theory Program
  imports Orchestrator Report
begin

text \<open>
  The engine driving a reporter: the events of \<open>Run\<close> (the calls on the
  \<open>Reporter\<close> interface and the writes to standard error, in order) delivered to one
  of the implementations of report.go, as the process would run them with the
  reporter built by \<open>report.New\<close> from the configured output format. The result is
  the reporter's final state and the process's console output, in order.
\<close>

datatype console = StdOut stdout | StdErr string

fun deliver :: "Reporter \<Rightarrow> io_event list \<Rightarrow> Reporter \<times> console list" where
  "deliver rep [] = (rep, [])"
| "deliver rep (Stderr s # evs) =
     (case deliver rep evs of (rep', out) \<Rightarrow> (rep', StdErr s # out))"
| "deliver rep (Rep (AddResult rule m d st anns) # evs) =
     (case Reporter_AddResult rep rule m d st anns of
       (rep1, out1) \<Rightarrow> (case deliver rep1 evs of (rep2, out2) \<Rightarrow> (rep2, map StdOut out1 @ out2)))"
| "deliver rep (Rep Flush # evs) =
     (case deliver rep evs of (rep', out) \<Rightarrow> (rep', map StdOut (Reporter_Flush rep) @ out))"

definition stdout_of :: "console list \<Rightarrow> stdout list" where
  "stdout_of cs = [x. StdOut x \<leftarrow> cs]"

text \<open>The \<open>AddResult\<close> calls among the events, with their arguments.\<close>

fun add_calls ::
  "io_event list \<Rightarrow> (Rule \<times> label_set \<times> Duration \<times> string \<times> (string, string) gomap) list" where
  "add_calls [] = []"
| "add_calls (Rep (AddResult rule m d st anns) # evs) = (rule, m, d, st, anns) # add_calls evs"
| "add_calls (_ # evs) = add_calls evs"

definition results_of :: "io_event list \<Rightarrow> Result list" where
  "results_of evs = map (\<lambda>(rule, m, d, st, anns). mk_Result rule m d st anns) (add_calls evs)"

subsection \<open>Delivering events\<close>

lemma stdout_of_simps [simp]:
  "stdout_of [] = []"
  "stdout_of (StdOut x # cs) = x # stdout_of cs"
  "stdout_of (StdErr s # cs) = stdout_of cs"
  "stdout_of (cs @ cs') = stdout_of cs @ stdout_of cs'"
  "stdout_of (map StdOut os) = os"
  by (simp_all add: stdout_of_def, induction os, simp_all)

text \<open>An accumulating reporter (JSON or YAML) given events without \<open>Flush\<close> prints
  nothing and collects the results of the \<open>AddResult\<close> calls in order.\<close>

lemma deliver_json_no_flush:
  "Rep Flush \<notin> set evs \<Longrightarrow>
   fst (deliver (JSONReporter rs) evs) = JSONReporter (rs @ results_of evs) \<and>
   stdout_of (snd (deliver (JSONReporter rs) evs)) = []"
  by (induction "JSONReporter rs" evs arbitrary: rs rule: deliver.induct)
    (auto simp: results_of_def Reporter_AddResult_def split: prod.splits)


lemma deliver_yaml_no_flush:
  "Rep Flush \<notin> set evs \<Longrightarrow>
   fst (deliver (YAMLReporter rs) evs) = YAMLReporter (rs @ results_of evs) \<and>
   stdout_of (snd (deliver (YAMLReporter rs) evs)) = []"
  by (induction "YAMLReporter rs" evs arbitrary: rs rule: deliver.induct)
    (auto simp: results_of_def Reporter_AddResult_def split: prod.splits)

lemma deliver_append:
  "deliver rep (xs @ ys) =
     (case deliver rep xs of (r1, o1) \<Rightarrow> (case deliver r1 ys of (r2, o2) \<Rightarrow> (r2, o1 @ o2)))"
  by (induction rep xs rule: deliver.induct) (auto split: prod.splits)

lemma deliver_Flush_single:
  "deliver rep [Rep Flush] = (rep, map StdOut (Reporter_Flush rep))"
  by simp

lemma add_calls_append [simp]: "add_calls (xs @ ys) = add_calls xs @ add_calls ys"
  by (induction xs rule: add_calls.induct) auto

lemma results_of_Flush [simp]: "results_of (evs @ [Rep Flush]) = results_of evs"
  by (simp add: results_of_def)

lemma deliver_text:
  "fst (deliver TextReporter evs) = TextReporter \<and>
   stdout_of (snd (deliver TextReporter evs)) =
     map (\<lambda>(rule, m, d, st, anns). Out (text_AddResult m d st anns)) (add_calls evs)"
  by (induction TextReporter evs rule: deliver.induct)
    (auto simp: Reporter_AddResult_def Reporter_Flush_def split: prod.splits)


subsection \<open>Output of a run\<close>

text \<open>
  C22: with the JSON reporter, a run that does not panic writes exactly one thing
  on standard output: the indented JSON array of the results of all the
  \<open>AddResult\<close> calls, in the order they were made.
\<close>

theorem json_run_one_document:
  assumes "snd (Run E Q cfg) = None"
  shows "stdout_of (snd (deliver (New ''json'') (fst (Run E Q cfg)))) =
           [Out (json_encode (results_of (fst (Run E Q cfg))))]"
proof -
  obtain evs where e: "fst (Run E Q cfg) = evs @ [Rep Flush]" and nf: "Rep Flush \<notin> set evs"
    using Run_Flush_cases [of E Q cfg] assms by blast
  obtain out where d: "deliver (JSONReporter []) evs = (JSONReporter (results_of evs), out)"
    and o: "stdout_of out = []"
    using deliver_json_no_flush [OF nf, of "[]"] by (cases "deliver (JSONReporter []) evs") auto
  show ?thesis
    by (simp add: e New_def deliver_append d o Reporter_Flush_def)
qed

theorem json_run_one_document_witness:
  "snd (Run ex_engine ex_query (ex_config [ex_rule ''5m'' [], (ex_rule ''5m'' [])\<lparr>Expr := ''broken''\<rparr>])) = None \<and>
   stdout_of (snd (deliver (New ''json'')
     (fst (Run ex_engine ex_query (ex_config [ex_rule ''5m'' [], (ex_rule ''5m'' [])\<lparr>Expr := ''broken''\<rparr>]))))) =
   [Out (json_encode [mk_Result (ex_rule ''5m'' []) [(''job'', ''api'')] 600000000000 ''FIRING'' []])]"
proof -
  have run: "Run ex_engine ex_query (ex_config [ex_rule ''5m'' [], (ex_rule ''5m'' [])\<lparr>Expr := ''broken''\<rparr>]) =
     ([Rep (AddResult (ex_rule ''5m'' []) [(''job'', ''api'')] 600000000000 ''FIRING'' []),
       Stderr (query_error_msg ''bad_data: parse error''), Rep Flush], None)"
    by (simp add: ex_config_def ex_query_def ex_rule_def ex_engine_def ex_stream_def) code_simp
  have "snd (Run ex_engine ex_query (ex_config [ex_rule ''5m'' [], (ex_rule ''5m'' [])\<lparr>Expr := ''broken''\<rparr>])) = None"
    using run by simp
  from json_run_one_document [OF this] run show ?thesis
    by (simp add: results_of_def)
qed

text \<open>
  C23: with the JSON or the YAML reporter, a run that ends in a panic writes nothing
  at all on standard output: the results of the rules evaluated before the panic
  are collected but never printed.
\<close>

theorem accumulating_run_panic_silent:
  assumes "snd (Run E Q cfg) \<noteq> None" and "format = ''json'' \<or> format = ''yaml''"
  shows "stdout_of (snd (deliver (New format) (fst (Run E Q cfg)))) = []"
proof -
  have nf: "Rep Flush \<notin> set (fst (Run E Q cfg))"
    using Run_Flush_cases [of E Q cfg] assms(1) by blast
  show ?thesis
    using assms(2) deliver_json_no_flush [OF nf, of "[]"] deliver_yaml_no_flush [OF nf, of "[]"]
    by (auto simp: New_def)
qed

theorem accumulating_run_panic_silent_witness:
  "snd (Run ex_engine ex_query (ex_config [ex_rule ''5m'' [], (ex_rule ''0s'' [])\<lparr>Expr := ''gap''\<rparr>])) \<noteq> None \<and>
   (''json'' = ''json'' \<or> ''json'' = ''yaml'') \<and>
   results_of (fst (Run ex_engine ex_query (ex_config [ex_rule ''5m'' [], (ex_rule ''0s'' [])\<lparr>Expr := ''gap''\<rparr>]))) \<noteq> [] \<and>
   stdout_of (snd (deliver (New ''json'')
     (fst (Run ex_engine ex_query (ex_config [ex_rule ''5m'' [], (ex_rule ''0s'' [])\<lparr>Expr := ''gap''\<rparr>]))))) = []"
proof -
  have run: "Run ex_engine ex_query (ex_config [ex_rule ''5m'' [], (ex_rule ''0s'' [])\<lparr>Expr := ''gap''\<rparr>]) =
     ([Rep (AddResult (ex_rule ''5m'' []) [(''job'', ''api'')] 600000000000 ''FIRING'' [])],
      Some (IndexOutOfRange (-1)))"
    by (simp add: ex_config_def ex_query_def ex_rule_def ex_engine_def ex_stream_def ex_empty_def)
      code_simp
  have "snd (Run ex_engine ex_query (ex_config [ex_rule ''5m'' [], (ex_rule ''0s'' [])\<lparr>Expr := ''gap''\<rparr>])) \<noteq> None"
    using run by simp
  from accumulating_run_panic_silent [OF this, of "''json''"] run show ?thesis
    by (simp add: results_of_def)
qed

text \<open>
  C24: the text reporter prints each result as soon as it is reported: standard
  output holds one block per \<open>AddResult\<close> call, in order, whether or not the run
  ends in a panic.
\<close>

theorem text_run_rows:
  "stdout_of (snd (deliver (New ''text'') (fst (Run E Q cfg)))) =
     map (\<lambda>(rule, m, d, st, anns). Out (text_AddResult m d st anns)) (add_calls (fst (Run E Q cfg)))"
  using deliver_text [of "fst (Run E Q cfg)"] by (simp add: New_def)


subsection \<open>The rows a reporter receives\<close>

lemma alert_of_stream_not_silent:
  "alert_of_stream E rule fd s = Inr r \<Longrightarrow> ar_State r \<noteq> StateSilent"
  by (auto simp: alert_of_stream_def Let_def split: if_splits sum.splits)

lemma calculateAlerts_not_silent:
  assumes "calculateAlerts E m rule = Inr rs" and "r \<in> set rs"
  shows "ar_State r \<noteq> StateSilent"
proof -
  from assms(2) obtain i where i: "i < length rs" "r = rs ! i" by (auto simp: in_set_conv_nth)
  with calculateAlerts_nth [OF assms(1)] have "alert_of_stream E rule (forDuration (For rule)) (m ! i) = Inr r"
    by auto
  then show ?thesis by (rule alert_of_stream_not_silent)
qed

lemma add_calls_results [simp]:
  "add_calls (map (\<lambda>res. Rep (AddResult rule (ar_Metric res) (ar_Duration res)
      (AlertState_str (ar_State res)) (ar_Annotations res))) rs) =
   map (\<lambda>res. (rule, ar_Metric res, ar_Duration res, AlertState_str (ar_State res), ar_Annotations res)) rs"
  by (induction rs) auto

lemma evaluateRule_rows:
  assumes "evaluateRule E Q rule st en = Inr evs" and "(r, m, d, s, a) \<in> set (add_calls evs)"
  shows "r = rule \<and> s \<in> {''FIRING'', ''PENDING'', ''SILENT''} \<and> (s = ''SILENT'' \<longrightarrow> m = [] \<and> d = 0 \<and> a = [])"
proof (cases "Q (Expr rule) st en Minute")
  case (Inl err)
  with assms(1) have "evs = [Stderr (query_error_msg err)]" by (simp add: evaluateRule_def)
  with assms(2) show ?thesis by simp
next
  case (Inr result)
  show ?thesis
  proof (cases result)
    case (ValMatrix matrix)
    show ?thesis
    proof (cases "matrix = []")
      case True
      with assms Inr ValMatrix show ?thesis by (auto simp: evaluateRule_def AlertState_str_def)
    next
      case False
      with assms Inr ValMatrix obtain rs where rs: "calculateAlerts E matrix rule = Inr rs"
        and evs: "evs = map (\<lambda>res. Rep (AddResult rule (ar_Metric res) (ar_Duration res)
            (AlertState_str (ar_State res)) (ar_Annotations res))) rs"
        by (auto simp: evaluateRule_def split: sum.splits)
      from assms(2) evs obtain res where res: "res \<in> set rs" "r = rule" "m = ar_Metric res"
        "d = ar_Duration res" "s = AlertState_str (ar_State res)" "a = ar_Annotations res"
        by auto
      have "ar_State res \<noteq> StateSilent" using calculateAlerts_not_silent [OF rs res(1)] .
      with res show ?thesis by (cases "ar_State res") (auto simp: AlertState_str_def)
    qed
  qed (use assms Inr in \<open>auto simp: evaluateRule_def\<close>)
qed

lemma run_rules_rows:
  "run_rules E Q st en rs acc = (evs, p) \<Longrightarrow> x \<in> set (add_calls evs) \<Longrightarrow>
   x \<in> set (add_calls acc) \<or> (\<exists>rule\<in>set rs. \<exists>es. evaluateRule E Q rule st en = Inr es \<and> x \<in> set (add_calls es))"
proof (induction rs arbitrary: acc)
  case Nil
  then show ?case by simp
next
  case (Cons r rs)
  show ?case
  proof (cases "evaluateRule E Q r st en")
    case (Inl p')
    with Cons.prems show ?thesis by simp
  next
    case (Inr es)
    with Cons.prems have "run_rules E Q st en rs (acc @ es) = (evs, p)" by simp
    from Cons.IH [OF this Cons.prems(2)] Inr show ?thesis by auto
  qed
qed

text \<open>
  C29: every \<open>AddResult\<close> call that \<open>Run\<close> makes, whether or not the run ends in a
  panic, is for a rule of the configuration and carries one of the three state
  names \<open>FIRING\<close>, \<open>PENDING\<close>, \<open>SILENT\<close>; a \<open>SILENT\<close> row has no labels, zero
  duration and no annotations, as the reporters expect.
\<close>

theorem Run_rows_well_formed:
  assumes "(r, m, d, s, a) \<in> set (add_calls (fst (Run E Q cfg)))"
  shows "r \<in> set (all_rules cfg) \<and> s \<in> {''FIRING'', ''PENDING'', ''SILENT''} \<and>
    (s = ''SILENT'' \<longrightarrow> m = [] \<and> d = 0 \<and> a = [])"
proof -
  obtain evs p where rr: "run_rules E Q (Start cfg) (End cfg) (all_rules cfg) [] = (evs, p)"
    by (cases "run_rules E Q (Start cfg) (End cfg) (all_rules cfg) []") auto
  have "(r, m, d, s, a) \<in> set (add_calls evs)"
    using assms rr by (auto simp: Run_def run_groups_eq all_rules_def split: option.splits)
  from run_rules_rows [OF rr this] obtain rule es where "rule \<in> set (all_rules cfg)"
    and "evaluateRule E Q rule (Start cfg) (End cfg) = Inr es" and "(r, m, d, s, a) \<in> set (add_calls es)"
    by auto
  with evaluateRule_rows show ?thesis by blast
qed

theorem Run_rows_well_formed_witness:
  "(ex_rule ''5m'' [], [(''job'', ''api'')], 600000000000, ''FIRING'', []) \<in>
     set (add_calls (fst (Run ex_engine ex_query (ex_config [ex_rule ''5m'' [], (ex_rule ''5m'' [])\<lparr>Expr := ''absent''\<rparr>])))) \<and>
   ((ex_rule ''5m'' [])\<lparr>Expr := ''absent''\<rparr>, [], 0, ''SILENT'', []) \<in>
     set (add_calls (fst (Run ex_engine ex_query (ex_config [ex_rule ''5m'' [], (ex_rule ''5m'' [])\<lparr>Expr := ''absent''\<rparr>])))) \<and>
   ex_rule ''5m'' [] \<in> set (all_rules (ex_config [ex_rule ''5m'' [], (ex_rule ''5m'' [])\<lparr>Expr := ''absent''\<rparr>]))"
proof -
  have run: "fst (Run ex_engine ex_query (ex_config [ex_rule ''5m'' [], (ex_rule ''5m'' [])\<lparr>Expr := ''absent''\<rparr>])) =
     [Rep (AddResult (ex_rule ''5m'' []) [(''job'', ''api'')] 600000000000 ''FIRING'' []),
      Rep (AddResult ((ex_rule ''5m'' [])\<lparr>Expr := ''absent''\<rparr>) [] 0 ''SILENT'' []), Rep Flush]"
    by (simp add: ex_config_def ex_query_def ex_rule_def ex_engine_def ex_stream_def) code_simp
  have "(ex_rule ''5m'' [], [(''job'', ''api'')], 600000000000, ''FIRING'', []) \<in>
     set (add_calls (fst (Run ex_engine ex_query (ex_config [ex_rule ''5m'' [], (ex_rule ''5m'' [])\<lparr>Expr := ''absent''\<rparr>]))))"
    using run by simp
  from Run_rows_well_formed [OF this] run show ?thesis by simp
qed

end
