(* ===== verification/Load.thy ===== *)
theory Load
  imports Config
begin

text \<open>
  \<open>config.Load\<close> of \<open>internal/config/config.go\<close>: the validation of the time window
  and the computation of the query range. The flag values, the clock, the local
  time zone, the file system and the YAML decoder are its inputs: \<open>Load\<close> takes the
  parsed flags (\<open>Flags\<close>), the instant \<open>now\<close>, the zone's offset from UTC in seconds
  (a zone without daylight saving time), a function reading a file and a function
  decoding YAML, and returns the lines written to standard error and a \<open>Config\<close>
  or an error. The calendar functions of Go's \<open>time\<close> package that it calls
  (\<open>Date\<close>, \<open>AddDate\<close>, \<open>ParseInLocation\<close> with the layout \<open>"2006-01-02 15:04"\<close>,
  \<open>Format\<close>) are modelled on the proleptic Gregorian calendar.
\<close>

subsection \<open>Calendar\<close>

text \<open>Days since 1970-01-01 of a date whose month is in 1..12 (the day may overflow,
  as in Go's \<open>Date\<close>), and its inverse (H. Hinnant's civil-date algorithms).\<close>

definition days_from_civil :: "int \<Rightarrow> int \<Rightarrow> int \<Rightarrow> int" where
  "days_from_civil y m d =
    (let y' = (if m \<le> 2 then y - 1 else y);
         era = y' div 400;
         yoe = y' - era * 400;
         doy = (153 * (if 2 < m then m - 3 else m + 9) + 2) div 5 + d - 1;
         doe = yoe * 365 + yoe div 4 - yoe div 100 + doy
     in era * 146097 + doe - 719468)"

definition civil_from_days :: "int \<Rightarrow> int \<times> int \<times> int" where
  "civil_from_days z0 =
    (let z = z0 + 719468;
         era = z div 146097;
         doe = z - era * 146097;
         yoe = (doe - doe div 1460 + doe div 36524 - doe div 146096) div 365;
         doy = doe - (365 * yoe + yoe div 4 - yoe div 100);
         mp = (5 * doy + 2) div 153;
         d = doy - (153 * mp + 2) div 5 + 1;
         m = (if mp < 10 then mp + 3 else mp - 9)
     in (yoe + era * 400 + (if m \<le> 2 then 1 else 0), m, d))"

definition is_leap :: "int \<Rightarrow> bool" where
  "is_leap y \<longleftrightarrow> y mod 4 = 0 \<and> (y mod 100 \<noteq> 0 \<or> y mod 400 = 0)"

definition daysIn :: "int \<Rightarrow> int \<Rightarrow> int" where
  "daysIn m y =
    (if m = 2 then (if is_leap y then 29 else 28)
     else if m = 4 \<or> m = 6 \<or> m = 9 \<or> m = 11 then 30 else 31)"

definition nanos_per_second :: int where
  "nanos_per_second = 1000000000"

text \<open>\<open>time.Date(year, month, day, hour, min, sec, 0, loc)\<close> in a zone \<open>off\<close> seconds
  east of UTC: the month is normalised into the year, the other fields overflow
  into the day count.\<close>

definition go_Date :: "int \<Rightarrow> int \<Rightarrow> int \<Rightarrow> int \<Rightarrow> int \<Rightarrow> int \<Rightarrow> int \<Rightarrow> go_Time" where
  "go_Date off year month day hour mi sec =
    (let y = year + (month - 1) div 12;
         m = (month - 1) mod 12 + 1;
         days = days_from_civil y m 1 + (day - 1)
     in ((days * 86400 + hour * 3600 + mi * 60 + sec) - off) * nanos_per_second)"

text \<open>\<open>t.Date()\<close> and \<open>t.Clock()\<close> in the zone: the civil fields of an instant (the
  nanoseconds within the second are returned apart).\<close>

definition civil_of :: "int \<Rightarrow> go_Time \<Rightarrow> (int \<times> int \<times> int) \<times> (int \<times> int \<times> int) \<times> int" where
  "civil_of off t =
    (let secs = t div nanos_per_second + off;
         ns = t mod nanos_per_second;
         days = secs div 86400;
         s = secs mod 86400
     in (civil_from_days days, (s div 3600, s mod 3600 div 60, s mod 60), ns))"

text \<open>\<open>t.AddDate(years, months, days)\<close>.\<close>

definition AddDate :: "int \<Rightarrow> go_Time \<Rightarrow> int \<Rightarrow> int \<Rightarrow> int \<Rightarrow> go_Time" where
  "AddDate off t years months days =
    (case civil_of off t of ((y, m, d), (hh, mm, ss), ns) \<Rightarrow>
       go_Date off (y + years) (m + months) (d + days) hh mm ss + ns)"

subsection \<open>Parsing and printing times\<close>

text \<open>Go's \<open>skip\<close>: matches a literal of the layout; a space matches any run of
  spaces, also an empty one at the end of the value.\<close>

function go_skip :: "string \<Rightarrow> string \<Rightarrow> string option" where
  "go_skip [] v = Some v"
| "go_skip (p # ps) v =
     (if p = CHR '' '' then
        (if v \<noteq> [] \<and> hd v \<noteq> CHR '' '' then None
         else go_skip (dropWhile (\<lambda>c. c = CHR '' '') ps) (dropWhile (\<lambda>c. c = CHR '' '') v))
      else (case v of [] \<Rightarrow> None | c # v' \<Rightarrow> if c = p then go_skip ps v' else None))"
  by pat_completeness auto
termination
  by (relation "measure (\<lambda>(p, v). length p)") (auto simp: le_imp_less_Suc length_dropWhile_le)

text \<open>\<open>getnum\<close>: one or two digits, exactly two when \<open>fixed\<close>.\<close>

definition getnum :: "string \<Rightarrow> bool \<Rightarrow> (int \<times> string) option" where
  "getnum s fixed =
    (case s of
      c0 # r \<Rightarrow>
        if \<not> is_digit c0 then None
        else (case r of
          c1 # r' \<Rightarrow> if is_digit c1 then Some (int (digit_val c0 * 10 + digit_val c1), r')
                     else if fixed then None else Some (int (digit_val c0), r)
        | [] \<Rightarrow> if fixed then None else Some (int (digit_val c0), r))
    | [] \<Rightarrow> None)"

text \<open>\<open>stdLongYear\<close>: four characters, which \<open>atoi\<close> must read whole.\<close>

definition parse_year :: "string \<Rightarrow> (int \<times> string) option" where
  "parse_year v =
    (if length v < 4 \<or> \<not> list_all is_digit (take 4 v) then None
     else Some (int (foldl (\<lambda>a c. a * 10 + digit_val c) 0 (take 4 v)), drop 4 v))"

datatype time_parse_error = ParseBad | RangeError string | ExtraText string | DayOutOfRange

text \<open>\<open>time.ParseInLocation("2006-01-02 15:04", value, loc)\<close>: the layout's chunks
  in order (year, \<open>-\<close>, zero-padded month, \<open>-\<close>, zero-padded day, space, hour,
  \<open>:\<close>, zero-padded minute), the range checks, no extra text, then \<open>Date\<close>.\<close>

definition then_bad :: "'a option \<Rightarrow> ('a \<Rightarrow> time_parse_error + 'b) \<Rightarrow> time_parse_error + 'b" where
  "then_bad x f = (case x of None \<Rightarrow> Inl ParseBad | Some a \<Rightarrow> f a)"

definition ParseInLocation :: "int \<Rightarrow> string \<Rightarrow> time_parse_error + go_Time" where
  "ParseInLocation off value =
    then_bad (parse_year value) (\<lambda>(year, v1).
    then_bad (go_skip ''-'' v1) (\<lambda>v2.
    then_bad (getnum v2 True) (\<lambda>(month, v3).
    if month \<le> 0 \<or> 12 < month then Inl (RangeError ''month'') else
    then_bad (go_skip ''-'' v3) (\<lambda>v4.
    then_bad (getnum v4 True) (\<lambda>(day, v5).
    then_bad (go_skip '' '' v5) (\<lambda>v6.
    then_bad (getnum v6 False) (\<lambda>(hour, v7).
    if hour < 0 \<or> 24 \<le> hour then Inl (RangeError ''hour'') else
    then_bad (go_skip '':'' v7) (\<lambda>v8.
    then_bad (getnum v8 True) (\<lambda>(mi, v9).
    if mi < 0 \<or> 60 \<le> mi then Inl (RangeError ''minute'')
    else if v9 \<noteq> [] then Inl (ExtraText v9)
    else if day < 1 \<or> daysIn month year < day then Inl DayOutOfRange
    else Inr (go_Date off year month day hour mi 0))))))))))"

text \<open>\<open>appendInt(b, x, width)\<close>: the sign, then the digits zero-padded to \<open>width\<close>.\<close>

definition pad_int :: "nat \<Rightarrow> int \<Rightarrow> string" where
  "pad_int w x =
    (let ds = nat_dec (nat \<bar>x\<bar>)
     in (if x < 0 then ''-'' else []) @ replicate (w - length ds) (CHR ''0'') @ ds)"

definition Format_date :: "int \<Rightarrow> go_Time \<Rightarrow> string" where
  "Format_date off t =
    (case civil_of off t of ((y, m, d), _, _) \<Rightarrow> pad_int 4 y @ ''-'' @ pad_int 2 m @ ''-'' @ pad_int 2 d)"

definition Format_clock :: "int \<Rightarrow> go_Time \<Rightarrow> string" where
  "Format_clock off t =
    (case civil_of off t of (_, (hh, mm, _), _) \<Rightarrow> pad_int 2 hh @ '':'' @ pad_int 2 mm)"

definition Format_layout :: "int \<Rightarrow> go_Time \<Rightarrow> string" where
  "Format_layout off t = Format_date off t @ '' '' @ Format_clock off t"

subsection \<open>Loading the configuration\<close>

text \<open>The values of the five flags after \<open>flag.Parse\<close>, and their defaults.\<close>

record Flags =
  flag_file :: string
  flag_url :: string
  flag_at :: string
  flag_window :: string
  flag_output :: string

definition default_flags :: Flags where
  "default_flags = \<lparr>flag_file = ''alert.yaml'', flag_url = ''http://localhost:9090'',
     flag_at = [], flag_window = ''30m'', flag_output = ''text''\<rparr>"

text \<open>The error returned by each \<open>return nil, fmt.Errorf(...)\<close>, with its operands.\<close>

datatype load_error =
    InvalidWindow duration_error
  | WindowTooLarge Duration
  | InvalidTime time_parse_error
  | StartTooOld go_Time go_Time
  | ReadError string string
  | YAMLError string

definition Hour :: Duration where
  "Hour = 3600000000000"

definition separator_line :: string where
  "separator_line = replicate 51 (CHR ''-'') @ ''\<newline>''"

definition Load ::
  "int \<Rightarrow> go_Time \<Rightarrow> (string \<Rightarrow> string + string) \<Rightarrow> (string \<Rightarrow> string + RuleFile) \<Rightarrow> Flags
   \<Rightarrow> string list \<times> (load_error + Config)" where
  "Load off now readFile unmarshal flags =
    (case ParseDuration (flag_window flags) of
      Inl err \<Rightarrow> ([], Inl (InvalidWindow err))
    | Inr window \<Rightarrow>
      if 4 * Hour <s window then ([], Inl (WindowTooLarge window))
      else
        let (target, log) =
          (if flag_at flags = []
           then (Inr now, [[CHR 0xF0, CHR 0x9F, CHR 0x95, CHR 0x92] @ '' Mode: Realtime (Now)'' @ ''\<newline>''])
           else (case ParseInLocation off (flag_at flags) of
                   Inl err \<Rightarrow> (Inl err, [])
                 | Inr t \<Rightarrow> (Inr t, [[CHR 0xF0, CHR 0x9F, CHR 0x95, CHR 0xB0, CHR 0xEF, CHR 0xB8, CHR 0x8F] @
                     '' Mode: Time Travel (Target: '' @ Format_layout off t @ '')'' @ ''\<newline>''])))
        in (case target of
          Inl err \<Rightarrow> (log, Inl (InvalidTime err))
        | Inr targetTime \<Rightarrow>
          let start = targetTime + sint (- window);
              stop = targetTime + sint window;
              threeMonthsAgo = AddDate off now 0 (- 3) 0
          in if start < threeMonthsAgo then (log, Inl (StartTooOld start threeMonthsAgo))
          else
            let log' = log @
              [[CHR 0xF0, CHR 0x9F, CHR 0x94, CHR 0x8D] @ '' Replay Window: '' @ Format_clock off start @
                 ''  <---->  '' @ Format_clock off stop @ ''\<newline>'',
               separator_line,
               [CHR 0xF0, CHR 0x9F, CHR 0x94, CHR 0xA7] @ '' Configuration:'' @ ''\<newline>'',
               ''   File:  '' @ flag_file flags @ ''\<newline>'',
               ''   URL:   '' @ flag_url flags @ ''\<newline>'',
               separator_line]
            in (case readFile (flag_file flags) of
                 Inl err \<Rightarrow> (log', Inl (ReadError (flag_file flags) err))
               | Inr data \<Rightarrow>
                   (case unmarshal data of
                     Inl err \<Rightarrow> (log', Inl (YAMLError err))
                   | Inr ruleFile \<Rightarrow>
                       (log', Inr \<lparr>FilePath = flag_file flags, PromURL = flag_url flags,
                                   OutputFormat = flag_output flags, Start = start, End = stop,
                                   cfg_RuleFile = ruleFile\<rparr>)))))"

subsection \<open>Example inputs\<close>

text \<open>The clock at 2024-05-31 10:00 UTC, a file system holding \<open>alert.yaml\<close> and a decoder
  returning an empty rule file.\<close>

definition ex_now :: go_Time where
  "ex_now = go_Date 0 2024 5 31 10 0 0"

definition ex_readFile :: "string \<Rightarrow> string + string" where
  "ex_readFile path = (if path = ''alert.yaml'' then Inr ''groups: []'' else Inl ''no such file or directory'')"

definition ex_unmarshal :: "string \<Rightarrow> string + RuleFile" where
  "ex_unmarshal data = Inr \<lparr>Groups = []\<rparr>"

subsection \<open>Properties\<close>

lemma Load_ok:
  assumes "snd (Load off now rf um flags) = Inr cfg"
  obtains window target where "ParseDuration (flag_window flags) = Inr window"
    and "\<not> 4 * Hour <s window"
    and "Start cfg = target + sint (- window)" and "End cfg = target + sint window"
    and "\<not> Start cfg < AddDate off now 0 (- 3) 0"
    and "flag_at flags = [] \<Longrightarrow> target = now"
    and "flag_at flags \<noteq> [] \<Longrightarrow> ParseInLocation off (flag_at flags) = Inr target"
  using assms
  by (auto simp: Load_def Let_def split: sum.splits if_splits prod.splits)

lemma sle_4h: "\<not> 4 * Hour <s (w :: int64) \<Longrightarrow> sint w \<le> 14400000000000"
  by (simp add: word_sless_alt Hour_def)

text \<open>
  C25: a configuration that \<open>Load\<close> accepts has a query range of at most eight hours (twice the four-hour limit on the window) whose start is no earlier than three months (by the calendar) before now.
\<close>

theorem Load_range_safe:
  assumes "snd (Load off now rf um flags) = Inr cfg"
  shows "End cfg - Start cfg \<le> 28800000000000 \<and> AddDate off now 0 (- 3) 0 \<le> Start cfg"
proof -
  obtain window target where w: "\<not> 4 * Hour <s window"
    and s: "Start cfg = target + sint (- window)" and e: "End cfg = target + sint window"
    and o: "\<not> Start cfg < AddDate off now 0 (- 3) 0"
    using Load_ok [OF assms] by metis
  have "sint window \<le> 14400000000000" using w by (rule sle_4h)
  moreover have "int64_min \<le> sint window" using sint64_range by blast
  ultimately have "sint window - sint (- window) \<le> 28800000000000"
    by (auto simp: sint_uminus64 int64_min_def)
  with s e o show ?thesis by simp
qed


theorem Load_range_safe_witness:
  "snd (Load 0 ex_now ex_readFile ex_unmarshal default_flags) =
     Inr \<lparr>FilePath = ''alert.yaml'', PromURL = ''http://localhost:9090'', OutputFormat = ''text'',
          Start = ex_now - 1800000000000, End = ex_now + 1800000000000, cfg_RuleFile = \<lparr>Groups = []\<rparr>\<rparr> \<and>
   (ex_now + 1800000000000) - (ex_now - 1800000000000) \<le> 28800000000000 \<and>
   AddDate 0 ex_now 0 (- 3) 0 \<le> ex_now - 1800000000000"
proof -
  have l: "snd (Load 0 ex_now ex_readFile ex_unmarshal default_flags) =
     Inr \<lparr>FilePath = ''alert.yaml'', PromURL = ''http://localhost:9090'', OutputFormat = ''text'',
          Start = ex_now - 1800000000000, End = ex_now + 1800000000000, cfg_RuleFile = \<lparr>Groups = []\<rparr>\<rparr>"
    by (simp add: ex_now_def ex_readFile_def ex_unmarshal_def default_flags_def) code_simp
  show ?thesis using Load_range_safe [OF l] l by simp
qed

text \<open>
  C26: a negative \<open>-window\<close> (accepted by \<open>time.ParseDuration\<close> and below the
  four-hour limit) is accepted by \<open>Load\<close>: in real-time mode, whenever the rule file
  is read and decoded, \<open>Load\<close> returns a configuration, and its range ends before it
  starts.
\<close>

theorem Load_negative_window_inverted:
  assumes "ParseDuration (flag_window flags) = Inr window"
    and "sint window < 0" and "window \<noteq> word_of_int int64_min"
    and "flag_at flags = []" and "AddDate off now 0 (- 3) 0 \<le> now"
    and "rf (flag_file flags) = Inr data" and "um data = Inr ruleFile"
  shows "\<exists>cfg. snd (Load off now rf um flags) = Inr cfg \<and> End cfg < Start cfg"
proof -
  have small: "\<not> 4 * Hour <s window"
    using assms(2) by (simp add: word_sless_alt Hour_def)
  have neg: "sint (- window) = - sint window"
    using assms(3) by (simp add: sint_uminus64)
  have ok: "\<not> now + sint (- window) < AddDate off now 0 (- 3) 0"
    using assms(2,5) neg by simp
  show ?thesis
    using assms(1,2,4,6,7) small ok neg by (simp add: Load_def Let_def)
qed

theorem Load_negative_window_inverted_witness:
  "ParseDuration (flag_window (default_flags\<lparr>flag_window := ''-30m''\<rparr>)) = Inr (- 1800000000000) \<and>
   sint (- 1800000000000 :: int64) < 0 \<and> (- 1800000000000 :: int64) \<noteq> word_of_int int64_min \<and>
   flag_at (default_flags\<lparr>flag_window := ''-30m''\<rparr>) = [] \<and>
   AddDate 0 ex_now 0 (- 3) 0 \<le> ex_now \<and>
   ex_readFile (flag_file (default_flags\<lparr>flag_window := ''-30m''\<rparr>)) = Inr ''groups: []'' \<and>
   ex_unmarshal ''groups: []'' = Inr \<lparr>Groups = []\<rparr> \<and>
   (\<exists>cfg. snd (Load 0 ex_now ex_readFile ex_unmarshal (default_flags\<lparr>flag_window := ''-30m''\<rparr>)) = Inr cfg
      \<and> End cfg < Start cfg)"
proof -
  have p: "ParseDuration (flag_window (default_flags\<lparr>flag_window := ''-30m''\<rparr>)) = Inr (- 1800000000000)"
    by (simp add: default_flags_def ParseDuration_eval)
  have n: "sint (- 1800000000000 :: int64) < 0" "(- 1800000000000 :: int64) \<noteq> word_of_int int64_min"
    by (simp_all add: int64_min_def)
  have a: "flag_at (default_flags\<lparr>flag_window := ''-30m''\<rparr>) = []" by (simp add: default_flags_def)
  have d: "AddDate 0 ex_now 0 (- 3) 0 \<le> ex_now" by (simp add: ex_now_def) code_simp
  have r: "ex_readFile (flag_file (default_flags\<lparr>flag_window := ''-30m''\<rparr>)) = Inr ''groups: []''"
    by (simp add: ex_readFile_def default_flags_def)
  have u: "ex_unmarshal ''groups: []'' = Inr \<lparr>Groups = []\<rparr>" by (simp add: ex_unmarshal_def)
  show ?thesis
    using Load_negative_window_inverted [where rf = ex_readFile and um = ex_unmarshal, OF p n a d r u]
      p n a d r u by simp
qed

text \<open>
  C27: a window longer than four hours is refused before anything is printed or read.
\<close>

theorem Load_window_too_large:
  assumes "ParseDuration (flag_window flags) = Inr window" and "4 * Hour <s window"
  shows "Load off now rf um flags = ([], Inl (WindowTooLarge window))"
  using assms by (simp add: Load_def)

theorem Load_window_too_large_witness:
  "ParseDuration (flag_window (default_flags\<lparr>flag_window := ''4h0m1s''\<rparr>)) = Inr 14401000000000 \<and>
   4 * Hour <s (14401000000000 :: int64) \<and>
   Load 0 ex_now ex_readFile ex_unmarshal (default_flags\<lparr>flag_window := ''4h0m1s''\<rparr>) =
     ([], Inl (WindowTooLarge 14401000000000))"
proof -
  have p: "ParseDuration (flag_window (default_flags\<lparr>flag_window := ''4h0m1s''\<rparr>)) = Inr 14401000000000"
    by (simp add: default_flags_def ParseDuration_eval)
  have b: "4 * Hour <s (14401000000000 :: int64)"
    by (simp add: Hour_def word_sless_alt)
  show ?thesis using Load_window_too_large [OF p b] p b by simp
qed

end
