(* ===== verification/Duration_Roundtrip.thy ===== *)
theory Duration_Roundtrip
  imports Report
begin

text \<open>
  The durations printed by the reporters (\<open>time.Duration.String\<close>, modelled by
  \<open>Duration_String\<close> in Report.thy) read back with \<open>time.ParseDuration\<close> (GoTime.thy)
  to the same \<open>int64\<close>, for every value including \<open>math.MinInt64\<close>. The proof
  follows the printer: \<open>fmtFrac\<close> equals the reference \<open>frac_out\<close> (the fraction with
  its trailing zeros removed), a printed component \<open>q\<close>, fraction, unit is read
  back by \<open>pd_component\<close> as \<open>q * unit + fraction\<close>, and the hour, minute and
  second components add up to the duration without passing \<open>2^63\<close>.
\<close>

subsection \<open>Reference definitions\<close>

definition dec_val :: "nat \<Rightarrow> string \<Rightarrow> nat" where
  "dec_val x ds = foldl (\<lambda>a c. a * 10 + digit_val c) x ds"

fun pad_dec :: "nat \<Rightarrow> nat \<Rightarrow> string" where
  "pad_dec 0 v = []"
| "pad_dec (Suc i) v = pad_dec i (v div 10) @ [char_of (48 + v mod 10)]"

fun frac_out :: "nat \<Rightarrow> nat \<Rightarrow> string" where
  "frac_out 0 v = []"
| "frac_out (Suc i) v = (if v mod 10 = 0 then frac_out i (v div 10) else CHR ''.'' # pad_dec (Suc i) v)"

definition dur_body :: "nat \<Rightarrow> string" where
  "dur_body u =
           (if u < 1000000000 then
              (if u = 0 then ''0s''
               else
                 let (prec, unit) =
                       (if u < 1000 then (0, ''ns'')
                        else if u < 1000000 then (3, [CHR 0xC2, CHR 0xB5, CHR ''s''])
                        else (6, ''ms''));
                     (frac, v) = fmtFrac prec u False []
                 in nat_dec v @ frac @ unit)
            else
              let (frac, v) = fmtFrac 9 u False [];
                  secs = nat_dec (v mod 60) @ frac @ ''s'';
                  mins = v div 60
              in if 0 < mins then
                   (let hours = mins div 60;
                        ms = nat_dec (mins mod 60) @ ''m'' @ secs
                    in if 0 < hours then nat_dec hours @ ''h'' @ ms else ms)
                 else secs)"

subsection \<open>Reading back what is printed\<close>


lemma dec_val_Cons [simp]: "dec_val x (c # ds) = dec_val (x * 10 + digit_val c) ds"
  by (simp add: dec_val_def)

lemma dec_val_Nil [simp]: "dec_val x [] = x"
  by (simp add: dec_val_def)

lemma dec_val_ge: "x \<le> dec_val x ds"
proof (induction ds arbitrary: x)
  case (Cons c ds)
  have "x \<le> x * 10 + digit_val c" by simp
  also have "\<dots> \<le> dec_val (x * 10 + digit_val c) ds" by (rule Cons.IH)
  finally show ?case by simp
qed simp

lemma dec_val_append: "dec_val x (ds @ es) = dec_val (dec_val x ds) es"
  by (simp add: dec_val_def)

lemma leadingInt_acc_digits:
  assumes "list_all is_digit ds" and "dec_val x ds \<le> 2 ^ 63"
  shows "leadingInt_acc x (ds @ rest) = leadingInt_acc (dec_val x ds) rest"
  using assms
proof (induction ds arbitrary: x)
  case Nil
  then show ?case by simp
next
  case (Cons c ds)
  have le: "x * 10 + digit_val c \<le> 2 ^ 63"
    using dec_val_ge [of "x * 10 + digit_val c" ds] Cons.prems(2) by simp
  then have "\<not> 2 ^ 63 div 10 < x" by linarith
  with le Cons show ?case by (simp add: Let_def)
qed

lemma leadingInt_acc_stop:
  "rest = [] \<or> \<not> is_digit (hd rest) \<Longrightarrow> leadingInt_acc x rest = Some (x, rest)"
  by (cases rest) auto

lemma digit_val_char [simp]: "(d::nat) < 10 \<Longrightarrow> digit_val (char_of (48 + d)) = d"
  by (simp add: digit_val_def)

lemma is_digit_char [simp]: "(d::nat) < 10 \<Longrightarrow> is_digit (char_of (48 + d))"
  by (simp add: is_digit_def less_eq_char_def)

lemma nat_dec_digits: "list_all is_digit (nat_dec n) \<and> nat_dec n \<noteq> [] \<and> dec_val x (nat_dec n) = x * 10 ^ length (nat_dec n) + n"
proof (induction n arbitrary: x rule: nat_dec.induct)
  case (1 n)
  show ?case
  proof (cases "n < 10")
    case True
    then have "nat_dec n = [char_of (48 + n)]" by (subst nat_dec.simps) simp
    with True show ?thesis by simp
  next
    case False
    have "n mod 10 < 10" by simp
    with False "1.IH" [of x] show ?thesis
      by (subst (1 2 3 4) nat_dec.simps) (simp add: dec_val_append algebra_simps)
  qed
qed


lemma pad_dec_props:
  "list_all is_digit (pad_dec i v) \<and> length (pad_dec i v) = i \<and>
   dec_val x (pad_dec i v) = x * 10 ^ i + v mod 10 ^ i"
proof (induction i arbitrary: v)
  case 0
  then show ?case by simp
next
  case (Suc i)
  have "v mod (10 * 10 ^ i) = v mod 10 + 10 * (v div 10 mod 10 ^ i)"
    by (simp add: mod_mult2_eq)
  with Suc [of "v div 10"] show ?case
    by (simp add: dec_val_append algebra_simps)
qed

lemma fmtFrac_True: "fmtFrac i v True acc = (CHR ''.'' # pad_dec i v @ acc, v div 10 ^ i)"
  by (induction i arbitrary: v acc) (simp_all add: Let_def div_mult2_eq)

lemma fmtFrac_False: "fmtFrac i v False [] = (frac_out i v, v div 10 ^ i)"
proof (induction i arbitrary: v)
  case 0
  then show ?case by simp
next
  case (Suc i)
  show ?case
  proof (cases "v mod 10 = 0")
    case True
    with Suc show ?thesis by (simp add: Let_def div_mult2_eq)
  next
    case False
    then show ?thesis by (simp add: Let_def fmtFrac_True div_mult2_eq)
  qed
qed

lemma frac_out_props:
  "(frac_out i v = [] \<longleftrightarrow> v mod 10 ^ i = 0) \<and>
   (frac_out i v \<noteq> [] \<longrightarrow> (\<exists>ds. frac_out i v = CHR ''.'' # ds \<and> ds \<noteq> [] \<and> list_all is_digit ds \<and>
      length ds \<le> i \<and> dec_val 0 ds * 10 ^ (i - length ds) = v mod 10 ^ i))"
proof (induction i arbitrary: v)
  case 0
  then show ?case by simp
next
  case (Suc i)
  have m: "v mod (10 * 10 ^ i) = v mod 10 + 10 * (v div 10 mod 10 ^ i)"
    by (simp add: mod_mult2_eq)
  show ?case
  proof (cases "v mod 10 = 0")
    case True
    have IH: "(frac_out i (v div 10) = [] \<longleftrightarrow> v div 10 mod 10 ^ i = 0) \<and>
      (frac_out i (v div 10) \<noteq> [] \<longrightarrow> (\<exists>ds. frac_out i (v div 10) = CHR ''.'' # ds \<and> ds \<noteq> [] \<and>
        list_all is_digit ds \<and> length ds \<le> i \<and> dec_val 0 ds * 10 ^ (i - length ds) = v div 10 mod 10 ^ i))"
      by (rule Suc.IH)
    show ?thesis
    proof (cases "frac_out i (v div 10) = []")
      case True
      with IH m \<open>v mod 10 = 0\<close> show ?thesis by simp
    next
      case False
      with IH obtain ds where ds: "frac_out i (v div 10) = CHR ''.'' # ds" "ds \<noteq> []"
        "list_all is_digit ds" "length ds \<le> i" "dec_val 0 ds * 10 ^ (i - length ds) = v div 10 mod 10 ^ i"
        by blast
      have "Suc i - length ds = Suc (i - length ds)" using ds(4) by simp
      then have "dec_val 0 ds * 10 ^ (Suc i - length ds) = v mod 10 ^ Suc i"
        using ds(5) m \<open>v mod 10 = 0\<close> by simp
      with ds False IH \<open>v mod 10 = 0\<close> m show ?thesis by auto
    qed
  next
    case False
    then have "v mod 10 ^ Suc i \<noteq> 0" using m by simp
    with False pad_dec_props [of "Suc i" v 0] show ?thesis
      by (auto simp del: pad_dec.simps)
  qed
qed

lemma leadingFraction_acc_digits:
  assumes "list_all is_digit ds" and "dec_val x ds \<le> (2 ^ 63 - 1) div 10"
    and "rest = [] \<or> \<not> is_digit (hd rest)"
  shows "leadingFraction_acc x sc False (ds @ rest) = (dec_val x ds, sc * 10 ^ length ds, rest)"
  using assms
proof (induction ds arbitrary: x sc)
  case Nil
  then show ?case by (cases rest) auto
next
  case (Cons c ds)
  have dc: "is_digit c" and dds: "list_all is_digit ds" using Cons.prems(1) by simp_all
  have b: "dec_val (x * 10 + digit_val c) ds \<le> (2 ^ 63 - 1) div 10" using Cons.prems(2) by simp
  have le: "x * 10 + digit_val c \<le> (2 ^ 63 - 1) div 10"
    using dec_val_ge [of "x * 10 + digit_val c" ds] b by linarith
  have nx: "\<not> (2 ^ 63 - 1) div 10 < x" using le by linarith
  have ny: "\<not> (2 ^ 63 :: nat) < x * 10 + digit_val c" using le by linarith
  have IH: "leadingFraction_acc (x * 10 + digit_val c) (sc * 10) False (ds @ rest) =
      (dec_val (x * 10 + digit_val c) ds, sc * 10 * 10 ^ length ds, rest)"
    using Cons.IH [OF dds b Cons.prems(3)] .
  show ?case
    using dc nx ny IH by (simp only: append_Cons leadingFraction_acc.simps Let_def if_False
        simp_thms dec_val_Cons list.size power_Suc mult.assoc mult.commute [of 10] if_True)
      (simp add: power_add)
qed


lemma digit_val_lt: "is_digit c \<Longrightarrow> digit_val c < 10"
  unfolding is_digit_def digit_val_def less_eq_char_def by simp linarith

lemma dec_val_lt: "list_all is_digit ds \<Longrightarrow> dec_val x ds < (x + 1) * 10 ^ length ds"
proof (induction ds arbitrary: x)
  case (Cons c ds)
  have "digit_val c < 10" using Cons.prems digit_val_lt by simp
  then have le: "(x * 10 + digit_val c + 1) * 10 ^ length ds \<le> (x + 1) * 10 ^ Suc (length ds)"
    by (simp add: algebra_simps)
  have "dec_val (x * 10 + digit_val c) ds < (x * 10 + digit_val c + 1) * 10 ^ length ds"
    using Cons.IH Cons.prems by simp
  with le show ?case by simp
qed simp

lemma leadingInt_nat_dec:
  assumes "q \<le> 2 ^ 63" and "rest = [] \<or> \<not> is_digit (hd rest)"
  shows "leadingInt (nat_dec q @ rest) = Some (q, rest)"
  using nat_dec_digits [of q 0] assms
  by (simp add: leadingInt_def leadingInt_acc_digits leadingInt_acc_stop)

lemma pd_number_int:
  assumes "q \<le> 2 ^ 63" and "s1 = [] \<or> (\<not> is_digit (hd s1) \<and> hd s1 \<noteq> CHR ''.'')"
  shows "pd_number orig (nat_dec q @ s1) = Inr (q, 0, 1, s1)"
proof -
  have li: "leadingInt (nat_dec q @ s1) = Some (q, s1)"
    using assms by (auto intro: leadingInt_nat_dec)
  have "nat_dec q \<noteq> []" using nat_dec_digits by blast
  then have "length s1 \<noteq> length (nat_dec q @ s1)" by simp
  with li assms(2) show ?thesis
    by (cases s1) (auto simp: pd_number_def)
qed

lemma pd_number_frac:
  assumes "q \<le> 2 ^ 63" and "ds \<noteq> []" and "list_all is_digit ds" and "length ds \<le> 9"
    and "s2 = [] \<or> (\<not> is_digit (hd s2))"
  shows "pd_number orig (nat_dec q @ CHR ''.'' # ds @ s2) = Inr (q, dec_val 0 ds, 10 ^ length ds, s2)"
proof -
  have li: "leadingInt (nat_dec q @ CHR ''.'' # ds @ s2) = Some (q, CHR ''.'' # ds @ s2)"
    using assms(1) by (rule leadingInt_nat_dec) (simp add: is_digit_def)
  have "dec_val 0 ds < 10 ^ length ds" using dec_val_lt [OF assms(3), of 0] by simp
  also have "\<dots> \<le> 10 ^ 9" by (rule power_increasing) (use assms(4) in simp_all)
  finally have "dec_val 0 ds \<le> (2 ^ 63 - 1) div 10" by simp
  then have lf: "leadingFraction (ds @ s2) = (dec_val 0 ds, 10 ^ length ds, s2)"
    using leadingFraction_acc_digits [OF assms(3) _ assms(5), of 0 1] by (simp add: leadingFraction_def)
  have "nat_dec q \<noteq> []" using nat_dec_digits by blast
  with li lf assms(2) show ?thesis by (simp add: pd_number_def)
qed


lemma unit_split:
  assumes "list_all (\<lambda>c. \<not> num_or_dot c) u" and "rest = [] \<or> num_or_dot (hd rest)"
  shows "takeWhile (\<lambda>c. \<not> num_or_dot c) (u @ rest) = u \<and> dropWhile (\<lambda>c. \<not> num_or_dot c) (u @ rest) = rest"
  using assms
proof (induction u)
  case Nil
  then show ?case by (cases rest) auto
qed simp

lemma nat_dec_Cons: "\<exists>c cs. nat_dec q = c # cs \<and> is_digit c"
  using nat_dec_digits [of q 0] by (cases "nat_dec q") auto

lemma pd_component_int:
  assumes U: "unitMap u = Some U" and "0 < U" and u: "u \<noteq> []" "list_all (\<lambda>c. \<not> num_or_dot c) u"
    and rest: "rest = [] \<or> num_or_dot (hd rest)" and b: "q * U \<le> 2 ^ 63"
  shows "pd_component orig (nat_dec q @ u @ rest) = Inr (q * U, rest)"
proof -
  have "q \<le> q * U" using \<open>0 < U\<close> by simp
  then have q: "q \<le> 2 ^ 63" using b by linarith
  have hu: "\<not> is_digit (hd u) \<and> hd u \<noteq> CHR ''.''"
    using u by (cases u) (auto simp: num_or_dot_def)
  have num: "pd_number orig (nat_dec q @ u @ rest) = Inr (q, 0, 1, u @ rest)"
    using pd_number_int [OF q, of "u @ rest"] hu u by (cases u) auto
  have ndiv: "\<not> 2 ^ 63 div U < q" using b \<open>0 < U\<close> by (simp add: less_eq_div_iff_mult_less_eq not_less)
  obtain c cs where c: "nat_dec q = c # cs" "is_digit c" using nat_dec_Cons by blast
  show ?thesis
    using num c U u ndiv unit_split [OF u(2) rest]
    by (simp add: pd_component_def num_or_dot_def)
qed

lemma frac_scale: "len \<le> i \<Longrightarrow> f * 10 ^ (i - len) = r \<Longrightarrow> f * 10 ^ i div 10 ^ len = (r :: nat)"
proof -
  assume "len \<le> i" and f: "f * 10 ^ (i - len) = r"
  then have "(10::nat) ^ i = 10 ^ (i - len) * 10 ^ len" by (simp flip: power_add)
  with f show ?thesis by simp
qed

lemma pd_component_frac:
  assumes U: "unitMap u = Some (10 ^ i)" and "i \<le> 9" and u: "u \<noteq> []" "list_all (\<lambda>c. \<not> num_or_dot c) u"
    and rest: "rest = [] \<or> num_or_dot (hd rest)" and b: "q * 10 ^ i + v mod 10 ^ i \<le> 2 ^ 63"
  shows "pd_component orig (nat_dec q @ frac_out i v @ u @ rest) = Inr (q * 10 ^ i + v mod 10 ^ i, rest)"
proof (cases "frac_out i v = []")
  case True
  then have "v mod 10 ^ i = 0" using frac_out_props by blast
  with True b show ?thesis using pd_component_int [OF U _ u rest] by simp
next
  case False
  then obtain ds where ds: "frac_out i v = CHR ''.'' # ds" "ds \<noteq> []" "list_all is_digit ds"
    "length ds \<le> i" "dec_val 0 ds * 10 ^ (i - length ds) = v mod 10 ^ i"
    using frac_out_props by blast
  have "q \<le> q * 10 ^ i" by simp
  then have q: "q \<le> 2 ^ 63" using b by linarith
  have hu: "\<not> is_digit (hd (u @ rest))" using u by (cases u) (auto simp: num_or_dot_def)
  have num: "pd_number orig (nat_dec q @ CHR ''.'' # ds @ u @ rest) =
      Inr (q, dec_val 0 ds, 10 ^ length ds, u @ rest)"
    using pd_number_frac [OF q ds(2,3) _, of "u @ rest"] ds(4) \<open>i \<le> 9\<close> hu by simp
  have r: "dec_val 0 ds * 10 ^ i div 10 ^ length ds = v mod 10 ^ i"
    using frac_scale [OF ds(4,5)] .
  have pos: "0 < dec_val 0 ds"
    using False ds(5) frac_out_props [of i v] by (metis mult_is_0 neq0_conv)
  have ndiv: "\<not> 2 ^ 63 div 10 ^ i < q"
    using b by (simp add: less_eq_div_iff_mult_less_eq not_less)
  obtain c cs where c: "nat_dec q = c # cs" "is_digit c" using nat_dec_Cons by blast
  show ?thesis
    using num c U u ndiv unit_split [OF u(2) rest] ds(1) r pos b
    by (simp add: pd_component_def num_or_dot_def)
qed


lemma Duration_String_body:
  "Duration_String d = (if d <s 0 then CHR ''-'' # dur_body (unat (- d)) else dur_body (unat d))"
  unfolding Duration_String_def dur_body_def Let_def by simp

lemma pd_loop_step:
  assumes "pd_component orig s = Inr (v, rest)" and "s \<noteq> []" and "d + v \<le> 2 ^ 63"
  shows "pd_loop orig s d = pd_loop orig rest (d + v)"
proof -
  obtain c cs where s: "s = c # cs" using assms(2) by (cases s) auto
  have "(d + v) mod 2 ^ 64 = d + v" using assms(3) by simp
  with assms(1,3) s show ?thesis by (simp add: Let_def)
qed


lemma units:
  "unitMap ''ns'' = Some (10 ^ 0)" "unitMap [CHR 0xC2, CHR 0xB5, CHR ''s''] = Some (10 ^ 3)"
  "unitMap ''ms'' = Some (10 ^ 6)" "unitMap ''s'' = Some (10 ^ 9)"
  "unitMap ''m'' = Some 60000000000" "unitMap ''h'' = Some 3600000000000"
  by (simp_all add: unitMap_def)

lemma unit_chars:
  "list_all (\<lambda>c. \<not> num_or_dot c) ''ns''" "list_all (\<lambda>c. \<not> num_or_dot c) [CHR 0xC2, CHR 0xB5, CHR ''s'']"
  "list_all (\<lambda>c. \<not> num_or_dot c) ''ms''" "list_all (\<lambda>c. \<not> num_or_dot c) ''s''"
  "list_all (\<lambda>c. \<not> num_or_dot c) ''m''" "list_all (\<lambda>c. \<not> num_or_dot c) ''h''"
  by (simp_all add: num_or_dot_def is_digit_def)

lemma nat_dec_hd: "num_or_dot (hd (nat_dec q @ rest))"
  using nat_dec_Cons [of q] by (auto simp: num_or_dot_def)

lemma pd_loop_last:
  assumes "unitMap unit = Some (10 ^ i)" and "i \<le> 9" and "unit \<noteq> []"
    and "list_all (\<lambda>c. \<not> num_or_dot c) unit" and "d + (q * 10 ^ i + v mod 10 ^ i) \<le> 2 ^ 63"
  shows "pd_loop orig (nat_dec q @ frac_out i v @ unit) d = Inr (d + (q * 10 ^ i + v mod 10 ^ i))"
proof -
  have c: "pd_component orig (nat_dec q @ frac_out i v @ unit @ []) = Inr (q * 10 ^ i + v mod 10 ^ i, [])"
    using assms by (intro pd_component_frac) simp_all
  have "nat_dec q @ frac_out i v @ unit \<noteq> []" using assms(3) by simp
  with c assms(5) show ?thesis using pd_loop_step [of orig "nat_dec q @ frac_out i v @ unit"] by simp
qed

lemma pd_loop_subsecond:
  assumes "0 < u" and "u < 1000000000"
  shows "pd_loop orig (dur_body u) 0 = Inr u"
proof -
  have main: "pd_loop orig (nat_dec (u div 10 ^ i) @ frac_out i u @ unit) 0 = Inr u"
    if "unitMap unit = Some (10 ^ i)" "i \<le> 9" "unit \<noteq> []" "list_all (\<lambda>c. \<not> num_or_dot c) unit" for i unit
  proof -
    have e: "u div 10 ^ i * 10 ^ i + u mod 10 ^ i = u" by (rule div_mult_mod_eq)
    show ?thesis using pd_loop_last [OF that, of 0 "u div 10 ^ i" u] assms by (simp add: e)
  qed
  show ?thesis
    using assms main [OF units(1)] main [OF units(2)] main [OF units(3)] unit_chars
    by (simp add: dur_body_def fmtFrac_False)
qed


lemma pd_loop_int_unit:
  assumes "unitMap unit = Some U" and "0 < U" and "unit \<noteq> []"
    and "list_all (\<lambda>c. \<not> num_or_dot c) unit" and "num_or_dot (hd rest)" and "d + a * U \<le> 2 ^ 63"
  shows "pd_loop orig (nat_dec a @ unit @ rest) d = pd_loop orig rest (d + a * U)"
proof -
  have "a * U \<le> 2 ^ 63" using assms(6) by linarith
  then have c: "pd_component orig (nat_dec a @ unit @ rest) = Inr (a * U, rest)"
    using assms by (intro pd_component_int) simp_all
  show ?thesis using pd_loop_step [OF c] assms(3,6) by simp
qed

lemma pd_loop_seconds:
  assumes "1000000000 \<le> u" and "u \<le> 2 ^ 63"
  shows "pd_loop orig (dur_body u) 0 = Inr u"
proof -
  define v where "v = u div 10 ^ 9"
  define mins where "mins = v div 60"
  define hours where "hours = mins div 60"
  define secs where "secs = nat_dec (v mod 60) @ frac_out 9 u @ ''s''"
  have uv: "u = v * 10 ^ 9 + u mod 10 ^ 9" by (simp add: v_def)
  have vm: "v = mins * 60 + v mod 60" by (simp add: mins_def)
  have mh: "mins = hours * 60 + mins mod 60" by (simp add: hours_def)
  have body: "dur_body u = (if 0 < mins then (if 0 < hours then nat_dec hours @ ''h'' @ nat_dec (mins mod 60) @ ''m'' @ secs
      else nat_dec (mins mod 60) @ ''m'' @ secs) else secs)"
    using assms(1) by (simp add: dur_body_def fmtFrac_False Let_def v_def mins_def hours_def secs_def)
  have last: "pd_loop orig secs d = Inr (d + ((v mod 60) * 10 ^ 9 + u mod 10 ^ 9))"
    if "d + ((v mod 60) * 10 ^ 9 + u mod 10 ^ 9) \<le> 2 ^ 63" for d
    unfolding secs_def using that units(4) unit_chars(4) by (intro pd_loop_last) simp_all
  have hs: "num_or_dot (hd secs)" by (simp add: secs_def nat_dec_hd)
  have hm: "num_or_dot (hd (nat_dec (mins mod 60) @ ''m'' @ secs))" by (rule nat_dec_hd)
  have total: "hours * 3600000000000 + (mins mod 60) * 60000000000 + ((v mod 60) * 10 ^ 9 + u mod 10 ^ 9) = u"
  proof -
    have "u = ((hours * 60 + mins mod 60) * 60 + v mod 60) * 10 ^ 9 + u mod 10 ^ 9"
      using uv vm mh by metis
    then show ?thesis by (simp add: algebra_simps)
  qed
  show ?thesis
  proof (cases "0 < mins")
    case False
    then have "mins = 0" by simp
    then have "(v mod 60) * 10 ^ 9 + u mod 10 ^ 9 = u" using total by (simp add: hours_def)
    with False body last [of 0] assms(2) show ?thesis by simp
  next
    case mpos: True
    have m_step: "pd_loop orig (nat_dec (mins mod 60) @ ''m'' @ secs) d =
        Inr (d + (mins mod 60) * 60000000000 + ((v mod 60) * 10 ^ 9 + u mod 10 ^ 9))"
      if "d + (mins mod 60) * 60000000000 + ((v mod 60) * 10 ^ 9 + u mod 10 ^ 9) \<le> 2 ^ 63" for d
    proof -
      have "pd_loop orig (nat_dec (mins mod 60) @ ''m'' @ secs) d = pd_loop orig secs (d + (mins mod 60) * 60000000000)"
        using that hs units(5) unit_chars(5) by (intro pd_loop_int_unit) simp_all
      also have "\<dots> = Inr (d + (mins mod 60) * 60000000000 + ((v mod 60) * 10 ^ 9 + u mod 10 ^ 9))"
        using that by (intro last) simp
      finally show ?thesis .
    qed
    show ?thesis
    proof (cases "0 < hours")
      case False
      then have "hours = 0" by simp
      with total m_step [of 0] mpos body assms(2) show ?thesis by simp
    next
      case True
      have "hours * 3600000000000 \<le> (2::nat) ^ 63" using total assms(2) by linarith
      then have "pd_loop orig (nat_dec hours @ ''h'' @ nat_dec (mins mod 60) @ ''m'' @ secs) 0 =
          pd_loop orig (nat_dec (mins mod 60) @ ''m'' @ secs) (0 + hours * 3600000000000)"
        using hm units(6) unit_chars(6) by (intro pd_loop_int_unit) simp_all
      then have "pd_loop orig (dur_body u) 0 = pd_loop orig (nat_dec (mins mod 60) @ ''m'' @ secs) (0 + hours * 3600000000000)"
        using True mpos body by simp
      also have "\<dots> = Inr u"
        using m_step [of "hours * 3600000000000"] total assms(2) by simp
      finally show ?thesis .
    qed
  qed
qed

lemma unat_nonneg: "0 \<le> sint (w :: int64) \<Longrightarrow> unat w = nat (sint w)"
proof -
  assume nn: "0 \<le> sint w"
  have lt: "sint w < 2 ^ 64" using sint_lt [of w] by simp
  have e: "uint (word_of_int (sint w) :: int64) = take_bit 64 (sint w)"
    using uint_word_of_int_eq [where ?'a = 64, of "sint w"] by simp
  have "word_of_int (sint w) = w" by simp
  with e have "uint w = take_bit 64 (sint w)" by metis
  also have "\<dots> = sint w" using nn lt by (simp add: take_bit_int_eq_self)
  finally show ?thesis by (simp add: unat_eq_nat_uint)
qed

lemma nat_dec_0: "nat_dec 0 = ''0''"
  by code_simp

lemma dur_body_nat_dec: "\<exists>q t. t \<noteq> [] \<and> dur_body u = nat_dec q @ t"
proof (cases "u < 1000000000")
  case True
  show ?thesis
  proof (cases "u = 0")
    case True
    then have "dur_body u = nat_dec 0 @ ''s''" by (simp add: dur_body_def nat_dec_0)
    then show ?thesis by blast
  next
    case False
    with \<open>u < 1000000000\<close> show ?thesis
      by (auto simp: dur_body_def Let_def fmtFrac_False split: prod.splits)
  qed
next
  case False
  then show ?thesis by (auto simp: dur_body_def Let_def fmtFrac_False split: prod.splits)
qed

lemma dur_body_shape: "\<exists>c cs. dur_body u = c # cs \<and> is_digit c \<and> cs \<noteq> []"
proof -
  obtain q t where t: "t \<noteq> []" "dur_body u = nat_dec q @ t" using dur_body_nat_dec by blast
  obtain c cs where "nat_dec q = c # cs" "is_digit c" using nat_dec_Cons by blast
  with t show ?thesis by auto
qed

lemma frac_out_zero: "frac_out i 0 = []"
  by (induction i) simp_all

lemma pd_loop_body: "u \<le> 2 ^ 63 \<Longrightarrow> pd_loop orig (dur_body u) 0 = Inr u"
proof -
  assume u: "u \<le> 2 ^ 63"
  consider "u = 0" | "0 < u" "u < 1000000000" | "1000000000 \<le> u" by linarith
  then show ?thesis
  proof cases
    case 1
    have "pd_loop orig (nat_dec 0 @ frac_out 9 0 @ ''s'') 0 = Inr (0 + (0 * 10 ^ 9 + 0 mod 10 ^ 9))"
      using units(4) unit_chars(4) by (intro pd_loop_last) simp_all
    with 1 show ?thesis by (simp add: dur_body_def nat_dec_0 frac_out_zero)
  next
    case 2
    then show ?thesis by (rule pd_loop_subsecond)
  next
    case 3
    then show ?thesis using u by (rule pd_loop_seconds)
  qed
qed

lemma ParseDuration_Duration_String: "ParseDuration (Duration_String d) = Inr d"
proof (cases "d <s 0")
  case False
  define u where "u = unat d"
  have nn: "0 \<le> sint d" using False by (simp add: word_sless_alt)
  have ub: "u < 2 ^ 63" using nn sint_lt [of d] by (simp add: u_def unat_nonneg)
  obtain c cs where b: "dur_body u = c # cs" "is_digit c" "cs \<noteq> []" using dur_body_shape by blast
  have sgn: "c \<noteq> CHR ''-'' \<and> c \<noteq> CHR ''+''" using b(2) by (auto simp: is_digit_def)
  have "dur_body u \<noteq> ''0''" using b(1,3) by auto
  moreover have "pd_loop (dur_body u) (dur_body u) 0 = Inr u" using ub by (intro pd_loop_body) simp
  ultimately show ?thesis
    using False b(1,3) sgn ub by (simp add: Duration_String_body ParseDuration_def u_def)
next
  case True
  define u where "u = unat (- d)"
  have ub: "u \<le> 2 ^ 63"
  proof (cases "d = word_of_int int64_min")
    case True
    then show ?thesis by (simp add: u_def int64_min_def)
  next
    case nmin: False
    have "sint d < 0" using True by (simp add: word_sless_alt)
    then have "0 \<le> sint (- d)" "sint (- d) = - sint d" using nmin by (simp_all add: sint_uminus64)
    then show ?thesis using sint_ge [of d] by (simp add: u_def unat_nonneg)
  qed
  obtain c cs where b: "dur_body u = c # cs" "is_digit c" "cs \<noteq> []" using dur_body_shape by blast
  have "dur_body u \<noteq> ''0''" using b(1,3) by auto
  moreover have "pd_loop (CHR ''-'' # dur_body u) (dur_body u) 0 = Inr u" using ub by (rule pd_loop_body)
  ultimately show ?thesis
    using True b(1,3) by (simp add: Duration_String_body ParseDuration_def u_def)
qed


subsection \<open>The text reporter's durations\<close>

text \<open>
  C28: every line the text reporter prints for a \<open>FIRING\<close> or \<open>PENDING\<close> result shows
  the result's duration as \<open>(Duration: X)\<close>, and \<open>time.ParseDuration\<close> reads \<open>X\<close>
  back to exactly that duration: the printing loses nothing, for every \<open>int64\<close>.
\<close>

theorem text_duration_roundtrip:
  assumes "state \<noteq> ''SILENT''"
  shows "\<exists>pre post. text_AddResult metric d state annotations =
           pre @ ''(Duration: '' @ Duration_String d @ '')'' @ post \<and>
         ParseDuration (Duration_String d) = Inr d"
proof -
  have "\<exists>pre post. text_AddResult metric d state annotations =
           pre @ ''(Duration: '' @ Duration_String d @ '')'' @ post"
  proof (cases "state = ''FIRING''")
    case True
    show ?thesis
      by (rule exI [of _ "''      '' @ [CHR 0xF0, CHR 0x9F, CHR 0x94, CHR 0xA5] @ '' FIRING! ['' @
            Metric_String metric @ ''] ''"],
          rule exI [of _ "''\<newline>'' @ concat [''          - '' @ k @ '': '' @ v @ ''\<newline>''. (k, v) \<leftarrow> annotations]"])
        (simp add: text_AddResult_def True)
  next
    case False
    show ?thesis
      by (rule exI [of _ "''      '' @ [CHR 0xE2, CHR 0x9A, CHR 0xA0, CHR 0xEF, CHR 0xB8, CHR 0x8F] @
            '' PENDING... ['' @ Metric_String metric @ ''] ''"], rule exI [of _ "''\<newline>''"])
        (simp add: text_AddResult_def False assms)
  qed
  then show ?thesis using ParseDuration_Duration_String by blast
qed

theorem text_duration_roundtrip_witness:
  "''PENDING'' \<noteq> ''SILENT'' \<and>
   (\<exists>pre post. text_AddResult [(''job'', ''api'')] (- 9223372036854775808) ''PENDING'' [] =
      pre @ ''(Duration: '' @ Duration_String (- 9223372036854775808) @ '')'' @ post \<and>
    ParseDuration (Duration_String (- 9223372036854775808)) = Inr (- 9223372036854775808)) \<and>
   Duration_String (- 9223372036854775808) = ''-2562047h47m16.854775808s''"
proof -
  have "Duration_String (- 9223372036854775808) = ''-2562047h47m16.854775808s''"
    by code_simp
  with text_duration_roundtrip [of "''PENDING''" "[(''job'', ''api'')]" "- 9223372036854775808" "[]"]
  show ?thesis by simp
qed

end
