(* ===== verification/Client.thy ===== *)
theory Client
  imports Prelude
begin

text \<open>
  \<open>client.NewAPI\<close> of \<open>internal/client/client.go\<close>: it builds a client of the
  Prometheus HTTP API library for an address and wraps it as a \<open>v1.API\<close>. The
  library's constructor \<open>api.NewClient\<close> is a parameter (it fails on an address it
  cannot parse); \<open>NewAPI\<close> adds the context to its error and returns the API value.
\<close>

datatype 'c v1_API = V1API 'c

definition NewAPI :: "(string \<Rightarrow> string + 'c) \<Rightarrow> string \<Rightarrow> string + 'c v1_API" where
  "NewAPI newClient url =
    (case newClient url of
      Inl err \<Rightarrow> Inl (''error creating prometheus client: '' @ err)
    | Inr client \<Rightarrow> Inr (V1API client))"

end
