(* ===== verification/EngineTest.thy ===== *)
theory EngineTest
  imports Evaluator
begin

text \<open>
  The unit test of the evaluator, \<open>TestCalculateAlerts\<close> in
  \<open>internal/engine/engine_test.go\<close>: a table of four cases, each a rule, a matrix
  built around the clock reading \<open>now := model.Now()\<close> and the expected states, run
  through \<open>calculateAlerts\<close>. A case fails fatally when the number of results differs,
  records one error per result whose state differs, and a panic of \<open>calculateAlerts\<close>
  fails it too. The clock and the sample value \<open>1\<close> are parameters, and so is the
  template engine: no case has annotations.
\<close>

subsection \<open>model.Time.Add\<close>

text \<open>\<open>func (t Time) Add(d time.Duration) Time { return t + Time(d/minimumTick) }\<close>.\<close>

definition minimumTick :: Duration where
  "minimumTick = 1000000"

definition Time_Add :: "model_Time \<Rightarrow> Duration \<Rightarrow> model_Time" where
  "Time_Add t d = t + word_of_int (go_quot (sint d) (sint minimumTick))"

subsection \<open>The test table\<close>

record 'v test_case =
  tc_name :: string
  tc_rule :: Rule
  tc_matrix :: "'v Matrix"
  tc_expected :: "AlertResult list"

text \<open>\<open>config.Rule{}\<close> and an \<open>AlertResult\<close> with only its state set.\<close>

definition zero_Rule :: Rule where
  "zero_Rule = \<lparr>Alert = [], Expr = [], For = [], Labels = [], Annotations = []\<rparr>"

definition expect_state :: "AlertState \<Rightarrow> AlertResult" where
  "expect_state s = \<lparr>ar_Metric = [], ar_Duration = 0, ar_State = s, ar_Annotations = []\<rparr>"

definition tests :: "'v \<Rightarrow> model_Time \<Rightarrow> 'v test_case list" where
  "tests one now =
    [\<lparr>tc_name = ''Firing: Duration > For'', tc_rule = zero_Rule\<lparr>For := ''5m''\<rparr>,
      tc_matrix = [\<lparr>Metric = [(''foo'', ''bar'')],
        Values = [\<lparr>Timestamp = Time_Add now (- 10 * Minute), Value = one\<rparr>,
                  \<lparr>Timestamp = now, Value = one\<rparr>]\<rparr>],
      tc_expected = [expect_state StateFiring]\<rparr>,
     \<lparr>tc_name = ''Pending: Duration < For'', tc_rule = zero_Rule\<lparr>For := ''15m''\<rparr>,
      tc_matrix = [\<lparr>Metric = [(''foo'', ''bar'')],
        Values = [\<lparr>Timestamp = Time_Add now (- 10 * Minute), Value = one\<rparr>,
                  \<lparr>Timestamp = now, Value = one\<rparr>]\<rparr>],
      tc_expected = [expect_state StatePending]\<rparr>,
     \<lparr>tc_name = ''Firing: For is 0 (Instant)'', tc_rule = zero_Rule\<lparr>For := ''0s''\<rparr>,
      tc_matrix = [\<lparr>Metric = [(''foo'', ''bar'')], Values = [\<lparr>Timestamp = now, Value = one\<rparr>]\<rparr>],
      tc_expected = [expect_state StateFiring]\<rparr>,
     \<lparr>tc_name = ''Firing: No 'For' specified (Default 0)'', tc_rule = zero_Rule,
      tc_matrix = [\<lparr>Metric = [(''foo'', ''bar'')], Values = [\<lparr>Timestamp = now, Value = one\<rparr>]\<rparr>],
      tc_expected = [expect_state StateFiring]\<rparr>]"

subsection \<open>Running a case\<close>

text \<open>
  The outcome of \<open>t.Run(tt.name, ...)\<close>: passed, stopped by \<open>t.Fatalf\<close>, failed with
  the messages of \<open>t.Errorf\<close>, or failed by a panic of the code under test.
\<close>

datatype test_outcome = Passed | Fatal string | Failed "string list" | Panicked go_panic

definition run_test :: "('t, 'v) template_engine \<Rightarrow> 'v test_case \<Rightarrow> test_outcome" where
  "run_test E tt =
    (case calculateAlerts E (tc_matrix tt) (tc_rule tt) of
      Inl p \<Rightarrow> Panicked p
    | Inr results \<Rightarrow>
        if length results \<noteq> length (tc_expected tt) then
          Fatal (''expected '' @ nat_dec (length (tc_expected tt)) @ '' results, got ''
                 @ nat_dec (length results))
        else
          (let errs = [''expected state '' @ AlertState_str (ar_State e) @ '', got ''
                         @ AlertState_str (ar_State r).
                       (r, e) \<leftarrow> zip results (tc_expected tt), ar_State r \<noteq> ar_State e]
           in if errs = [] then Passed else Failed errs))"

definition TestCalculateAlerts ::
  "('t, 'v) template_engine \<Rightarrow> 'v \<Rightarrow> model_Time \<Rightarrow> (string \<times> test_outcome) list" where
  "TestCalculateAlerts E one now = map (\<lambda>tt. (tc_name tt, run_test E tt)) (tests one now)"

subsection \<open>Lemmas on the clock arithmetic of the table\<close>

lemma Time_Add_ten_min_back: "Time_Add t (- (10 * Minute)) = t - 600000"
proof -
  have "sint (- 10 * Minute) = - 600000000000"
    by (simp add: Minute_def)
  then show ?thesis
    by (simp add: Time_Add_def minimumTick_def go_quot_def)
qed

lemma sint_minus_600000:
  "sint (t - 600000 :: int64) =
     (if int64_min + 600000 \<le> sint t then sint t - 600000 else sint t - 600000 + 2 ^ 64)"
proof -
  have w: "t - 600000 = word_of_int (sint t - 600000)"
    by simp
  show ?thesis
  proof (cases "int64_min + 600000 \<le> sint t")
    case True
    have "sint (word_of_int (sint t - 600000) :: int64) = sint t - 600000"
      using True sint64_range [of t]
      by (intro sint_word_of_int64) (simp_all add: int64_min_def int64_max_def)
    with True show ?thesis by (simp only: w if_True)
  next
    case False
    have "(word_of_int (sint t - 600000) :: int64) = word_of_int (sint t - 600000 + 2 ^ 64)"
      by (simp add: word_of_int_eq_iff take_bit_eq_mod)
    moreover have "sint (word_of_int (sint t - 600000 + 2 ^ 64) :: int64) = sint t - 600000 + 2 ^ 64"
      using False sint64_range [of t] by (intro sint_word_of_int64) (simp_all add: int64_min_def int64_max_def)
    ultimately show ?thesis using False by (simp only: w if_False)
  qed
qed

lemma ten_min_elapsed:
  "Time_Sub (Timestamp_Time t) (Timestamp_Time (t - 600000)) =
     (if int64_min + 600000 \<le> sint t then 600000000000 else word_of_int int64_min)"
  by (simp add: Time_Sub_def Timestamp_Time_eq sat_int64_def sint_minus_600000 algebra_simps)
     (simp add: int64_min_def int64_max_def)

lemma ten_min_compare:
  "(300000000000 :: Duration) \<le>s 600000000000" "\<not> (900000000000 :: Duration) \<le>s 600000000000"
  "\<not> (300000000000 :: Duration) \<le>s word_of_int int64_min"
  "\<not> (900000000000 :: Duration) \<le>s word_of_int int64_min"
  by (simp_all add: word_sle_eq int64_min_def)

lemma forDuration_table:
  "forDuration ''5m'' = 300000000000" "forDuration ''15m'' = 900000000000"
  "forDuration ''0s'' = 0" "forDuration [] = 0"
  by (simp_all add: forDuration_def ParseDuration_eval)

lemma renderAnnotations_Nil: "renderAnnotations E [] m v = []"
  by (simp add: renderAnnotations_def)

subsection \<open>The outcome of the test\<close>

text \<open>
  C30: the four cases of \<open>TestCalculateAlerts\<close> pass, whatever the template engine
  and the sample value, exactly when \<open>model.Now()\<close> is at least 600000 ms above the
  smallest \<open>int64\<close>; below that, \<open>now.Add(-10 * time.Minute)\<close> wraps around to a
  time after \<open>now\<close>, the elapsed time saturates to the smallest duration and the
  first case fails with one error, the others still pass.
\<close>

theorem TestCalculateAlerts_outcome:
  "TestCalculateAlerts E one now =
    [(''Firing: Duration > For'',
      if int64_min + 600000 \<le> sint now then Passed
      else Failed [''expected state FIRING, got PENDING'']),
     (''Pending: Duration < For'', Passed),
     (''Firing: For is 0 (Instant)'', Passed),
     (''Firing: No 'For' specified (Default 0)'', Passed)]"
  by (simp add: TestCalculateAlerts_def tests_def run_test_def calculateAlerts_def
      alert_of_stream_def Time_Add_ten_min_back ten_min_elapsed forDuration_table ten_min_compare zero_Rule_def
      expect_state_def renderAnnotations_Nil Let_def AlertState_str_def)

end
