(* ===== verification/Spec2Isabelle.thy ===== *)
theory Spec2Isabelle
  imports Program Load Duration_Roundtrip Client EngineTest
begin

text \<open>
  \<^bold>\<open>A verification model of prom-verifier.\<close>

  prom-verifier replays Prometheus alerting rules against the history of a
  Prometheus server. \<open>cmd\<close> loads a configuration (\<open>internal/config/config.go\<close>,
  \<open>Load\<close>: flags, a time window, the YAML rule file of \<open>internal/config/rules.go\<close>),
  builds a query client (\<open>internal/client/client.go\<close>) and a reporter
  (\<open>internal/report/report.go\<close>) and calls \<open>engine.Run\<close>
  (\<open>internal/engine/engine.go\<close>). \<open>Run\<close> visits every rule of every group; for
  each, \<open>evaluateRule\<close> runs a range query over the window with a one-minute step,
  and \<open>calculateAlerts\<close> turns every returned series into a state
  (\<open>FIRING\<close>, \<open>PENDING\<close>, \<open>SILENT\<close>), an elapsed duration and, for firing
  series, the rule's annotations rendered by \<open>renderAnnotations\<close> with Go's
  \<open>text/template\<close>. The results go to the reporter, which is flushed once at the end.

  \<^bold>\<open>Theories.\<close>
  \<^item> Prelude: Go's \<open>int64\<close> as \<open>64 word\<close> read with \<open>sint\<close>; Go maps as association
    lists with distinct keys (\<open>gomap_wf\<close>), \<open>m[k] = v\<close> as \<open>AList.update\<close>, a
    \<open>range\<close> loop as a fold in list order (one of the orders Go may choose);
    truncating division; decimal printing; the lemmas these encodings share.
  \<^item> GoTime: the parts of Go's \<open>time\<close> package and of \<open>prometheus/common/model\<close>
    the engine calls, modelled from their documented behaviour: \<open>model.Time\<close>
    (milliseconds, \<open>int64\<close>), \<open>Time()\<close> (\<open>Timestamp_Time\<close>), \<open>time.Time.Sub\<close> with its
    saturation to the \<open>int64\<close> range (\<open>Time_Sub\<close>), and \<open>time.ParseDuration\<close>
    (\<open>ParseDuration\<close>, \<open>pd_loop\<close> and the lexer functions \<open>leadingInt\<close>,
    \<open>leadingFraction\<close>, \<open>unitMap\<close>) with Go's \<open>uint64\<close> accumulation, its overflow
    checks and its error cases as the datatype \<open>duration_error\<close>.
  \<^item> PromModel: \<open>model.SamplePair\<close>, \<open>model.SampleStream\<close>, \<open>model.Matrix\<close> as records
    and lists, the dynamic type of \<open>model.Value\<close> as a datatype, and the predicate
    \<open>chronological\<close> for series whose timestamps do not decrease.
  \<^item> Config: the records \<open>Rule\<close>, \<open>RuleGroup\<close>, \<open>RuleFile\<close> (rules.go) and \<open>Config\<close>
    (config.go, lines 12--20), field for field.
  \<^item> Template: the interface \<open>template_engine\<close> (\<open>t_parse\<close>, \<open>t_exec\<close>) through which
    the renderer uses \<open>text/template\<close>, and \<open>frag_engine\<close>, an executable model of
    \<open>text/template\<close> on the fragment annotations use: text, \<open>{{ $x := .F }}\<close>,
    \<open>{{ .F.G }}\<close>, \<open>{{ $x.F }}\<close>, the trim markers \<open>{{- \<close> and \<open> -}}\<close>
    (\<open>left_trim_marker\<close>, \<open>ends_right_trim\<close>, \<open>trim_left\<close>, \<open>trim_right\<close>) and
    comments \<open>{{/* ... */}}\<close>, with Go's error texts for unclosed actions and
    comments, comments not closed at once, undefined variables and undefined
    functions (\<open>parse_command\<close>: no function is registered, so Prometheus'
    \<open>humanize\<close> is one), map lookups that print \<open><no value>\<close> for a missing key,
    and \<open>Unsupported\<close> for anything outside the fragment.
  \<^item> Render: \<open>renderAnnotations\<close> (engine.go, lines 130--167) over any engine:
    \<open>template_data\<close> (the copy of the labels), \<open>helper\<close>, \<open>render_one\<close> (one annotation,
    with the \<open><template_error: ...>\<close> and \<open><render_error: ...>\<close> wrappers).
  \<^item> Evaluator: \<open>calculateAlerts\<close> (lines 71--127): \<open>forDuration\<close> (lines 72--79),
    \<open>alert_of_stream\<close> (the loop body, lines 84--124), \<open>calc_loop\<close> (the loop), the
    \<open>AlertState\<close> and \<open>AlertResult\<close> types; an index out of range is the value
    \<open>Inl (IndexOutOfRange i)\<close> of a sum type, as Go panics there.
    The abstract specification is \<open>spec_alert\<close>: a series fires iff its elapsed time
    (\<open>elapsed\<close>) reaches the \<open>for\<close> duration (\<open>spec_state\<close>).
  \<^item> Orchestrator: \<open>evaluateRule\<close> (lines 45--69) and \<open>Run\<close> (lines 36--43), with the
    query client as a function parameter and the effects as the ordered list of
    reporter calls and standard-error writes (\<open>io_event\<close>); a panic stops \<open>Run\<close>.
  \<^item> Report: report.go. \<open>Result\<close> (lines 24--31) as a record, the three implementations
    of the \<open>Reporter\<close> interface (\<open>TextReporter\<close>, \<open>JSONReporter\<close>, \<open>YAMLReporter\<close>) as
    the constructors of the datatype \<open>Reporter\<close> with their fields, \<open>New\<close> (lines
    105--114), \<open>Reporter_AddResult\<close> and \<open>Reporter_Flush\<close> (the methods of the three
    types, lines 41--103) returning the new reporter and what is printed; the text
    lines (\<open>text_AddResult\<close>), \<open>mk_Result\<close>, and the Go formatting these call:
    \<open>Metric_String\<close> (\<open>model.Metric.String\<close>, with \<open>go_quote\<close> for \<open>%q\<close>),
    \<open>Duration_String\<close> (\<open>time.Duration.String\<close>, with \<open>fmtFrac\<close>), and the JSON
    encoder (\<open>json_esc\<close>, \<open>json_object\<close>, \<open>json_array\<close>, \<open>json_Result\<close>,
    \<open>json_encode\<close>) with the layout of \<open>SetIndent("", "  ")\<close> and HTML escaping.
    \<open>json_unesc\<close> is a reader of JSON strings, used to show that the encoding loses
    nothing (\<open>json_esc_roundtrip\<close>).
  \<^item> Load: \<open>config.Load\<close> (config.go, lines 22--97) as a function of the parsed flag
    values (\<open>Flags\<close>, defaults \<open>default_flags\<close>), the clock, the zone's offset, the file
    reader and the YAML decoder, returning the lines written to standard error and
    the \<open>Config\<close> or a \<open>load_error\<close>, one constructor per \<open>return nil, err\<close>; with the
    calendar of Go's \<open>time\<close> package it calls (\<open>go_Date\<close>, \<open>AddDate\<close>,
    \<open>ParseInLocation\<close> for the layout \<open>"2006-01-02 15:04"\<close>, \<open>Format_layout\<close>).
  \<^item> Duration_Roundtrip: the proof that \<open>ParseDuration (Duration_String d) = Inr d\<close> for
    every \<open>int64\<close>, through reference definitions of what \<open>Duration.String\<close> prints
    (\<open>dur_body\<close>, \<open>frac_out\<close>, \<open>pad_dec\<close>) and lemmas on how the lexer of
    \<open>ParseDuration\<close> reads each printed component back.
  \<^item> EngineTest: engine_test.go. \<open>TestCalculateAlerts\<close> with its table (\<open>tests\<close>,
    a record \<open>test_case\<close> per case), the checks of \<open>t.Fatalf\<close> and \<open>t.Errorf\<close>
    (\<open>run_test\<close>, outcomes \<open>test_outcome\<close>), and \<open>model.Time.Add\<close> (\<open>Time_Add\<close>), which
    builds the sample times from the clock reading \<open>now\<close>.
  \<^item> Program: \<open>deliver\<close> feeds the events of \<open>Run\<close> to a reporter, dispatching the
    interface calls to the implementation, and yields the console output in order.
  \<^item> This theory: the first example of the specification, generalised, the
    properties that join the renderer with the template engine, and the
    behaviours on inputs the specification leaves open.

  \<^bold>\<open>What the lemmas show.\<close>
  Evaluator: \<open>calculateAlerts\<close> refines the specification \<open>spec_alert\<close> whenever the
  \<open>for\<close> duration is non-negative and no series is empty (C1); the exact elapsed
  time and the firing condition of every series with two samples or more (C2);
  short series are \<open>PENDING\<close> for a non-zero \<open>for\<close> (C3) and every chronological
  series fires at once for \<open>for: 0s\<close> or none (C4); a malformed \<open>for\<close> behaves as
  \<open>0s\<close> (C10); the exact condition of the panic (C11). This theory: the first
  example of the specification for every clock reading, label and value (C6), an
  annotation with a parse error isolated from the others (C8), label lookup with
  \<open><no value>\<close> for a missing label (C9), and, for every input, the behaviours the
  specification leaves open: a negative \<open>for\<close> keeps single samples \<open>PENDING\<close>
  (C18) and unordered samples are \<open>PENDING\<close> under \<open>for: 0s\<close> (C19). Render: each
  annotation is rendered on its own (C7); the value prints through the engine's
  formatter (C17); with the fragment engine a call of an unregistered function such
  as \<open>humanize\<close> is a parse error of that annotation
  (\<open>render_one_undefined_function\<close>), and trim markers remove the blanks beside an
  action (\<open>render_one_trimmed_label\<close>). Orchestrator: the \<open>SILENT\<close> row of an empty
  result (C5), one final \<open>Flush\<close> (C12), none after a panic (C13), \<open>Run\<close> is the
  concatenation of the per-rule effects (C14), query errors (C15), result rows
  (C16), non-matrix results dropped (C20). GoTime: the elapsed time of two
  timestamps is exact within 292 years (\<open>Timestamp_Sub_exact\<close>). Report: the text
  reporter's output depends on the iteration order of the annotation map (C21),
  for any two annotation names. Program: a run without panic prints exactly one
  JSON document with all results in order (C22); a run ending in a panic prints
  nothing with the JSON or YAML reporter (C23); the text reporter prints every
  result as it comes (C24); every row \<open>Run\<close> reports is for a rule of the
  configuration, with one of the three state names, and a \<open>SILENT\<close> row is the
  empty synthetic one (C29). Load: an accepted configuration queries at most eight
  hours starting at most three months back (C25); a negative window is accepted
  and inverts the range (C26); a window over four hours is refused (C27).
  Duration_Roundtrip: the durations the text reporter prints read back exactly
  (C28). EngineTest: the unit test passes for every clock reading at least ten
  minutes above the smallest \<open>int64\<close>, and below that its first case fails by
  wrap-around (C30).

  \<^bold>\<open>Bounds.\<close> No fuel is used: every loop of the modelled code is structural
  recursion over a list, and the two lexers that are not (\<open>pd_loop\<close>,
  \<open>tparse_nodes\<close>) are \<open>function\<close>s with a termination proof on the length of the
  input. Word widths are Go's: durations and \<open>model.Time\<close> are \<open>64 word\<close>;
  \<open>ParseDuration\<close>'s \<open>uint64\<close> sum is computed modulo \<open>2^64\<close> as Go does.

  \<^bold>\<open>Not modelled.\<close> Inside \<open>config.Load\<close>, \<open>flag.Parse\<close>, \<open>os.ReadFile\<close>,
  \<open>yaml.Unmarshal\<close> and \<open>time.Now\<close> are inputs of the model, not models of those
  libraries, and the local zone is a fixed offset (no daylight saving time). The YAML reporter's output is modelled as the list of
  results it encodes, not as YAML text; the JSON and text output are modelled byte
  for byte on ASCII text, non-ASCII bytes being taken as valid printable UTF-8.
  The fractional part of a duration (\<open>1.5h\<close>) is computed exactly in the model
  (\<open>f * unit div scale\<close>), where Go multiplies in \<open>float64\<close>: the two can differ
  by rounding for long fractions of large units.
  \<open>client.NewAPI\<close> (Client.thy) is modelled with the library's \<open>api.NewClient\<close> as a
  parameter; it only wraps that constructor and prefixes its error, so no theorem
  is stated about it, and \<open>Run\<close> takes the query function directly. The formatting of
  float sample values is the engine's parameter \<open>fmt\<close>. \<open>text/template\<close> is
  modelled on its fragment only (Template.thy): the renderer is proved correct over
  any engine, and the fragment engine covers what annotations use for labels and
  values. The rest of the language (pipelines, the builtin functions with their
  argument conversions, literals, \<open>if\<close>/\<open>with\<close>/\<open>range\<close> with Go's scoping,
  \<open>define\<close>/\<open>template\<close>) is a standard-library evaluator built on reflection and
  much larger than the program, and parts of it change between Go versions
  (\<open>break\<close>, \<open>continue\<close>, \<open>else with\<close>, ranging over integers); the model returns
  \<open>Unsupported\<close> there and no claim depends on it. In engine_test.go the clock \<open>model.Now()\<close> and the
  sample value are parameters of the test model, and Go's testing framework is
  reduced to the outcome of each case.
\<close>

section \<open>Examples of the specification, end to end\<close>

text \<open>
  C6: the specification's first example holds for every clock reading, job label,
  sample values and float formatting: a series of two samples ten minutes apart,
  labelled \<open>job\<close>, under a rule with \<open>for: 5m\<close> and the annotation
  \<open>{{ $labels.job }} at {{ $value }}\<close>, is one \<open>FIRING\<close> result with elapsed time ten
  minutes, its label set, and the annotation rendered from the label and the last value.
\<close>

theorem spec_example_firing:
  assumes "For rule = ''5m''"
    and "Annotations rule = [(''summary'', ''{{ $labels.job }} at {{ $value }}'')]"
    and "sint t1 - sint t0 = 600000"
  shows "calculateAlerts (frag_engine fmt)
           [\<lparr>Metric = [(''job'', j)], Values = [\<lparr>Timestamp = t0, Value = v0\<rparr>, \<lparr>Timestamp = t1, Value = v\<rparr>]\<rparr>]
           rule =
         Inr [\<lparr>ar_Metric = [(''job'', j)], ar_Duration = 600000000000, ar_State = StateFiring,
               ar_Annotations = [(''summary'', j @ '' at '' @ fmt v)]\<rparr>]"
proof -
  have d: "Time_Sub (Timestamp_Time t1) (Timestamp_Time t0) = 600000000000"
  proof -
    have "sint (Time_Sub (Timestamp_Time t1) (Timestamp_Time t0)) = 600000000000"
      using assms(3) by (simp add: sint_Time_Sub Timestamp_Time_eq int64_min_def int64_max_def
          left_diff_distrib [symmetric])
    then have "word_of_int (sint (Time_Sub (Timestamp_Time t1) (Timestamp_Time t0))) =
        (word_of_int 600000000000 :: int64)" by simp
    then show ?thesis by simp
  qed
  have f: "forDuration (For rule) = 300000000000" using assms(1) by (simp add: forDuration_table)
  have c: "(300000000000 :: Duration) \<le>s 600000000000" by (simp add: word_sle_eq)
  have r: "render_one (frag_engine fmt) (template_data [(''job'', j)] v) ''{{ $labels.job }} at {{ $value }}''
      = j @ '' at '' @ fmt v"
    using render_one_label_text_value [of "''job''" "[(''job'', j)]" "'' at ''" fmt v]
    by (simp add: is_field_def ident_char_def is_digit_def gomap_wf_def)
  show ?thesis
    using assms(2) d f c r
    by (simp add: calculateAlerts_def alert_of_stream_def Let_def renderAnnotations_eq gomap_wf_def)
qed

theorem spec_example_firing_witness:
  "For (ex_rule ''5m'' [(''summary'', ''{{ $labels.job }} at {{ $value }}'')]) = ''5m'' \<and>
   Annotations (ex_rule ''5m'' [(''summary'', ''{{ $labels.job }} at {{ $value }}'')]) =
     [(''summary'', ''{{ $labels.job }} at {{ $value }}'')] \<and>
   sint (0 :: model_Time) - sint (- 600000 :: model_Time) = 600000 \<and>
   calculateAlerts ex_engine [ex_stream]
     (ex_rule ''5m'' [(''summary'', ''{{ $labels.job }} at {{ $value }}'')]) =
   Inr [\<lparr>ar_Metric = [(''job'', ''api'')], ar_Duration = 600000000000, ar_State = StateFiring,
         ar_Annotations = [(''summary'', ''api at 1'')]\<rparr>]"
proof -
  have s: "sint (0 :: model_Time) - sint (- 600000 :: model_Time) = 600000" by simp
  have a: "Annotations (ex_rule ''5m'' [(''summary'', ''{{ $labels.job }} at {{ $value }}'')]) =
     [(''summary'', ''{{ $labels.job }} at {{ $value }}'')]" by (simp add: ex_rule_def)
  have o: "nat_dec 1 = ''1''" by code_simp
  show ?thesis
    using spec_example_firing [of "ex_rule ''5m'' [(''summary'', ''{{ $labels.job }} at {{ $value }}'')]"
        0 "- 600000" nat_dec "''api''" 1 1, OF _ a s] s a o
    by (simp add: ex_rule_def ex_engine_def ex_stream_def)
qed

section \<open>The renderer with the template engine\<close>

text \<open>
  C8: an annotation that uses an undefined variable \<open>$x\<close> renders to Go's parse
  error wrapped in \<open><template_error: ...>\<close>, and every other annotation renders
  exactly as if that annotation were not there.
\<close>

theorem bad_template_isolated:
  assumes "gomap_wf raw" and "map_of raw k = Some (''{{ $'' @ x @ '' }}'')"
    and "x \<noteq> []" and "list_all ident_char x" and "x \<notin> {''labels'', ''value''}"
  shows "map_of (renderAnnotations (frag_engine fmt) raw labels v) k =
           Some (''<template_error: template: validity:1: undefined variable \"$'' @ x @ ''\">'')
    \<and> (\<forall>k'. k' \<noteq> k \<longrightarrow> map_of (renderAnnotations (frag_engine fmt) raw labels v) k' =
             map_of (renderAnnotations (frag_engine fmt) (AList.delete k raw) labels v) k')"
proof -
  have wf': "gomap_wf (AList.delete k raw)"
    using assms(1) by (simp add: gomap_wf_def distinct_delete)
  show ?thesis
    using assms(2) render_one_undefined_variable [OF assms(3-5)]
    by (simp add: renderAnnotations_eq [OF assms(1)] renderAnnotations_eq [OF wf']
        map_of_map_pair delete_conv)
qed

theorem bad_template_isolated_witness:
  "gomap_wf [(''summary'', ''{{ $labels.job }}''), (''runbook'', ''{{ $nope }}'')] \<and>
   map_of [(''summary'', ''{{ $labels.job }}''), (''runbook'', ''{{ $nope }}'')] ''runbook'' =
     Some (''{{ $'' @ ''nope'' @ '' }}'') \<and>
   ''nope'' \<noteq> [] \<and> list_all ident_char ''nope'' \<and> ''nope'' \<notin> {''labels'', ''value''} \<and>
   map_of (renderAnnotations (frag_engine nat_dec)
       [(''summary'', ''{{ $labels.job }}''), (''runbook'', ''{{ $nope }}'')] [(''job'', ''api'')] (1::nat))
     ''runbook'' = Some ''<template_error: template: validity:1: undefined variable \"$nope\">'' \<and>
   map_of (renderAnnotations (frag_engine nat_dec)
       [(''summary'', ''{{ $labels.job }}''), (''runbook'', ''{{ $nope }}'')] [(''job'', ''api'')] (1::nat))
     ''summary'' =
   map_of (renderAnnotations (frag_engine nat_dec)
       [(''summary'', ''{{ $labels.job }}'')] [(''job'', ''api'')] (1::nat)) ''summary''"
  using bad_template_isolated [of "[(''summary'', ''{{ $labels.job }}''), (''runbook'', ''{{ $nope }}'')]"
      "''runbook''" "''nope''" nat_dec "[(''job'', ''api'')]" "1::nat"]
  by (simp add: gomap_wf_def ident_char_def is_digit_def)

text \<open>
  C9: an annotation \<open>{{ $labels.name }}\<close> renders to the value of the label
  \<open>name\<close>, and to \<open><no value>\<close> when the series has no such label (Go's default for
  a missing map key; the specification says the empty string).
\<close>

theorem annotation_label_lookup:
  assumes "gomap_wf raw" and "map_of raw k = Some (''{{ $labels.'' @ name @ '' }}'')"
    and "is_field name" and "gomap_wf labels"
  shows "map_of (renderAnnotations (frag_engine fmt) raw labels v) k =
           Some (case map_of labels name of Some x \<Rightarrow> x | None \<Rightarrow> ''<no value>'')"
  using assms(2) render_one_label [OF assms(3,4)]
  by (simp add: renderAnnotations_eq [OF assms(1)] map_of_map_pair)

theorem annotation_label_lookup_witness:
  "gomap_wf [(''summary'', ''{{ $labels.severity }}'')] \<and>
   map_of [(''summary'', ''{{ $labels.severity }}'')] ''summary'' = Some (''{{ $labels.'' @ ''severity'' @ '' }}'') \<and>
   is_field ''severity'' \<and> gomap_wf [(''job'', ''api'')] \<and>
   map_of (renderAnnotations (frag_engine nat_dec) [(''summary'', ''{{ $labels.severity }}'')]
     [(''job'', ''api'')] (1::nat)) ''summary'' = Some ''<no value>''"
  using annotation_label_lookup [of "[(''summary'', ''{{ $labels.severity }}'')]" "''summary''"
      "''severity''" "[(''job'', ''api'')]" nat_dec "1::nat"]
  by (simp add: gomap_wf_def is_field_def ident_char_def is_digit_def)

section \<open>Inputs the specification leaves open\<close>

text \<open>
  C18: with any \<open>for\<close> that \<open>time.ParseDuration\<close> reads as negative (such as
  \<open>-1m\<close>), every series with a single sample is \<open>PENDING\<close> and the call does not
  panic, although its elapsed time 0 reaches the \<open>for\<close> duration and the
  specification's rule (\<open>spec_state\<close>) would make it fire.
\<close>

theorem negative_for_single_sample:
  assumes "forDuration (For rule) <s 0" and "i < length m" and "length (Values (m ! i)) = 1"
  shows "\<exists>rs. calculateAlerts E m rule = Inr rs \<and> ar_State (rs ! i) = StatePending \<and>
    spec_state (forDuration (For rule)) (elapsed (m ! i)) = StateFiring"
proof -
  have nz: "forDuration (For rule) \<noteq> 0" using assms(1) by auto
  then obtain rs where rs: "calculateAlerts E m rule = Inr rs"
    using calculateAlerts_no_panic by blast
  have "alert_of_stream E rule (forDuration (For rule)) (m ! i) = Inr (rs ! i)"
    using calculateAlerts_nth [OF rs] assms(2) by blast
  from this [symmetric] have "ar_State (rs ! i) = StatePending"
    using nz assms(3) by (auto simp: alert_of_stream_def Let_def split: if_splits sum.splits)
  moreover have "spec_state (forDuration (For rule)) (elapsed (m ! i)) = StateFiring"
    using assms(1,3) by (simp add: spec_state_def elapsed_def word_sless_alt word_sle_eq)
  ultimately show ?thesis using rs by blast
qed

theorem negative_for_single_sample_witness:
  "forDuration (For (ex_rule ''-1m'' [])) <s 0 \<and> 0 < length [ex_single] \<and>
   length (Values ([ex_single] ! 0)) = 1 \<and>
   (\<exists>rs. calculateAlerts ex_engine [ex_single] (ex_rule ''-1m'' []) = Inr rs \<and>
      ar_State (rs ! 0) = StatePending \<and>
      spec_state (forDuration (For (ex_rule ''-1m'' []))) (elapsed ([ex_single] ! 0)) = StateFiring)"
proof -
  have f: "forDuration (For (ex_rule ''-1m'' [])) <s 0"
    by (simp add: ex_rule_def forDuration_def ParseDuration_eval word_sless_alt)
  have l: "length (Values ([ex_single] ! 0)) = 1" by (simp add: ex_single_def)
  show ?thesis using negative_for_single_sample [OF f _ l, of ex_engine] f l by simp
qed

text \<open>
  C19: under a \<open>for\<close> of 0, a series with two samples or more whose last timestamp
  is older than its first gets a negative elapsed time and is \<open>PENDING\<close>: instant
  firing holds only for chronological series.
\<close>

theorem unordered_samples_instant_rule:
  assumes "calculateAlerts E m rule = Inr rs" and "forDuration (For rule) = 0"
    and "i < length m" and "2 \<le> length (Values (m ! i))"
    and "sint (Timestamp (last (Values (m ! i)))) < sint (Timestamp (hd (Values (m ! i))))"
  shows "ar_State (rs ! i) = StatePending \<and> ar_Duration (rs ! i) <s 0"
proof -
  have a: "Inr (rs ! i) = alert_of_stream E rule 0 (m ! i)"
    using calculateAlerts_nth [OF assms(1)] assms(2,3) by simp
  have "sint (Time_Sub (Timestamp_Time (Timestamp (last (Values (m ! i)))))
                    (Timestamp_Time (Timestamp (hd (Values (m ! i)))))) < 0"
    using assms(5) by (simp add: sint_Time_Sub Timestamp_Time_eq int64_min_def int64_max_def)
  with a show ?thesis
    using assms(4) by (auto simp: alert_of_stream_def Let_def word_sle_eq word_sless_alt)
qed

theorem unordered_samples_instant_rule_witness:
  "calculateAlerts ex_engine
     [\<lparr>Metric = [(''job'', ''api'')], Values = [\<lparr>Timestamp = 0, Value = 1\<rparr>, \<lparr>Timestamp = - 60000, Value = 1\<rparr>]\<rparr>]
     (ex_rule ''0s'' []) =
   Inr [\<lparr>ar_Metric = [(''job'', ''api'')], ar_Duration = - 60000000000, ar_State = StatePending,
         ar_Annotations = []\<rparr>] \<and>
   forDuration (For (ex_rule ''0s'' [])) = 0 \<and>
   ar_State ([\<lparr>ar_Metric = [(''job'', ''api'')], ar_Duration = - 60000000000, ar_State = StatePending,
         ar_Annotations = []\<rparr>] ! 0) = StatePending"
proof -
  let ?s = "\<lparr>Metric = [(''job'', ''api'')], Values = [\<lparr>Timestamp = 0, Value = (1::nat)\<rparr>,
              \<lparr>Timestamp = - 60000, Value = 1\<rparr>]\<rparr>"
  let ?r = "\<lparr>ar_Metric = [(''job'', ''api'')], ar_Duration = - 60000000000, ar_State = StatePending,
         ar_Annotations = []\<rparr>"
  have run: "calculateAlerts ex_engine [?s] (ex_rule ''0s'' []) = Inr [?r]"
    by (simp add: ex_engine_def ex_rule_def) code_simp
  have f: "forDuration (For (ex_rule ''0s'' [])) = 0" by (simp add: ex_rule_def forDuration_0s)
  have "ar_State ([?r] ! 0) = StatePending \<and> ar_Duration ([?r] ! 0) <s 0"
    by (rule unordered_samples_instant_rule [OF run f]) simp_all
  with run f show ?thesis by simp
qed

end
